theory Spec2Isabelle
  imports Main
begin

section \<open>The Workload resource\<close>

text \<open>
  The typed struct the workload commands build and submit (package cartov1alpha1, as its
  struct literals appear in the command tests). Only the fields the commands read or write
  are kept. A Go map is a partial function; a Go pointer that may be nil is an option.
  \<open>ServiceClaimAnnotations\<close> is the decoded content of the annotation that holds the
  extensions of the service claims, by claim name.
\<close>

record GitRef =
  Branch :: string
  Tag :: string
  Commit :: string

record GitSource =
  URL :: string
  Ref :: GitRef

record Source =
  Git :: "GitSource option"
  Image :: string
  Subpath :: string

record MavenSource =
  ArtifactId :: string
  GroupId :: string
  Version :: string
  Type :: "string option"

text \<open>
  A parameter value is raw JSON in the resource. The shapes the commands produce are told
  apart: a JSON string, the string map under the reserved key \<open>annotations\<close> (its
  entries as a list of pairs), the maven coordinates, and any other document (kept as it
  was parsed).
\<close>

datatype JSON =
    JSONString string
  | JSONStringMap "(string \<times> string) list"
  | JSONMaven MavenSource
  | JSONObject string

record Param =
  Name :: string
  Value :: JSON

record EnvVar =
  Name :: string
  Value :: string

record ObjectReference =
  APIVersion :: string
  Kind :: string
  Name :: string

record WorkloadServiceClaim =
  Name :: string
  Ref :: ObjectReference

record ResourceRequirements =
  Limits :: "string \<rightharpoonup> string"
  Requests :: "string \<rightharpoonup> string"

record WorkloadSpec =
  Params :: "Param list"
  BuildEnv :: "EnvVar list"
  Env :: "EnvVar list"
  Image :: string
  ServiceAccountName :: "string option"
  ServiceClaims :: "WorkloadServiceClaim list"
  Source :: "Source option"
  Resources :: "ResourceRequirements option"

datatype ConditionStatus = ConditionTrue | ConditionFalse | ConditionUnknown

record Condition =
  Type :: string
  Status :: ConditionStatus
  Reason :: string
  Message :: string

record Workload =
  Name :: string
  Namespace :: string
  Labels :: "string \<rightharpoonup> string"
  Annotations :: "string \<rightharpoonup> string"
  ServiceClaimAnnotations :: "string \<rightharpoonup> string"
  Spec :: WorkloadSpec
  Conditions :: "Condition list"

definition emptySpec :: WorkloadSpec where
  "emptySpec = \<lparr>Params = [], BuildEnv = [], Env = [], Image = [], ServiceAccountName = None,
     ServiceClaims = [], Source = None, Resources = None\<rparr>"

definition emptyWorkload :: Workload where
  \<comment> \<open>\<open>&cartov1alpha1.Workload{}\<close>: the zero value.\<close>
  "emptyWorkload = \<lparr>Name = [], Namespace = [], Labels = Map.empty, Annotations = Map.empty,
     ServiceClaimAnnotations = Map.empty, Spec = emptySpec, Conditions = []\<rparr>"

section \<open>Errors\<close>

text \<open>
  Go error values as data. A Kubernetes API error carries its reason, which is what
  \<open>apierrs.IsNotFound\<close> and \<open>apierrs.IsConflict\<close> test. \<open>cli.SilenceError\<close> wraps an error
  so that the caller does not print it again.
\<close>

datatype StatusReason = NotFound | Conflict | AlreadyExists | OtherReason string

datatype FieldError = ErrMissingField string | OtherFieldError string

datatype error =
    StatusError StatusReason string
  | ErrorString string
  | WrapError string error
  | DeadlineExceeded
  | ErrNotExist
  | Aggregate "FieldError list"
  | SilenceError error

fun IsNotFound :: "error \<Rightarrow> bool" where
  "IsNotFound (StatusError NotFound m) = True"
| "IsNotFound e = False"

fun IsConflict :: "error \<Rightarrow> bool" where
  "IsConflict (StatusError Conflict m) = True"
| "IsConflict e = False"

fun FieldError_string :: "FieldError \<Rightarrow> string" where
  "FieldError_string (ErrMissingField f) = ''missing field(s): '' @ f"
| "FieldError_string (OtherFieldError m) = m"

fun Error :: "error \<Rightarrow> string" where
  \<comment> \<open>The \<open>Error()\<close> method: what \<open>%s\<close> prints for an error.\<close>
  "Error (StatusError r m) = m"
| "Error (ErrorString m) = m"
| "Error (WrapError m e) = m @ Error e"
| "Error DeadlineExceeded = ''context deadline exceeded''"
| "Error ErrNotExist = ''file does not exist''"
| "Error (Aggregate fs) = concat (map FieldError_string fs)"
| "Error (SilenceError e) = Error e"

text \<open>A function that may panic either returns a value or does not return at all.\<close>

datatype 'a outcome = Returns 'a | Panics

section \<open>Options, context and configuration\<close>

type_synonym Duration = nat

record WorkloadOptions =
  Namespace :: string
  Name :: string
  App :: string
  Type :: string
  Labels :: "string list"
  Annotations :: "string list"
  Params :: "string list"
  ParamsYaml :: "string list"
  Debug :: bool
  LiveUpdate :: bool
  FilePath :: string
  GitRepo :: string
  GitCommit :: string
  GitBranch :: string
  GitTag :: string
  SourceImage :: string
  LocalPath :: string
  ExcludePathFile :: string
  Image :: string
  SubPath :: string
  BuildEnv :: "string list"
  Env :: "string list"
  ServiceRefs :: "string list"
  ServiceAccountName :: string
  LimitCPU :: string
  LimitMemory :: string
  MavenGroup :: string
  MavenArtifact :: string
  MavenVersion :: string
  MavenType :: string
  CACertPaths :: "string list"
  RegistryUsername :: string
  RegistryPassword :: string
  RegistryToken :: string
  RequestCPU :: string
  RequestMemory :: string
  Wait :: bool
  WaitTimeout :: Duration
  Tail :: bool
  TailTimestamps :: bool
  DryRun :: bool
  Yes :: bool

text \<open>
  The context carries the command's flag set (which flags were changed on the command
  line) and the notices stashed for the workload.
\<close>

record Context =
  Changed :: "string list"
  Notices :: "string list"

definition Flags_Changed :: "Context \<Rightarrow> string \<Rightarrow> bool" where
  "Flags_Changed ctx name = (name \<in> set (Changed ctx))"

definition StashWorkloadNotice :: "Context \<Rightarrow> string \<Rightarrow> Context" where
  "StashWorkloadNotice ctx msg = ctx\<lparr>Notices := Notices ctx @ [msg]\<rparr>"

definition GetNotices :: "Context \<Rightarrow> string list" where
  "GetNotices ctx = Notices ctx"

text \<open>
  What a command prints is kept as the list of print calls, each tagged with the method
  of \<open>cli.Config\<close> that made it. The client's calls are kept in the order they were made.
\<close>

datatype Printer = Printf | Infof | Errorf | Eprintf | Successf | Stdout

text \<open>
  The two closures \<open>Exec\<close> hands to \<open>wait.Race\<close>, with the values they capture: the
  watcher of the Ready condition (name and namespace of the workload), and the log tailer
  (namespace, label selector, whether timestamps are shown).
\<close>

datatype Worker =
    ReadyConditionWorker string string
  | TailWorker string string bool

datatype ClientCall =
    CallGet string string
  | CallGetNamespace string
  | CallCreate Workload
  | CallUpdate Workload

text \<open>
  What the user sees and what is sent to the cluster to be written, as one sequence:
  a line printed, a question asked, a workload submitted with the client's Create, a
  workload submitted with the client's Update.
\<close>

datatype Event =
    Printed Printer string
  | Prompted string
  | SubmittedCreate Workload
  | SubmittedUpdate Workload

text \<open>
  The configuration \<open>c\<close>: the cluster behind \<open>c.Client\<close> (its workloads and namespaces,
  and the failure the API server answers a verb with, if any), standard input, the files
  that can be opened, the answers the user gives to the prompts, and the logs of what was
  printed, asked and sent and of the workers that were started (each call of \<open>wait.Race\<close>
  with its timeout and its workers). \<open>Output\<close>, \<open>Prompts\<close> and \<open>Calls\<close> each keep one
  kind of action; \<open>History\<close> keeps the lines printed, the questions asked and the
  workloads submitted to be written together, in the order in which the command did them
  (the reads of the cluster are in \<open>Calls\<close> only). \<open>SilenceUsage\<close> is the field of the
  cobra command reached through the context.
\<close>

record Config =
  Workloads :: "Workload list"
  Namespaces :: "string list"
  DefaultNamespace :: string
  GetFailure :: "error option"
  GetNamespaceFailure :: "error option"
  CreateFailure :: "error option"
  UpdateFailure :: "error option"
  Stdin :: string
  Files :: "string \<Rightarrow> error + string"
  Answers :: "bool option list"
  Output :: "(Printer \<times> string) list"
  Prompts :: "string list"
  Calls :: "ClientCall list"
  History :: "Event list"
  Races :: "(Duration \<times> Worker list) list"
  SilenceUsage :: bool

definition print :: "Printer \<Rightarrow> string \<Rightarrow> Config \<Rightarrow> Config" where
  "print p s c = c\<lparr>Output := Output c @ [(p, s)], History := History c @ [Printed p s]\<rparr>"

definition quote :: "string \<Rightarrow> string" where
  \<comment> \<open>The verb \<open>%q\<close> on a string without characters that need an escape.\<close>
  "quote s = [CHR 0x22] @ s @ [CHR 0x22]"

definition Serrorf :: "string \<Rightarrow> string" where
  \<comment> \<open>\<open>printer.Serrorf\<close> colours its text; the characters are unchanged.\<close>
  "Serrorf s = s"

subsection \<open>The Kubernetes client\<close>

definition sameKey :: "string \<Rightarrow> string \<Rightarrow> Workload \<Rightarrow> bool" where
  "sameKey ns n w = (Workload.Namespace w = ns \<and> Workload.Name w = n)"

definition client_Get :: "string \<Rightarrow> string \<Rightarrow> Config \<Rightarrow> Config \<times> (error + Workload)" where
  "client_Get ns n c =
     (let c' = c\<lparr>Calls := Calls c @ [CallGet ns n]\<rparr> in
      case GetFailure c of
        Some e \<Rightarrow> (c', Inl e)
      | None \<Rightarrow>
          (case find (sameKey ns n) (Workloads c) of
             Some w \<Rightarrow> (c', Inr w)
           | None \<Rightarrow> (c', Inl (StatusError NotFound (''workloads '' @ quote n @ '' not found'')))))"

definition client_GetNamespace :: "string \<Rightarrow> Config \<Rightarrow> Config \<times> error option" where
  "client_GetNamespace n c =
     (let c' = c\<lparr>Calls := Calls c @ [CallGetNamespace n]\<rparr> in
      case GetNamespaceFailure c of
        Some e \<Rightarrow> (c', Some e)
      | None \<Rightarrow>
          if n \<in> set (Namespaces c) then (c', None)
          else (c', Some (StatusError NotFound (''namespaces '' @ quote n @ '' not found''))))"

definition client_Create :: "Workload \<Rightarrow> Config \<Rightarrow> Config \<times> error option" where
  "client_Create w c =
     (let c' = c\<lparr>Calls := Calls c @ [CallCreate w], History := History c @ [SubmittedCreate w]\<rparr> in
      case CreateFailure c of
        Some e \<Rightarrow> (c', Some e)
      | None \<Rightarrow>
          if find (sameKey (Workload.Namespace w) (Workload.Name w)) (Workloads c) \<noteq> None
          then (c', Some (StatusError AlreadyExists (''workloads '' @ quote (Workload.Name w) @ '' already exists'')))
          else (c'\<lparr>Workloads := Workloads c @ [w]\<rparr>, None))"

definition client_Update :: "Workload \<Rightarrow> Config \<Rightarrow> Config \<times> error option" where
  "client_Update w c =
     (let c' = c\<lparr>Calls := Calls c @ [CallUpdate w], History := History c @ [SubmittedUpdate w]\<rparr> in
      case UpdateFailure c of
        Some e \<Rightarrow> (c', Some e)
      | None \<Rightarrow>
          if find (sameKey (Workload.Namespace w) (Workload.Name w)) (Workloads c) = None
          then (c', Some (StatusError NotFound (''workloads '' @ quote (Workload.Name w) @ '' not found'')))
          else (c'\<lparr>Workloads :=
                  map (\<lambda>v. if sameKey (Workload.Namespace w) (Workload.Name w) v then w else v) (Workloads c)\<rparr>,
                None))"

text \<open>The calls that read the cluster and do not write to it.\<close>

fun isRead :: "ClientCall \<Rightarrow> bool" where
  "isRead (CallGet ns n) = True"
| "isRead (CallGetNamespace n) = True"
| "isRead (CallCreate w) = False"
| "isRead (CallUpdate w) = False"

text \<open>The events that send a workload to the cluster to be written.\<close>

fun isSubmission :: "Event \<Rightarrow> bool" where
  "isSubmission (Printed p s) = False"
| "isSubmission (Prompted msg) = False"
| "isSubmission (SubmittedCreate w) = True"
| "isSubmission (SubmittedUpdate w) = True"

subsection \<open>Prompts\<close>

text \<open>
  \<open>survey.AskOne\<close> with a \<open>survey.Confirm\<close>: the question is shown and the next answer
  is read. \<open>Some b\<close> is the user's answer; \<open>None\<close>, or no answer left, is a failed read,
  which leaves the variable at its initial value \<open>False\<close>.
\<close>

definition AskOne :: "string \<Rightarrow> Config \<Rightarrow> Config \<times> bool \<times> bool" where
  "AskOne msg c =
     (let c' = c\<lparr>Prompts := Prompts c @ [msg], History := History c @ [Prompted msg]\<rparr> in
      case Answers c of
        [] \<Rightarrow> (c', True, False)
      | None # rest \<Rightarrow> (c'\<lparr>Answers := rest\<rparr>, True, False)
      | Some b # rest \<Rightarrow> (c'\<lparr>Answers := rest\<rparr>, False, b))"

section \<open>Functions of other packages\<close>

text \<open>
  The commands call into packages that are not part of the sources under verification
  (the YAML decoder and differ, the resource validation, the quantity and duration
  formats of the Kubernetes and Go libraries, the image push, the wait package). They
  are parameters of the model: a theorem holds for whatever these functions compute.
\<close>

record RegistryOpts =
  CACertPaths :: "string list"
  RegistryUsername :: string
  RegistryPassword :: string
  RegistryToken :: string

record Library =
  ResourceDiff :: "Workload option \<Rightarrow> Workload \<Rightarrow> error + (string \<times> bool)"
  DeprecationWarnings :: "Workload \<Rightarrow> string list"
  Load :: "string \<Rightarrow> Workload \<Rightarrow> error + Workload"
  Validate :: "Workload \<Rightarrow> FieldError list"
  DryRunResource :: "Workload \<Rightarrow> string"
  JsonYamlToObject :: "string \<Rightarrow> error + JSON"
  ParseQuantity :: "string \<Rightarrow> string option"
  ObjectReference :: "string \<Rightarrow> ObjectReference"
  ObjectReferenceAnnotation :: "string \<Rightarrow> string option"
  DurationString :: "Duration \<Rightarrow> string"
  WorkloadLabelName :: string
  Join :: "string \<Rightarrow> string \<Rightarrow> string"
  IsDir :: "string \<Rightarrow> bool"
  IsZip :: "string \<Rightarrow> bool"
  TempDir :: "error + string"
  ExtractZip :: "string \<Rightarrow> string \<Rightarrow> error option"
  ImgpkgPush :: "string \<Rightarrow> string list \<Rightarrow> RegistryOpts \<Rightarrow> string \<Rightarrow> error + string"
  Race :: "Duration \<Rightarrow> Worker list \<Rightarrow> error option outcome"

section \<open>Flag names\<close>

text \<open>The constants of package \<open>flags\<close> that the modelled functions use.\<close>

definition YesFlagName :: string where "YesFlagName = ''--yes''"
definition NamespaceFlagName :: string where "NamespaceFlagName = ''--namespace''"
definition SourceImageFlagName :: string where "SourceImageFlagName = ''--source-image''"
definition DebugFlagName :: string where "DebugFlagName = ''--debug''"
definition LiveUpdateFlagName :: string where "LiveUpdateFlagName = ''--live-update''"
definition SubPathFlagName :: string where "SubPathFlagName = ''--sub-path''"
definition ServiceAccountFlagName :: string where "ServiceAccountFlagName = ''--service-account''"
definition MavenArtifactFlagName :: string where "MavenArtifactFlagName = ''--maven-artifact''"
definition MavenVersionFlagName :: string where "MavenVersionFlagName = ''--maven-version''"
definition MavenGroupFlagName :: string where "MavenGroupFlagName = ''--maven-group''"
definition MavenTypeFlagName :: string where "MavenTypeFlagName = ''--maven-type''"

definition StripDash :: "string \<Rightarrow> string" where
  "StripDash s = dropWhile (\<lambda>ch. ch = CHR ''-'') s"

section \<open>Update and Create\<close>

fun printAll :: "Printer \<Rightarrow> string list \<Rightarrow> Config \<Rightarrow> Config" where
  "printAll p [] c = c"
| "printAll p (m # ms) c = printAll p ms (print p m c)"

text \<open>
  \<open>WorkloadOptions.Update\<close>: warnings, the diff against the current workload, the
  confirmation, and the call of the client. The result is the configuration afterwards,
  \<open>okToUpdate\<close> and the error.
\<close>

definition Update ::
  "Library \<Rightarrow> WorkloadOptions \<Rightarrow> Context \<Rightarrow> Config \<Rightarrow> Workload \<Rightarrow> Workload
     \<Rightarrow> Config \<times> bool \<times> error option" where
  "Update lib opts ctx c currentWorkload workload =
     (let c = printAll Infof
                (map (\<lambda>msg. ''WARNING: '' @ msg @ ''\<newline>'') (DeprecationWarnings lib workload)) c in
      case ResourceDiff lib (Some currentWorkload) workload of
        Inl err \<Rightarrow> (c, False, Some err)
      | Inr (difference, noChange) \<Rightarrow>
          if noChange
          then (print Infof ''Workload is unchanged, skipping update\<newline>'' c, False, None)
          else
            let c = print Printf ''Update workload:\<newline>'' c;
                c = print Printf (difference @ ''\<newline>'') c;
                c = printAll Infof
                      (map (\<lambda>msg. ''NOTICE: '' @ msg @ ''\<newline>\<newline>'') (GetNotices ctx)) c
            in
            (case (if \<not> Yes opts
                   then (if FilePath opts = ''-''
                         then Inl (print Errorf
                                (''Skipping workload, cannot confirm intent. Run command with ''
                                   @ YesFlagName
                                   @ '' flag to confirm intent when providing input from stdin\<newline>'') c,
                                False, None)
                         else (case AskOne (''Really update the workload ''
                                              @ quote (Workload.Name workload) @ ''?'') c of
                                 (c, failed, okToUpdate) \<Rightarrow>
                                   if failed \<or> \<not> okToUpdate
                                   then Inl (print Infof (''Skipping workload ''
                                               @ quote (Workload.Name workload) @ ''\<newline>'') c,
                                             okToUpdate, None)
                                   else Inr (c, okToUpdate)))
                   else Inr (c, Yes opts)) of
               Inl r \<Rightarrow> r
             | Inr (c, okToUpdate) \<Rightarrow>
                 (case client_Update workload c of
                    (c, Some err) \<Rightarrow>
                      if IsConflict err
                      then (print Printf (Serrorf ''Error:''
                              @ '' conflict updating workload, the object was modified by another user; please run the update command again\<newline>'') c,
                            False, Some (SilenceError err))
                      else (c, False, Some err)
                  | (c, None) \<Rightarrow>
                      (print Successf (''Updated workload '' @ quote (Workload.Name workload)
                         @ ''\<newline>'') c,
                       okToUpdate, None))))"

text \<open>
  \<open>WorkloadOptions.Create\<close>: warnings, the diff against nothing (the whole workload is
  shown as added), the confirmation, and the call of the client.
\<close>

definition Create ::
  "Library \<Rightarrow> WorkloadOptions \<Rightarrow> Context \<Rightarrow> Config \<Rightarrow> Workload
     \<Rightarrow> Config \<times> bool \<times> error option" where
  "Create lib opts ctx c workload =
     (let c = printAll Infof
                (map (\<lambda>msg. ''WARNING: '' @ msg @ ''\<newline>'') (DeprecationWarnings lib workload)) c in
      case ResourceDiff lib None workload of
        Inl err \<Rightarrow> (c, False, Some err)
      | Inr (diff, noChange) \<Rightarrow>
          let c = print Printf ''Create workload:\<newline>'' c;
              c = print Printf (diff @ ''\<newline>'') c;
              c = printAll Infof
                    (map (\<lambda>msg. ''NOTICE: '' @ msg @ ''\<newline>\<newline>'') (GetNotices ctx)) c
          in
          (case (if \<not> Yes opts
                 then (if FilePath opts = ''-''
                       then Inl (print Errorf
                              (''Skipping workload, cannot confirm intent. Run command with ''
                                 @ YesFlagName
                                 @ '' flag to confirm intent when providing input from stdin\<newline>'') c,
                              False, None)
                       else (case AskOne ''Do you want to create this workload?'' c of
                               (c, failed, okToCreate) \<Rightarrow>
                                 if failed \<or> \<not> okToCreate
                                 then Inl (print Infof (''Skipping workload ''
                                             @ quote (Workload.Name workload) @ ''\<newline>'') c,
                                           okToCreate, None)
                                 else Inr (c, okToCreate)))
                 else Inr (c, Yes opts)) of
             Inl r \<Rightarrow> r
           | Inr (c, okToCreate) \<Rightarrow>
               (case client_Create workload c of
                  (c, Some err) \<Rightarrow> (c, okToCreate, Some err)
                | (c, None) \<Rightarrow>
                    (print Successf (''Created workload '' @ quote (Workload.Name workload)
                       @ ''\<newline>'') c,
                     okToCreate, None))))"

text \<open>
  Two points of \<open>Update\<close> and \<open>Create\<close>, named to state what the functions have printed
  by then: the configuration after the deprecation warnings, and the configuration when
  the confirmation starts (after the title, the diff and the notices).
\<close>

definition warned :: "Library \<Rightarrow> Config \<Rightarrow> Workload \<Rightarrow> Config" where
  "warned lib c workload =
     printAll Infof (map (\<lambda>msg. ''WARNING: '' @ msg @ ''\<newline>'') (DeprecationWarnings lib workload)) c"

definition previewed :: "string \<Rightarrow> Library \<Rightarrow> Context \<Rightarrow> Config \<Rightarrow> Workload \<Rightarrow> string \<Rightarrow> Config" where
  "previewed title lib ctx c workload difference =
     printAll Infof (map (\<lambda>msg. ''NOTICE: '' @ msg @ ''\<newline>\<newline>'') (GetNotices ctx))
       (print Printf (difference @ ''\<newline>'') (print Printf title (warned lib c workload)))"

section \<open>Parsing of flag values\<close>

text \<open>
  Modelled from the spec: package \<open>parsers\<close> is not among the sources. A flag value is a
  \<open>"key=value"\<close> pair, or \<open>"key-"\<close> to remove the entry (the flags' help texts in
  \<open>DefineFlags\<close>): a value without \<open>=\<close> that ends in \<open>-\<close> yields the key alone, any other
  value is cut at its first \<open>=\<close>.
\<close>

definition KeyValue :: "string \<Rightarrow> string list" where
  "KeyValue str =
     (if CHR ''='' \<in> set str
      then [takeWhile (\<lambda>ch. ch \<noteq> CHR ''='') str, tl (dropWhile (\<lambda>ch. ch \<noteq> CHR ''='') str)]
      else [str])"

definition DeletableKeyValue :: "string \<Rightarrow> string list" where
  "DeletableKeyValue str =
     (if str \<noteq> [] \<and> last str = CHR ''-'' \<and> CHR ''='' \<notin> set str
      then [butlast str]
      else KeyValue str)"

definition DeletableEnvVar :: "string \<Rightarrow> EnvVar \<times> bool" where
  "DeletableEnvVar str =
     (case DeletableKeyValue str of
        k # v # rest \<Rightarrow> (\<lparr>EnvVar.Name = k, Value = v\<rparr>, False)
      | [k] \<Rightarrow> (\<lparr>EnvVar.Name = k, Value = []\<rparr>, True)
      | [] \<Rightarrow> (\<lparr>EnvVar.Name = [], Value = []\<rparr>, True))"

section \<open>Merging into the workload\<close>

text \<open>
  Modelled from the spec: the methods of \<open>Workload\<close> and \<open>WorkloadSpec\<close> are not among the
  sources. The spec calls the merge a field-by-field reconciliation of a typed struct: a
  merge sets the named entry or field and leaves the others as they are, a removal drops
  the named entry. Lists of named entries keep their order; a new entry goes last.
\<close>

definition mergeByName :: "('a \<Rightarrow> string) \<Rightarrow> 'a \<Rightarrow> 'a list \<Rightarrow> 'a list" where
  "mergeByName name x xs =
     (if name x \<in> set (map name xs)
      then map (\<lambda>y. if name y = name x then x else y) xs
      else xs @ [x])"

definition removeByName :: "('a \<Rightarrow> string) \<Rightarrow> string \<Rightarrow> 'a list \<Rightarrow> 'a list" where
  "removeByName name k xs = filter (\<lambda>y. name y \<noteq> k) xs"

definition lookupByName :: "('a \<Rightarrow> string) \<Rightarrow> string \<Rightarrow> 'a list \<Rightarrow> 'a option" where
  "lookupByName name k xs = find (\<lambda>y. name y = k) xs"

definition WorkloadAnnotationParam :: string where "WorkloadAnnotationParam = ''annotations''"
definition WorkloadMavenParam :: string where "WorkloadMavenParam = ''maven''"
definition AppPartOfLabelName :: string where "AppPartOfLabelName = ''app.kubernetes.io/part-of''"
definition WorkloadTypeLabelName :: string where
  "WorkloadTypeLabelName = ''apps.tanzu.vmware.com/workload-type''"
definition ResourceCPU :: string where "ResourceCPU = ''cpu''"
definition ResourceMemory :: string where "ResourceMemory = ''memory''"

definition MergeLabels :: "string \<Rightarrow> string \<Rightarrow> Workload \<Rightarrow> Workload" where
  "MergeLabels key val w = w\<lparr>Workload.Labels := (Workload.Labels w)(key \<mapsto> val)\<rparr>"

definition MergeParams :: "string \<Rightarrow> JSON \<Rightarrow> WorkloadSpec \<Rightarrow> WorkloadSpec" where
  "MergeParams key val spec =
     spec\<lparr>WorkloadSpec.Params :=
       mergeByName Param.Name \<lparr>Param.Name = key, Value = val\<rparr> (WorkloadSpec.Params spec)\<rparr>"

definition RemoveParam :: "string \<Rightarrow> WorkloadSpec \<Rightarrow> WorkloadSpec" where
  "RemoveParam key spec =
     spec\<lparr>WorkloadSpec.Params := removeByName Param.Name key (WorkloadSpec.Params spec)\<rparr>"

definition annotationParams :: "WorkloadSpec \<Rightarrow> (string \<times> string) list" where
  "annotationParams spec =
     (case lookupByName Param.Name WorkloadAnnotationParam (WorkloadSpec.Params spec) of
        Some p \<Rightarrow> (case Param.Value p of JSONStringMap m \<Rightarrow> m | _ \<Rightarrow> [])
      | None \<Rightarrow> [])"

definition MergeAnnotationParams :: "string \<Rightarrow> string \<Rightarrow> WorkloadSpec \<Rightarrow> WorkloadSpec" where
  "MergeAnnotationParams key val spec =
     MergeParams WorkloadAnnotationParam
       (JSONStringMap (mergeByName fst (key, val) (annotationParams spec))) spec"

definition RemoveAnnotationParams :: "string \<Rightarrow> WorkloadSpec \<Rightarrow> WorkloadSpec" where
  "RemoveAnnotationParams key spec =
     (let m = removeByName fst key (annotationParams spec) in
      if m = [] then RemoveParam WorkloadAnnotationParam spec
      else MergeParams WorkloadAnnotationParam (JSONStringMap m) spec)"

definition emptyMavenSource :: MavenSource where
  "emptyMavenSource = \<lparr>ArtifactId = [], GroupId = [], Version = [], Type = None\<rparr>"

definition mavenParam :: "WorkloadSpec \<Rightarrow> MavenSource" where
  "mavenParam spec =
     (case lookupByName Param.Name WorkloadMavenParam (WorkloadSpec.Params spec) of
        Some p \<Rightarrow> (case Param.Value p of JSONMaven m \<Rightarrow> m | _ \<Rightarrow> emptyMavenSource)
      | None \<Rightarrow> emptyMavenSource)"

definition MergeMavenSource :: "MavenSource \<Rightarrow> WorkloadSpec \<Rightarrow> WorkloadSpec" where
  "MergeMavenSource info spec =
     (let old = mavenParam spec in
      MergeParams WorkloadMavenParam
        (JSONMaven
          \<lparr>ArtifactId = (if ArtifactId info \<noteq> [] then ArtifactId info else ArtifactId old),
           GroupId = (if GroupId info \<noteq> [] then GroupId info else GroupId old),
           Version = (if Version info \<noteq> [] then Version info else Version old),
           Type = (if MavenSource.Type info \<noteq> None then MavenSource.Type info
                   else MavenSource.Type old)\<rparr>) spec)"

definition emptyGitSource :: GitSource where
  "emptyGitSource = \<lparr>URL = [], Ref = \<lparr>Branch = [], Tag = [], Commit = []\<rparr>\<rparr>"

definition emptySource :: Source where
  "emptySource = \<lparr>Git = None, Image = [], Subpath = []\<rparr>"

definition sourceOf :: "WorkloadSpec \<Rightarrow> Source" where
  "sourceOf spec = (case WorkloadSpec.Source spec of Some s \<Rightarrow> s | None \<Rightarrow> emptySource)"

definition MergeGit :: "GitSource \<Rightarrow> WorkloadSpec \<Rightarrow> WorkloadSpec" where
  "MergeGit git spec =
     (let src = sourceOf spec;
          old = (case Git src of Some g \<Rightarrow> g | None \<Rightarrow> emptyGitSource)
      in spec\<lparr>WorkloadSpec.Source := Some (src\<lparr>Git := Some
           \<lparr>URL = (if URL git \<noteq> [] then URL git else URL old),
            Ref = \<lparr>Branch = (if Branch (GitSource.Ref git) \<noteq> [] then Branch (GitSource.Ref git)
                             else Branch (GitSource.Ref old)),
                   Tag = (if Tag (GitSource.Ref git) \<noteq> [] then Tag (GitSource.Ref git)
                          else Tag (GitSource.Ref old)),
                   Commit = (if Commit (GitSource.Ref git) \<noteq> [] then Commit (GitSource.Ref git)
                             else Commit (GitSource.Ref old))\<rparr>\<rparr>\<rparr>)\<rparr>)"

definition MergeSourceImage :: "string \<Rightarrow> WorkloadSpec \<Rightarrow> WorkloadSpec" where
  "MergeSourceImage img spec =
     spec\<lparr>WorkloadSpec.Source := Some ((sourceOf spec)\<lparr>Source.Image := img\<rparr>)\<rparr>"

definition MergeSubPath :: "string \<Rightarrow> WorkloadSpec \<Rightarrow> WorkloadSpec" where
  "MergeSubPath subPath spec =
     spec\<lparr>WorkloadSpec.Source := Some ((sourceOf spec)\<lparr>Subpath := subPath\<rparr>)\<rparr>"

definition MergeImage :: "string \<Rightarrow> WorkloadSpec \<Rightarrow> WorkloadSpec" where
  "MergeImage img spec = spec\<lparr>WorkloadSpec.Image := img\<rparr>"

definition MergeEnv :: "EnvVar \<Rightarrow> WorkloadSpec \<Rightarrow> WorkloadSpec" where
  "MergeEnv env spec = spec\<lparr>WorkloadSpec.Env := mergeByName EnvVar.Name env (WorkloadSpec.Env spec)\<rparr>"

definition RemoveEnv :: "string \<Rightarrow> WorkloadSpec \<Rightarrow> WorkloadSpec" where
  "RemoveEnv name spec = spec\<lparr>WorkloadSpec.Env := removeByName EnvVar.Name name (WorkloadSpec.Env spec)\<rparr>"

definition MergeBuildEnv :: "EnvVar \<Rightarrow> WorkloadSpec \<Rightarrow> WorkloadSpec" where
  "MergeBuildEnv env spec =
     spec\<lparr>WorkloadSpec.BuildEnv := mergeByName EnvVar.Name env (WorkloadSpec.BuildEnv spec)\<rparr>"

definition RemoveBuildEnv :: "string \<Rightarrow> WorkloadSpec \<Rightarrow> WorkloadSpec" where
  "RemoveBuildEnv name spec =
     spec\<lparr>WorkloadSpec.BuildEnv := removeByName EnvVar.Name name (WorkloadSpec.BuildEnv spec)\<rparr>"

definition NewServiceClaim :: "string \<Rightarrow> ObjectReference \<Rightarrow> WorkloadServiceClaim" where
  "NewServiceClaim name ref = \<lparr>WorkloadServiceClaim.Name = name, Ref = ref\<rparr>"

definition MergeServiceClaim :: "WorkloadServiceClaim \<Rightarrow> WorkloadSpec \<Rightarrow> WorkloadSpec" where
  "MergeServiceClaim sc spec =
     spec\<lparr>ServiceClaims := mergeByName WorkloadServiceClaim.Name sc (ServiceClaims spec)\<rparr>"

definition DeleteServiceClaim :: "string \<Rightarrow> WorkloadSpec \<Rightarrow> WorkloadSpec" where
  "DeleteServiceClaim name spec =
     spec\<lparr>ServiceClaims := removeByName WorkloadServiceClaim.Name name (ServiceClaims spec)\<rparr>"

definition MergeServiceClaimAnnotation :: "string \<Rightarrow> string \<Rightarrow> Workload \<Rightarrow> Workload" where
  "MergeServiceClaimAnnotation name val w =
     w\<lparr>ServiceClaimAnnotations := (ServiceClaimAnnotations w)(name \<mapsto> val)\<rparr>"

definition DeleteServiceClaimAnnotation :: "string \<Rightarrow> Workload \<Rightarrow> Workload" where
  "DeleteServiceClaimAnnotation name w =
     w\<lparr>ServiceClaimAnnotations := (ServiceClaimAnnotations w)(name := None)\<rparr>"

definition emptyResources :: ResourceRequirements where
  "emptyResources = \<lparr>Limits = Map.empty, Requests = Map.empty\<rparr>"

definition MergeResources :: "ResourceRequirements \<Rightarrow> WorkloadSpec \<Rightarrow> WorkloadSpec" where
  "MergeResources r spec =
     (let old = (case Resources spec of Some x \<Rightarrow> x | None \<Rightarrow> emptyResources) in
      spec\<lparr>Resources := Some \<lparr>Limits = Limits old ++ Limits r, Requests = Requests old ++ Requests r\<rparr>\<rparr>)"

definition MergeServiceAccountName :: "string \<Rightarrow> WorkloadSpec \<Rightarrow> WorkloadSpec" where
  \<comment> \<open>The flag's help text: to unset, pass the empty string.\<close>
  "MergeServiceAccountName name spec =
     spec\<lparr>WorkloadSpec.ServiceAccountName := (if name = [] then None else Some name)\<rparr>"

definition onSpec :: "(WorkloadSpec \<Rightarrow> WorkloadSpec) \<Rightarrow> Workload \<Rightarrow> Workload" where
  \<comment> \<open>A method called on \<open>workload.Spec\<close>.\<close>
  "onSpec f w = w\<lparr>Spec := f (Spec w)\<rparr>"

section \<open>ApplyOptionsToWorkload\<close>

text \<open>
  \<open>WorkloadOptions.ApplyOptionsToWorkload\<close> block by block, in the order of the source.
  Indexing a slice out of range panics, as do \<open>panic(err)\<close> and \<open>resource.MustParse\<close>
  on a value that does not parse.
\<close>

fun forEach :: "('a \<Rightarrow> 's \<Rightarrow> 's outcome) \<Rightarrow> 'a list \<Rightarrow> 's \<Rightarrow> 's outcome" where
  "forEach f [] s = Returns s"
| "forEach f (x # xs) s = (case f x s of Panics \<Rightarrow> Panics | Returns s' \<Rightarrow> forEach f xs s')"

definition applyLabel :: "string \<Rightarrow> Workload \<Rightarrow> Workload outcome" where
  "applyLabel label workload =
     (let parts = DeletableKeyValue label in
      if length parts = 1
      then Returns (workload\<lparr>Workload.Labels := (Workload.Labels workload)(parts ! 0 := None)\<rparr>)
      else if length parts < 2 then Panics
      else Returns (MergeLabels (parts ! 0) (parts ! 1) workload))"

definition applyAnnotation :: "string \<Rightarrow> Workload \<Rightarrow> Workload outcome" where
  "applyAnnotation annotation workload =
     (let kv = DeletableKeyValue annotation in
      if length kv = 1
      then Returns (onSpec (RemoveAnnotationParams (kv ! 0)) workload)
      else if length kv < 2 then Panics
      else Returns (onSpec (MergeAnnotationParams (kv ! 0) (kv ! 1)) workload))"

definition applyParam :: "string \<Rightarrow> Workload \<Rightarrow> Workload outcome" where
  "applyParam p workload =
     (let kv = DeletableKeyValue p in
      if length kv = 1
      then Returns (onSpec (RemoveParam (kv ! 0)) workload)
      else if length kv < 2 then Panics
      else Returns (onSpec (MergeParams (kv ! 0) (JSONString (kv ! 1))) workload))"

definition applyMaven :: "WorkloadOptions \<Rightarrow> Context \<Rightarrow> Workload \<Rightarrow> bool \<times> Workload" where
  "applyMaven opts ctx workload =
     (if MavenArtifact opts \<noteq> [] \<or> MavenVersion opts \<noteq> [] \<or> MavenGroup opts \<noteq> []
         \<or> MavenType opts \<noteq> []
      then
        (True, onSpec (MergeMavenSource
           \<lparr>ArtifactId = (if Flags_Changed ctx (StripDash MavenArtifactFlagName)
                          then MavenArtifact opts else []),
            GroupId = (if Flags_Changed ctx (StripDash MavenGroupFlagName)
                       then MavenGroup opts else []),
            Version = (if Flags_Changed ctx (StripDash MavenVersionFlagName)
                       then MavenVersion opts else []),
            Type = (if Flags_Changed ctx (StripDash MavenTypeFlagName)
                    then Some (MavenType opts) else None)\<rparr>) workload)
      else (False, workload))"

definition MavenOverwrittenNoticeMsg :: string where
  "MavenOverwrittenNoticeMsg =
     ''Maven configuration flags have overwritten values provided by '' @ quote ''--params-yaml'' @ ''.''"

definition applyParamYaml ::
  "Library \<Rightarrow> bool \<Rightarrow> string \<Rightarrow> Context \<times> Workload \<Rightarrow> (Context \<times> Workload) outcome" where
  "applyParamYaml lib mavenSourceViaFlags p s =
     (case s of (ctx, workload) \<Rightarrow>
        let kv = DeletableKeyValue p in
        if length kv = 1
        then Returns (ctx, onSpec (RemoveParam (kv ! 0)) workload)
        else if length kv < 1 then Panics
        else if kv ! 0 = WorkloadMavenParam \<and> mavenSourceViaFlags
        then Returns (StashWorkloadNotice ctx MavenOverwrittenNoticeMsg, workload)
        else if length kv < 2 then Panics
        else (case JsonYamlToObject lib (kv ! 1) of
                Inl err \<Rightarrow> Panics
              | Inr obj \<Rightarrow> Returns (ctx, onSpec (MergeParams (kv ! 0) obj) workload)))"

definition applyModes :: "WorkloadOptions \<Rightarrow> Context \<Rightarrow> Workload \<Rightarrow> Workload" where
  "applyModes opts ctx workload =
     (let workload = (if App opts \<noteq> [] then MergeLabels AppPartOfLabelName (App opts) workload
                      else workload);
          workload = (if WorkloadOptions.Type opts \<noteq> []
                      then MergeLabels WorkloadTypeLabelName (WorkloadOptions.Type opts) workload
                      else workload);
          workload = (if Debug opts
                      then onSpec (MergeParams ''debug'' (JSONString ''true'')) workload
                      else if Flags_Changed ctx (StripDash DebugFlagName)
                      then onSpec (RemoveParam ''debug'') workload
                      else workload)
      in (if LiveUpdate opts
          then onSpec (MergeParams ''live-update'' (JSONString ''true'')) workload
          else if Flags_Changed ctx (StripDash LiveUpdateFlagName)
          then onSpec (RemoveParam ''live-update'') workload
          else workload))"

definition applySources :: "WorkloadOptions \<Rightarrow> Context \<Rightarrow> Workload \<Rightarrow> Workload" where
  "applySources opts ctx workload =
     (let workload = (if GitRepo opts \<noteq> [] \<or> GitBranch opts \<noteq> [] \<or> GitCommit opts \<noteq> []
                         \<or> GitTag opts \<noteq> []
                      then onSpec (MergeGit
                             \<lparr>URL = GitRepo opts,
                              Ref = \<lparr>Branch = GitBranch opts, Tag = GitTag opts,
                                     Commit = GitCommit opts\<rparr>\<rparr>) workload
                      else workload);
          workload = (if SourceImage opts \<noteq> []
                      then onSpec (MergeSourceImage (SourceImage opts)) workload
                      else workload);
          workload = (if Flags_Changed ctx (StripDash SubPathFlagName)
                      then onSpec (MergeSubPath (SubPath opts)) workload
                      else workload)
      in (if WorkloadOptions.Image opts \<noteq> []
          then onSpec (MergeImage (WorkloadOptions.Image opts)) workload
          else workload))"

definition applyEnv :: "string \<Rightarrow> Workload \<Rightarrow> Workload outcome" where
  "applyEnv ev workload =
     (case DeletableEnvVar ev of
        (env, delete) \<Rightarrow>
          if delete then Returns (onSpec (RemoveEnv (EnvVar.Name env)) workload)
          else Returns (onSpec (MergeEnv env) workload))"

definition applyBuildEnv :: "string \<Rightarrow> Workload \<Rightarrow> Workload outcome" where
  "applyBuildEnv ev workload =
     (case DeletableEnvVar ev of
        (env, delete) \<Rightarrow>
          if delete then Returns (onSpec (RemoveBuildEnv (EnvVar.Name env)) workload)
          else Returns (onSpec (MergeBuildEnv env) workload))"

definition applyServiceRef :: "Library \<Rightarrow> string \<Rightarrow> Workload \<Rightarrow> Workload outcome" where
  "applyServiceRef lib ref workload =
     (let parts = DeletableKeyValue ref in
      if length parts < 1 then Panics
      else
        let serviceRefKey = parts ! 0 in
        if length parts = 1
        then Returns (DeleteServiceClaimAnnotation serviceRefKey
                        (onSpec (DeleteServiceClaim serviceRefKey) workload))
        else
          let deleteValue = parts ! 1;
              workload = onSpec (MergeServiceClaim
                           (NewServiceClaim serviceRefKey (ObjectReference lib deleteValue))) workload
          in (case ObjectReferenceAnnotation lib deleteValue of
                Some serviceClaimAnnotationValue \<Rightarrow>
                  Returns (MergeServiceClaimAnnotation serviceRefKey serviceClaimAnnotationValue workload)
              | None \<Rightarrow> Returns (DeleteServiceClaimAnnotation serviceRefKey workload)))"

definition applyQuantity ::
  "Library \<Rightarrow> string \<Rightarrow> bool \<Rightarrow> string \<Rightarrow> Workload \<Rightarrow> Workload outcome" where
  \<comment> \<open>One of the four resource blocks: does nothing for an unset flag; \<open>limit\<close> tells
      \<open>Limits\<close> from \<open>Requests\<close>.\<close>
  "applyQuantity lib val limit resource workload =
     (if val \<noteq> []
      then (case ParseQuantity lib val of
              None \<Rightarrow> Panics
            | Some q \<Rightarrow>
                Returns (onSpec (MergeResources
                  (if limit then \<lparr>Limits = [resource \<mapsto> q], Requests = Map.empty\<rparr>
                   else \<lparr>Limits = Map.empty, Requests = [resource \<mapsto> q]\<rparr>)) workload))
      else Returns workload)"

definition applyResources :: "Library \<Rightarrow> WorkloadOptions \<Rightarrow> Workload \<Rightarrow> Workload outcome" where
  "applyResources lib opts workload =
     (case applyQuantity lib (LimitCPU opts) True ResourceCPU workload of
        Panics \<Rightarrow> Panics
      | Returns workload \<Rightarrow>
     (case applyQuantity lib (LimitMemory opts) True ResourceMemory workload of
        Panics \<Rightarrow> Panics
      | Returns workload \<Rightarrow>
     (case applyQuantity lib (RequestCPU opts) False ResourceCPU workload of
        Panics \<Rightarrow> Panics
      | Returns workload \<Rightarrow>
          applyQuantity lib (RequestMemory opts) False ResourceMemory workload)))"

definition applyServiceAccount :: "WorkloadOptions \<Rightarrow> Context \<Rightarrow> Workload \<Rightarrow> Workload" where
  "applyServiceAccount opts ctx workload =
     (if Flags_Changed ctx (StripDash ServiceAccountFlagName)
      then onSpec (MergeServiceAccountName (WorkloadOptions.ServiceAccountName opts)) workload
      else workload)"

definition ApplyOptionsToWorkload ::
  "Library \<Rightarrow> WorkloadOptions \<Rightarrow> Context \<Rightarrow> Workload \<Rightarrow> (Context \<times> Workload) outcome" where
  "ApplyOptionsToWorkload lib opts ctx workload =
     (case forEach applyLabel (WorkloadOptions.Labels opts) workload of
        Panics \<Rightarrow> Panics
      | Returns workload \<Rightarrow>
     (case forEach applyAnnotation (WorkloadOptions.Annotations opts) workload of
        Panics \<Rightarrow> Panics
      | Returns workload \<Rightarrow>
     (case forEach applyParam (WorkloadOptions.Params opts) workload of
        Panics \<Rightarrow> Panics
      | Returns workload \<Rightarrow>
     (case applyMaven opts ctx workload of
        (mavenSourceViaFlags, workload) \<Rightarrow>
     (case forEach (applyParamYaml lib mavenSourceViaFlags) (ParamsYaml opts) (ctx, workload) of
        Panics \<Rightarrow> Panics
      | Returns (ctx, workload) \<Rightarrow>
     (case forEach applyEnv (WorkloadOptions.Env opts)
             (applySources opts ctx (applyModes opts ctx workload)) of
        Panics \<Rightarrow> Panics
      | Returns workload \<Rightarrow>
     (case forEach applyBuildEnv (WorkloadOptions.BuildEnv opts) workload of
        Panics \<Rightarrow> Panics
      | Returns workload \<Rightarrow>
     (case forEach (applyServiceRef lib) (ServiceRefs opts) workload of
        Panics \<Rightarrow> Panics
      | Returns workload \<Rightarrow>
     (case applyResources lib opts workload of
        Panics \<Rightarrow> Panics
      | Returns workload \<Rightarrow> Returns (ctx, applyServiceAccount opts ctx workload))))))))))"

text \<open>No flag that the merge reads is set, and no flag was changed.\<close>

definition noMergeFlags :: "WorkloadOptions \<Rightarrow> Context \<Rightarrow> bool" where
  "noMergeFlags opts ctx =
     (WorkloadOptions.Labels opts = [] \<and> WorkloadOptions.Annotations opts = []
      \<and> WorkloadOptions.Params opts = [] \<and> ParamsYaml opts = []
      \<and> MavenArtifact opts = [] \<and> MavenVersion opts = [] \<and> MavenGroup opts = []
      \<and> MavenType opts = [] \<and> App opts = [] \<and> WorkloadOptions.Type opts = []
      \<and> \<not> Debug opts \<and> \<not> LiveUpdate opts \<and> GitRepo opts = [] \<and> GitBranch opts = []
      \<and> GitCommit opts = [] \<and> GitTag opts = [] \<and> SourceImage opts = []
      \<and> WorkloadOptions.Image opts = [] \<and> WorkloadOptions.Env opts = []
      \<and> WorkloadOptions.BuildEnv opts = [] \<and> ServiceRefs opts = [] \<and> LimitCPU opts = []
      \<and> LimitMemory opts = [] \<and> RequestCPU opts = [] \<and> RequestMemory opts = []
      \<and> Changed ctx = [])"

section \<open>Loading the input, publishing the source\<close>

text \<open>
  \<open>WorkloadOptions.LoadInputWorkload\<close>: the file is opened first; standard input is read
  only when that failed and the path is \<open>-\<close>.
\<close>

definition LoadInputWorkload ::
  "Library \<Rightarrow> WorkloadOptions \<Rightarrow> Config \<Rightarrow> Workload \<Rightarrow> error + Workload" where
  "LoadInputWorkload lib opts c workload =
     (case (case Files c (FilePath opts) of
              Inr content \<Rightarrow> Inr content
            | Inl err \<Rightarrow>
                if FilePath opts = ''-'' then Inr (Stdin c)
                else Inl (WrapError (''unable to open file '' @ quote (FilePath opts) @ '': '') err)) of
        Inl err \<Rightarrow> Inl err
      | Inr input \<Rightarrow>
          (case Load lib input workload of
             Inl err \<Rightarrow>
               Inl (WrapError (''unable to load file '' @ quote (FilePath opts) @ '': '') err)
           | Inr workload \<Rightarrow> Inr workload))"

definition loadNamespace :: "Config \<Rightarrow> string \<Rightarrow> Config \<times> error option" where
  "loadNamespace c name =
     (case client_GetNamespace name c of
        (c, Some err) \<Rightarrow> if IsNotFound err then (c, Some err) else (c, None)
      | (c, None) \<Rightarrow> (c, None))"

definition validateNamespace :: "Config \<Rightarrow> string \<Rightarrow> Config \<times> error option" where
  "validateNamespace c name =
     (case loadNamespace c name of
        (c, Some nsErr) \<Rightarrow>
          (print Eprintf (Serrorf ''Error:'' @ '' '' @ (''namespace '' @ quote name
             @ '' not found, it may not exist or user does not have permissions to read it.'')
             @ ''\<newline>'') c,
           Some (SilenceError nsErr))
      | (c, None) \<Rightarrow> (c, None))"

fun beforeSep :: "string \<Rightarrow> string \<Rightarrow> string" where
  \<comment> \<open>\<open>strings.Split(s, sep)[0]\<close> for a separator that is not empty.\<close>
  "beforeSep sep [] = []"
| "beforeSep sep (ch # s) =
     (if take (length sep) (ch # s) = sep then [] else ch # beforeSep sep s)"

definition checkToPublishLocalSource ::
  "WorkloadOptions \<Rightarrow> string \<Rightarrow> Config \<Rightarrow> Workload \<Rightarrow> Config \<times> bool" where
  "checkToPublishLocalSource opts taggedImage c workload =
     (if \<not> Yes opts
      then (case AskOne (''Publish source in '' @ quote (LocalPath opts) @ '' to ''
                           @ quote taggedImage
                           @ ''? It may be visible to others who can pull images from that repository'') c of
              (c, failed, okToPush) \<Rightarrow>
                if failed \<or> \<not> okToPush
                then (print Infof (''Skipping workload '' @ quote (Workload.Name workload)
                        @ ''\<newline>'') c, False)
                else (c, okToPush))
      else (c, True))"

definition isSpace :: "char \<Rightarrow> bool" where
  "isSpace ch = (ch \<in> set [CHR '' '', CHR 0x09, CHR 0x0A, CHR 0x0B, CHR 0x0C, CHR 0x0D])"

definition TrimSpace :: "string \<Rightarrow> string" where
  "TrimSpace s = rev (dropWhile isSpace (rev (dropWhile isSpace s)))"

fun splitLines :: "string \<Rightarrow> string list" where
  \<comment> \<open>The lines \<open>ReadLine\<close> yields until \<open>io.EOF\<close> (lines that fit the reader's buffer).\<close>
  "splitLines [] = []"
| "splitLines (ch # s) =
     (if ch = CHR 0x0A then [] # splitLines s
      else (case splitLines s of [] \<Rightarrow> [[ch]] | l # ls \<Rightarrow> (ch # l) # ls))"

definition excludedPath :: "string \<Rightarrow> string option" where
  "excludedPath l =
     (let p = TrimSpace l in
      if length p = 0 \<or> take 1 p = ''#'' then None
      else if last p = CHR ''/'' then Some (butlast p)
      else Some p)"

definition loadExcludedPaths ::
  "Library \<Rightarrow> string \<Rightarrow> string \<Rightarrow> Config \<Rightarrow> Config \<times> string list" where
  \<comment> \<open>Reads \<open>opts.LocalPath\<close> and \<open>opts.ExcludePathFile\<close> only, which are its arguments here.\<close>
  "loadExcludedPaths lib localPath excludePathFile c =
     (if excludePathFile \<noteq> []
      then (case Files c (Join lib localPath excludePathFile) of
              Inl err \<Rightarrow>
                if err = ErrNotExist then (c, [])
                else (print Infof (''Unable to read '' @ excludePathFile @ '' file.\<newline>'') c, [])
            | Inr content \<Rightarrow>
                (print Infof (''The files and/or directories listed in the '' @ excludePathFile
                   @ '' file are being excluded from the uploaded source code.\<newline>'') c,
                 List.map_filter excludedPath (splitLines content)))
      else (c, []))"

text \<open>
  \<open>WorkloadOptions.PublishLocalSource\<close>. The workload is returned with the digest of the
  pushed image as its source image. Reading \<open>Spec.Source.Image\<close> through a nil \<open>Source\<close>
  panics.
\<close>

definition PublishLocalSource ::
  "Library \<Rightarrow> WorkloadOptions \<Rightarrow> Config \<Rightarrow> Workload option \<Rightarrow> Workload
     \<Rightarrow> (Config \<times> Workload \<times> bool \<times> error option) outcome" where
  "PublishLocalSource lib opts c currentWorkload workload =
     (if LocalPath opts = [] then Returns (c, workload, True, None)
      else
        (case WorkloadSpec.Source (Spec workload) of
           None \<Rightarrow> Panics
         | Some src \<Rightarrow>
             let taggedImage = beforeSep ''@sha'' (Source.Image src) in
             (case checkToPublishLocalSource opts taggedImage c workload of
                (c, okToPush) \<Rightarrow>
                  if \<not> okToPush then Returns (c, workload, okToPush, None)
                  else
                    (case (if IsDir lib (LocalPath opts)
                           then Inr (LocalPath opts,
                                     loadExcludedPaths lib (LocalPath opts) (ExcludePathFile opts) c)
                           else if IsZip lib (LocalPath opts)
                           then (case TempDir lib of
                                   Inl err \<Rightarrow> Inl (c, False, Some err)
                                 | Inr zipContentsDir \<Rightarrow>
                                     (case ExtractZip lib zipContentsDir (LocalPath opts) of
                                        Some err \<Rightarrow>
                                          Inl (print Errorf (''Failed to extract file contents from ''
                                                 @ quote (LocalPath opts) @ ''. \<newline>'') c,
                                               False, Some err)
                                      | None \<Rightarrow>
                                          Inr (zipContentsDir,
                                               loadExcludedPaths lib zipContentsDir
                                                 (ExcludePathFile opts) c)))
                           else Inl (c, False,
                                     Some (ErrorString (''unsupported file format ''
                                             @ quote (LocalPath opts))))) of
                       Inl (c, ok, err) \<Rightarrow> Returns (c, workload, ok, err)
                     | Inr (contentDir, c, fileExclusions) \<Rightarrow>
                         let c = print Infof (''Publishing source in '' @ quote (LocalPath opts)
                                   @ '' to '' @ quote taggedImage @ ''...\<newline>'') c
                         in
                         (case ImgpkgPush lib contentDir fileExclusions
                                 \<lparr>CACertPaths = WorkloadOptions.CACertPaths opts,
                                  RegistryUsername = WorkloadOptions.RegistryUsername opts,
                                  RegistryPassword = WorkloadOptions.RegistryPassword opts,
                                  RegistryToken = WorkloadOptions.RegistryToken opts\<rparr>
                                 taggedImage of
                            Inl err \<Rightarrow> Returns (c, workload, okToPush, Some err)
                          | Inr digestedImage \<Rightarrow>
                              let workload = onSpec (\<lambda>spec. spec\<lparr>WorkloadSpec.Source :=
                                               Some (src\<lparr>Source.Image := digestedImage\<rparr>)\<rparr>) workload
                              in
                              (case currentWorkload of
                                 None \<Rightarrow>
                                   Returns (print Successf ''Published source\<newline>'' c,
                                            workload, okToPush, None)
                               | Some current \<Rightarrow>
                                   (case WorkloadSpec.Source (Spec current) of
                                      None \<Rightarrow> Panics
                                    | Some currentSrc \<Rightarrow>
                                        if Source.Image currentSrc = digestedImage
                                        then Returns (print Infof ''No source code is changed\<newline>'' c,
                                                      workload, okToPush, None)
                                        else Returns (print Successf ''Published source\<newline>'' c,
                                                      workload, okToPush, None))))))))"

section \<open>The create command\<close>

definition DisplayCommandNextSteps :: "Config \<Rightarrow> Workload \<Rightarrow> Config" where
  "DisplayCommandNextSteps c workload =
     (if Workload.Namespace workload \<noteq> DefaultNamespace c
      then print Infof (''To get status: '' @ quote (''tanzu apps workload get ''
               @ Workload.Name workload @ '' '' @ NamespaceFlagName @ '' ''
               @ Workload.Namespace workload) @ ''\<newline>'')
             (print Infof (''To see logs:   '' @ quote (''tanzu apps workload tail ''
               @ Workload.Name workload @ '' '' @ NamespaceFlagName @ '' ''
               @ Workload.Namespace workload) @ ''\<newline>'') c)
      else print Infof (''To get status: '' @ quote (''tanzu apps workload get ''
               @ Workload.Name workload) @ ''\<newline>'')
             (print Infof (''To see logs:   '' @ quote (''tanzu apps workload tail ''
               @ Workload.Name workload) @ ''\<newline>'') c))"

text \<open>
  The workers \<open>Exec\<close> builds before it waits: the watcher of the Ready condition, and the
  log tailer when \<open>--tail\<close> or \<open>--tail-timestamp\<close> is set.
\<close>

definition waitWorkers :: "Library \<Rightarrow> WorkloadOptions \<Rightarrow> Workload \<Rightarrow> Worker list" where
  "waitWorkers lib opts workload =
     (let anyTail = Tail opts \<or> TailTimestamps opts;
          workers = [ReadyConditionWorker (Workload.Name workload) (Workload.Namespace workload)]
      in if anyTail
         then workers @ [TailWorker (WorkloadOptions.Namespace opts)
                           (WorkloadLabelName lib @ ''='' @ Workload.Name workload)
                           (TailTimestamps opts)]
         else workers)"

definition wait_Race :: "Library \<Rightarrow> Duration \<Rightarrow> Worker list \<Rightarrow> Config \<Rightarrow> Config \<times> error option outcome" where
  \<comment> \<open>The call of \<open>wait.Race\<close>: the workers are started, and the library tells how the race ends.\<close>
  "wait_Race lib timeout workers c = (c\<lparr>Races := Races c @ [(timeout, workers)]\<rparr>, Race lib timeout workers)"

text \<open>
  \<open>WorkloadCreateOptions.Exec\<close>, in the order of the source: the workload named by the
  file and the arguments; the check that it does not exist yet; the merge of the flags
  and the validation; the dry run; the publication of the local source; the creation;
  the next steps and the wait. The result is the configuration afterwards and the error
  returned, unless the command panics.
\<close>

definition inputWorkload ::
  "Library \<Rightarrow> WorkloadOptions \<Rightarrow> Context \<Rightarrow> Config \<Rightarrow> error + Workload" where
  "inputWorkload lib opts ctx c =
     (case (if FilePath opts \<noteq> [] then LoadInputWorkload lib opts c emptyWorkload
            else Inr emptyWorkload) of
        Inl err \<Rightarrow> Inl err
      | Inr workload \<Rightarrow>
          let workload = (if WorkloadOptions.Name opts \<noteq> []
                          then workload\<lparr>Workload.Name := WorkloadOptions.Name opts\<rparr>
                          else workload)
          in Inr (if Workload.Namespace workload = []
                     \<or> Flags_Changed ctx (StripDash NamespaceFlagName)
                  then workload\<lparr>Workload.Namespace := WorkloadOptions.Namespace opts\<rparr>
                  else workload))"

definition checkExisting :: "WorkloadOptions \<Rightarrow> Config \<Rightarrow> Workload \<Rightarrow> Config \<times> error option" where
  \<comment> \<open>\<open>Some err\<close>: \<open>Exec\<close> returns \<open>err\<close> here; \<open>None\<close>: it goes on.\<close>
  "checkExisting opts c workload =
     (case client_Get (Workload.Namespace workload) (Workload.Name workload) c of
        (c, got) \<Rightarrow>
          (case (case got of
                   Inr found \<Rightarrow> Inr (c, found)
                 | Inl err \<Rightarrow>
                     if \<not> IsNotFound err then Inl (c, Some err)
                     else (case validateNamespace c (WorkloadOptions.Namespace opts) of
                             (c, Some nsErr) \<Rightarrow> Inl (c, Some err)
                           | (c, None) \<Rightarrow> Inr (c, emptyWorkload))) of
             Inl r \<Rightarrow> r
           | Inr (c, existingWorkload) \<Rightarrow>
               if Workload.Name existingWorkload = Workload.Name workload
                  \<and> Workload.Namespace existingWorkload = Workload.Namespace workload
               then (print Printf (Serrorf ''Error:'' @ '' workload ''
                       @ quote (Workload.Namespace workload @ ''/'' @ Workload.Name workload)
                       @ '' already exists\<newline>'') c,
                     Some (SilenceError (ErrorString [])))
               else (c, None)))"

definition mergeAndValidate ::
  "Library \<Rightarrow> WorkloadOptions \<Rightarrow> Context \<Rightarrow> Config \<Rightarrow> Workload
     \<Rightarrow> (Config \<times> (error + Context \<times> Workload)) outcome" where
  "mergeAndValidate lib opts ctx c workload =
     (case ApplyOptionsToWorkload lib opts ctx workload of
        Panics \<Rightarrow> Panics
      | Returns (ctx, workload) \<Rightarrow>
          let errs = Validate lib workload;
              errs = (if LocalPath opts \<noteq> []
                         \<and> (case WorkloadSpec.Source (Spec workload) of
                               None \<Rightarrow> True
                             | Some src \<Rightarrow> Source.Image src = [])
                      then errs @ [ErrMissingField SourceImageFlagName]
                      else errs)
          in if errs \<noteq> [] then Returns (c\<lparr>SilenceUsage := False\<rparr>, Inl (Aggregate errs))
             else Returns (c, Inr (ctx, workload)))"

definition afterCreate ::
  "Library \<Rightarrow> WorkloadOptions \<Rightarrow> Config \<Rightarrow> Workload \<Rightarrow> bool \<Rightarrow> (Config \<times> error option) outcome" where
  "afterCreate lib opts c workload okToCreate =
     (let c = (if okToCreate
               then print Printf ''\<newline>''
                      (DisplayCommandNextSteps (print Printf ''\<newline>'' c) workload)
               else c);
          anyTail = Tail opts \<or> TailTimestamps opts
      in
      if okToCreate \<and> (Wait opts \<or> anyTail)
      then
        let c = print Infof (''Waiting for workload '' @ quote (WorkloadOptions.Name opts)
                  @ '' to become ready...\<newline>'') c
        in
        (case wait_Race lib (WaitTimeout opts) (waitWorkers lib opts workload) c of
           (c, Panics) \<Rightarrow> Panics
         | (c, Returns (Some err)) \<Rightarrow>
             if err = DeadlineExceeded
             then Returns
                    (print Printf (Serrorf ''Error:'' @ '' timeout after ''
                       @ DurationString lib (WaitTimeout opts) @ '' waiting for ''
                       @ quote (WorkloadOptions.Name opts) @ '' to become ready\<newline>'') c,
                     Some (SilenceError err))
             else Returns
                    (print Eprintf (Serrorf ''Error:'' @ '' '' @ Error err @ ''\<newline>'') c,
                     Some (SilenceError err))
         | (c, Returns None) \<Rightarrow>
             Returns (print Infof (''Workload '' @ quote (WorkloadOptions.Name opts)
                        @ '' is ready\<newline>'') c,
                      None))
      else Returns (c, None))"

definition waiting :: "Library \<Rightarrow> WorkloadOptions \<Rightarrow> Config \<Rightarrow> Workload \<Rightarrow> Config" where
  \<comment> \<open>The configuration of \<open>afterCreate\<close> when \<open>wait.Race\<close> has been called: the next steps
      and the notice of the wait are printed, the workers are started.\<close>
  "waiting lib opts c workload =
     (print Infof (''Waiting for workload '' @ quote (WorkloadOptions.Name opts)
        @ '' to become ready...\<newline>'')
        (print Printf ''\<newline>'' (DisplayCommandNextSteps (print Printf ''\<newline>'' c) workload)))
     \<lparr>Races := Races c @ [(WaitTimeout opts, waitWorkers lib opts workload)]\<rparr>"

definition Exec ::
  "Library \<Rightarrow> WorkloadOptions \<Rightarrow> Context \<Rightarrow> Config \<Rightarrow> (Config \<times> error option) outcome" where
  "Exec lib opts ctx c =
     (case inputWorkload lib opts ctx c of
        Inl err \<Rightarrow> Returns (c, Some err)
      | Inr workload \<Rightarrow>
          (case checkExisting opts c workload of
             (c, Some err) \<Rightarrow> Returns (c, Some err)
           | (c, None) \<Rightarrow>
               (case mergeAndValidate lib opts ctx c workload of
                  Panics \<Rightarrow> Panics
                | Returns (c, Inl err) \<Rightarrow> Returns (c, Some err)
                | Returns (c, Inr (ctx, workload)) \<Rightarrow>
                    if DryRun opts
                    then Returns (print Stdout (DryRunResource lib workload) c, None)
                    else
                      (case PublishLocalSource lib opts c None workload of
                         Panics \<Rightarrow> Panics
                       | Returns (c, workload, okToPush, Some err) \<Rightarrow> Returns (c, Some err)
                       | Returns (c, workload, okToPush, None) \<Rightarrow>
                           if \<not> okToPush then Returns (c, None)
                           else
                             (case Create lib opts ctx c workload of
                                (c, okToCreate, Some err) \<Rightarrow> Returns (c, Some err)
                              | (c, okToCreate, None) \<Rightarrow>
                                  afterCreate lib opts c workload okToCreate)))))"

section \<open>The wait package\<close>

text \<open>
  Modelled from the spec: packages \<open>wait\<close>, \<open>watch\<close> and \<open>logs\<close> and the function
  \<open>WorkloadReadyConditionFunc\<close> are not among the sources. The spec describes the wait as
  blocking until a status condition becomes true via a watch-based polling loop, with
  concurrent log tailing: a bounded-fan-in select over one or two goroutines racing
  against a context deadline. Time is counted in nanoseconds from the start of the race.
  The timeline says what the cluster does meanwhile: the events the watch delivers, each
  with its time of arrival, and when the log tailer returns, if it ever does by itself.
\<close>

record Timeline =
  GetWatcherFails :: bool
  WatchError :: "error option"
  Events :: "(nat \<times> Workload) list"
  SelectorInvalid :: bool
  TailReturns :: "(nat \<times> error option) option"

definition WorkloadConditionReady :: string where "WorkloadConditionReady = ''Ready''"

definition WorkloadReadyConditionFunc :: "Workload \<Rightarrow> bool \<times> error option" where
  "WorkloadReadyConditionFunc w =
     (case find (\<lambda>cond. Condition.Type cond = WorkloadConditionReady) (Conditions w) of
        None \<Rightarrow> (False, None)
      | Some cond \<Rightarrow>
          if Status cond = ConditionTrue then (True, None)
          else if Status cond = ConditionFalse
          then (False, Some (ErrorString (''Failed to become ready: '' @ Message cond)))
          else (False, None))"

fun UntilCondition ::
  "string \<Rightarrow> string \<Rightarrow> (Workload \<Rightarrow> bool \<times> error option) \<Rightarrow> (nat \<times> Workload) list
     \<Rightarrow> (nat \<times> error option) option" where
  \<comment> \<open>When the loop over the events returns, and what; \<open>None\<close> when it is still waiting
      after the last event.\<close>
  "UntilCondition name ns condition [] = None"
| "UntilCondition name ns condition ((t, obj) # events) =
     (if Workload.Name obj = name \<and> Workload.Namespace obj = ns
      then (case condition obj of
              (True, err) \<Rightarrow> Some (t, None)
            | (False, Some err) \<Rightarrow> Some (t, Some err)
            | (False, None) \<Rightarrow> UntilCondition name ns condition events)
      else UntilCondition name ns condition events)"

fun runWorker :: "Timeline \<Rightarrow> Worker \<Rightarrow> (nat \<times> error option) option outcome" where
  "runWorker timeline (ReadyConditionWorker name ns) =
     (if GetWatcherFails timeline then Panics
      else (case WatchError timeline of
              Some err \<Rightarrow> Returns (Some (0, Some err))
            | None \<Rightarrow> Returns (UntilCondition name ns WorkloadReadyConditionFunc (Events timeline))))"
| "runWorker timeline (TailWorker ns selector timestamps) =
     (if SelectorInvalid timeline then Panics else Returns (TailReturns timeline))"

fun firstDone ::
  "(nat \<times> error option) option \<Rightarrow> (nat \<times> error option) option outcome list
     \<Rightarrow> (nat \<times> error option) option outcome" where
  \<comment> \<open>The worker that is done first; the earlier worker of the list when two are done at
      the same time.\<close>
  "firstDone best [] = Returns best"
| "firstDone best (Panics # rs) = Panics"
| "firstDone best (Returns None # rs) = firstDone best rs"
| "firstDone best (Returns (Some (t, r)) # rs) =
     (case best of
        None \<Rightarrow> firstDone (Some (t, r)) rs
      | Some (t', r') \<Rightarrow> if t < t' then firstDone (Some (t, r)) rs else firstDone best rs)"

definition raceEnd :: "Timeline \<Rightarrow> Duration \<Rightarrow> Worker list \<Rightarrow> (nat \<times> error option) outcome" where
  \<comment> \<open>When the race ends, and with what: with the worker that is done first, if it is done
      before the deadline, and with the error of the context at the deadline otherwise.\<close>
  "raceEnd timeline timeout workers =
     (case firstDone None (map (runWorker timeline) workers) of
        Panics \<Rightarrow> Panics
      | Returns None \<Rightarrow> Returns (timeout, Some DeadlineExceeded)
      | Returns (Some (t, r)) \<Rightarrow>
          if t < timeout then Returns (t, r) else Returns (timeout, Some DeadlineExceeded))"

definition Race_Timeline :: "Timeline \<Rightarrow> Duration \<Rightarrow> Worker list \<Rightarrow> error option outcome" where
  "Race_Timeline timeline timeout workers =
     (case raceEnd timeline timeout workers of
        Panics \<Rightarrow> Panics
      | Returns (t, r) \<Rightarrow> Returns r)"

definition undecided :: "string \<Rightarrow> string \<Rightarrow> nat \<times> Workload \<Rightarrow> bool" where
  \<comment> \<open>An event the watcher passes over: of another object, or of the workload while its
      Ready condition is neither true nor false.\<close>
  "undecided name ns event =
     (if Workload.Name (snd event) = name \<and> Workload.Namespace (snd event) = ns
      then WorkloadReadyConditionFunc (snd event) = (False, None)
      else True)"

definition readyCondition :: "Workload \<Rightarrow> Condition option" where
  "readyCondition w = find (\<lambda>cond. Condition.Type cond = WorkloadConditionReady) (Conditions w)"

definition tailerNotBefore :: "Timeline \<Rightarrow> WorkloadOptions \<Rightarrow> nat \<Rightarrow> bool" where
  \<comment> \<open>No log tailer is started, or it is started and does not return before time \<open>t\<close>.\<close>
  "tailerNotBefore timeline opts t =
     (if Tail opts \<or> TailTimestamps opts
      then \<not> SelectorInvalid timeline
         \<and> (case TailReturns timeline of None \<Rightarrow> True | Some (t', r) \<Rightarrow> t \<le> t')
      else True)"

definition watcherNotBefore :: "Timeline \<Rightarrow> string \<Rightarrow> string \<Rightarrow> nat \<Rightarrow> bool" where
  \<comment> \<open>The watcher is started and its loop does not return before time \<open>t\<close>.\<close>
  "watcherNotBefore timeline name ns t =
     (\<not> GetWatcherFails timeline \<and> WatchError timeline = None
      \<and> (case UntilCondition name ns WorkloadReadyConditionFunc (Events timeline) of
            None \<Rightarrow> True
          | Some (t', r) \<Rightarrow> t \<le> t'))"

section \<open>The workload command\<close>

text \<open>
  \<open>NewWorkloadCommand\<close>. Of the seven constructors of subcommands only
  \<open>NewWorkloadCreateCommand\<close> is among the sources.
\<close>

record Command =
  Use :: string
  Aliases :: "string list"
  Commands :: "string list"

definition NewWorkloadCreateCommand :: string where
  "NewWorkloadCreateCommand = ''create''"

text \<open>
  Modelled from the spec: the other six constructors are not among the sources. The spec
  lists the operations of the plugin (create, update, apply, get, list, tail, delete);
  each constructor yields the command of the operation in its name.
\<close>

definition NewWorkloadListCommand :: string where "NewWorkloadListCommand = ''list''"
definition NewWorkloadGetCommand :: string where "NewWorkloadGetCommand = ''get''"
definition NewWorkloadTailCommand :: string where "NewWorkloadTailCommand = ''tail''"
definition NewWorkloadUpdateCommand :: string where "NewWorkloadUpdateCommand = ''update''"
definition NewWorkloadApplyCommand :: string where "NewWorkloadApplyCommand = ''apply''"
definition NewWorkloadDeleteCommand :: string where "NewWorkloadDeleteCommand = ''delete''"

definition AddCommand :: "string \<Rightarrow> Command \<Rightarrow> Command" where
  "AddCommand sub cmd = cmd\<lparr>Commands := Commands cmd @ [sub]\<rparr>"

definition NewWorkloadCommand :: Command where
  "NewWorkloadCommand =
     AddCommand NewWorkloadDeleteCommand
       (AddCommand NewWorkloadApplyCommand
         (AddCommand NewWorkloadUpdateCommand
           (AddCommand NewWorkloadCreateCommand
             (AddCommand NewWorkloadTailCommand
               (AddCommand NewWorkloadGetCommand
                 (AddCommand NewWorkloadListCommand
                   \<lparr>Use = ''workload'', Aliases = [''workloads'', ''wld''], Commands = []\<rparr>))))))"

section \<open>Defaults and sample inputs\<close>

definition Minute :: Duration where "Minute = 60 * 1000000000"

definition defaultOptions :: WorkloadOptions where
  \<comment> \<open>The defaults \<open>DefineFlags\<close> gives the flags.\<close>
  "defaultOptions =
     \<lparr>Namespace = [], Name = [], App = [], Type = [], Labels = [], Annotations = [],
      Params = [], ParamsYaml = [], Debug = False, LiveUpdate = False, FilePath = [],
      GitRepo = [], GitCommit = [], GitBranch = [], GitTag = [], SourceImage = [],
      LocalPath = [], ExcludePathFile = [], Image = [], SubPath = [], BuildEnv = [],
      Env = [], ServiceRefs = [], ServiceAccountName = [], LimitCPU = [], LimitMemory = [],
      MavenGroup = [], MavenArtifact = [], MavenVersion = [], MavenType = [],
      CACertPaths = [], RegistryUsername = [], RegistryPassword = [], RegistryToken = [],
      RequestCPU = [], RequestMemory = [], Wait = False, WaitTimeout = 10 * Minute,
      Tail = False, TailTimestamps = False, DryRun = False, Yes = False\<rparr>"

text \<open>
  Sample inputs, in the manner of the command tests: a library whose differ reports no
  change for workloads with the same image, labels left aside, and whose decoder takes
  the input for the name of the workload; an empty cluster with the namespace
  \<open>default\<close>; the options of \<open>create my-workload --yes\<close>.
\<close>

definition sampleLibrary :: Library where
  "sampleLibrary =
     \<lparr>ResourceDiff = (\<lambda>current w.
         Inr (''+ '' @ Workload.Name w,
              (case current of
                 None \<Rightarrow> False
               | Some cw \<Rightarrow> WorkloadSpec.Image (Spec cw) = WorkloadSpec.Image (Spec w)))),
      DeprecationWarnings = (\<lambda>w. []),
      Load = (\<lambda>input w. if input = [] then Inl (ErrorString ''EOF'')
                          else Inr (w\<lparr>Workload.Name := input\<rparr>)),
      Validate = (\<lambda>w. []),
      DryRunResource = (\<lambda>w. ''name: '' @ Workload.Name w),
      JsonYamlToObject = (\<lambda>s. Inr (JSONObject s)),
      ParseQuantity = (\<lambda>s. Some s),
      ObjectReference = (\<lambda>s. \<lparr>APIVersion = [], Kind = [], Name = s\<rparr>),
      ObjectReferenceAnnotation = (\<lambda>s. None),
      DurationString = (\<lambda>d. if d = 1 then ''1ns'' else ''10m0s''),
      WorkloadLabelName = ''carto.run/workload-name'',
      Join = (\<lambda>dir file. dir @ ''/'' @ file),
      IsDir = (\<lambda>path. True),
      IsZip = (\<lambda>path. False),
      TempDir = Inr ''/tmp/source'',
      ExtractZip = (\<lambda>dir path. None),
      ImgpkgPush = (\<lambda>dir exclusions registry img. Inr (img @ ''@sha256:0'')),
      Race = (\<lambda>timeout workers. Returns None)\<rparr>"

definition sampleOptions :: WorkloadOptions where
  "sampleOptions =
     defaultOptions\<lparr>WorkloadOptions.Namespace := ''default'',
                    WorkloadOptions.Name := ''my-workload'', Yes := True\<rparr>"

definition sampleContext :: Context where
  "sampleContext = \<lparr>Changed = [], Notices = []\<rparr>"

definition sampleConfig :: Config where
  "sampleConfig =
     \<lparr>Workloads = [], Namespaces = [''default''], DefaultNamespace = ''default'',
      GetFailure = None, GetNamespaceFailure = None, CreateFailure = None,
      UpdateFailure = None, Stdin = [], Files = (\<lambda>path. Inl ErrNotExist), Answers = [],
      Output = [], Prompts = [], Calls = [], History = [], Races = [], SilenceUsage = True\<rparr>"

definition sampleWorkload :: Workload where
  "sampleWorkload =
     emptyWorkload\<lparr>Workload.Name := ''my-workload'', Workload.Namespace := ''default'',
                   Spec := emptySpec\<lparr>WorkloadSpec.Image := ''ubuntu:bionic''\<rparr>\<rparr>"

text \<open>The workload \<open>Exec\<close> starts from under the sample options.\<close>

definition sampleInput :: Workload where
  "sampleInput = emptyWorkload\<lparr>Workload.Name := ''my-workload'', Workload.Namespace := ''default''\<rparr>"

definition readyWorkload :: "ConditionStatus \<Rightarrow> string \<Rightarrow> Workload" where
  \<comment> \<open>The sample workload as a watch event delivers it, with its Ready condition.\<close>
  "readyWorkload status msg =
     sampleWorkload\<lparr>Conditions :=
       [\<lparr>Condition.Type = WorkloadConditionReady, Status = status, Reason = [], Message = msg\<rparr>]\<rparr>"

definition sampleTimeline :: "(nat \<times> Workload) list \<Rightarrow> Timeline" where
  "sampleTimeline events =
     \<lparr>GetWatcherFails = False, WatchError = None, Events = events, SelectorInvalid = False,
      TailReturns = None\<rparr>"

section \<open>Properties of the printing, the prompts and the client\<close>

lemma print_fields [simp]:
  "Workloads (print p s c) = Workloads c"
  "Namespaces (print p s c) = Namespaces c"
  "DefaultNamespace (print p s c) = DefaultNamespace c"
  "GetFailure (print p s c) = GetFailure c"
  "GetNamespaceFailure (print p s c) = GetNamespaceFailure c"
  "CreateFailure (print p s c) = CreateFailure c"
  "UpdateFailure (print p s c) = UpdateFailure c"
  "Stdin (print p s c) = Stdin c"
  "Files (print p s c) = Files c"
  "Answers (print p s c) = Answers c"
  "Prompts (print p s c) = Prompts c"
  "Calls (print p s c) = Calls c"
  "Races (print p s c) = Races c"
  "SilenceUsage (print p s c) = SilenceUsage c"
  "Output (print p s c) = Output c @ [(p, s)]"
  "History (print p s c) = History c @ [Printed p s]"
  by (simp_all add: print_def)

lemma printAll_fields [simp]:
  "Workloads (printAll p ms c) = Workloads c"
  "Namespaces (printAll p ms c) = Namespaces c"
  "DefaultNamespace (printAll p ms c) = DefaultNamespace c"
  "GetFailure (printAll p ms c) = GetFailure c"
  "GetNamespaceFailure (printAll p ms c) = GetNamespaceFailure c"
  "CreateFailure (printAll p ms c) = CreateFailure c"
  "UpdateFailure (printAll p ms c) = UpdateFailure c"
  "Stdin (printAll p ms c) = Stdin c"
  "Files (printAll p ms c) = Files c"
  "Answers (printAll p ms c) = Answers c"
  "Prompts (printAll p ms c) = Prompts c"
  "Calls (printAll p ms c) = Calls c"
  "Races (printAll p ms c) = Races c"
  "SilenceUsage (printAll p ms c) = SilenceUsage c"
  by (induction ms arbitrary: c; simp)+

lemma printAll_Output [simp]: "Output (printAll p ms c) = Output c @ map (Pair p) ms"
  by (induction ms arbitrary: c) simp_all

lemma printAll_History [simp]: "History (printAll p ms c) = History c @ map (Printed p) ms"
  by (induction ms arbitrary: c) simp_all

lemma warned_fields [simp]:
  "Workloads (warned lib c w) = Workloads c"
  "CreateFailure (warned lib c w) = CreateFailure c"
  "UpdateFailure (warned lib c w) = UpdateFailure c"
  "Answers (warned lib c w) = Answers c"
  "Prompts (warned lib c w) = Prompts c"
  "Calls (warned lib c w) = Calls c"
  "Races (warned lib c w) = Races c"
  by (simp_all add: warned_def)

lemma previewed_fields [simp]:
  "Workloads (previewed t lib ctx c w d) = Workloads c"
  "CreateFailure (previewed t lib ctx c w d) = CreateFailure c"
  "UpdateFailure (previewed t lib ctx c w d) = UpdateFailure c"
  "Answers (previewed t lib ctx c w d) = Answers c"
  "Prompts (previewed t lib ctx c w d) = Prompts c"
  "Calls (previewed t lib ctx c w d) = Calls c"
  "Races (previewed t lib ctx c w d) = Races c"
  by (simp_all add: previewed_def)

lemma previewed_Output:
  "Output (previewed t lib ctx c w d) =
     Output (warned lib c w) @ [(Printf, t), (Printf, d @ ''\<newline>'')]
       @ map (Pair Infof) (map (\<lambda>msg. ''NOTICE: '' @ msg @ ''\<newline>\<newline>'') (GetNotices ctx))"
  by (simp add: previewed_def)

lemma warned_Output:
  "Output (warned lib c w) =
     Output c @ map (Pair Infof) (map (\<lambda>msg. ''WARNING: '' @ msg @ ''\<newline>'') (DeprecationWarnings lib w))"
  by (simp add: warned_def)

lemma previewed_History:
  "History (previewed t lib ctx c w d) =
     History c @ map (Printed Infof) (map (\<lambda>msg. ''WARNING: '' @ msg @ ''\<newline>'') (DeprecationWarnings lib w))
       @ [Printed Printf t, Printed Printf (d @ ''\<newline>'')]
       @ map (Printed Infof) (map (\<lambda>msg. ''NOTICE: '' @ msg @ ''\<newline>\<newline>'') (GetNotices ctx))"
  by (simp add: previewed_def warned_def)

lemma warned_History:
  "History (warned lib c w) =
     History c @ map (Printed Infof) (map (\<lambda>msg. ''WARNING: '' @ msg @ ''\<newline>'') (DeprecationWarnings lib w))"
  by (simp add: warned_def)

lemma AskOne_fields:
  assumes "AskOne msg c = (c', failed, ok)"
  shows "Workloads c' = Workloads c" "UpdateFailure c' = UpdateFailure c"
    "CreateFailure c' = CreateFailure c" "Calls c' = Calls c" "Output c' = Output c"
    "Prompts c' = Prompts c @ [msg]" "Races c' = Races c"
    "History c' = History c @ [Prompted msg]"
  using assms by (auto simp: AskOne_def Let_def split: list.splits option.splits)

lemma client_Update_fields:
  assumes "client_Update w c = (c', r)"
  shows "Output c' = Output c" "Calls c' = Calls c @ [CallUpdate w]" "Prompts c' = Prompts c"
    "Races c' = Races c" "r \<noteq> None \<Longrightarrow> Workloads c' = Workloads c"
    "History c' = History c @ [SubmittedUpdate w]"
  using assms by (auto simp: client_Update_def Let_def split: option.splits if_splits)

lemma client_Update_result:
  "Workloads c1 = Workloads c \<Longrightarrow> UpdateFailure c1 = UpdateFailure c \<Longrightarrow>
   snd (client_Update w c1) = snd (client_Update w c)"
  by (simp add: client_Update_def Let_def split: option.splits)

lemma client_Create_fields:
  assumes "client_Create w c = (c', r)"
  shows "Output c' = Output c" "Calls c' = Calls c @ [CallCreate w]" "Prompts c' = Prompts c"
    "Races c' = Races c" "r \<noteq> None \<Longrightarrow> Workloads c' = Workloads c"
    "History c' = History c @ [SubmittedCreate w]"
  using assms by (auto simp: client_Create_def Let_def split: option.splits if_splits)

lemma client_Create_result:
  "Workloads c1 = Workloads c \<Longrightarrow> CreateFailure c1 = CreateFailure c \<Longrightarrow>
   snd (client_Create w c1) = snd (client_Create w c)"
  by (simp add: client_Create_def Let_def split: option.splits)

lemma AskOne_yes:
  "AskOne msg c = (c1, failed, ok) \<Longrightarrow> (\<not> failed \<and> ok) = (\<exists>rest. Answers c = Some True # rest)"
  by (auto simp: AskOne_def Let_def split: list.splits option.splits)

lemma Update_cases [consumes 1, case_names diffError noChange stdin declined updated updateFailed]:
  assumes run: "Update lib opts ctx c currentWorkload workload = (c', okToUpdate, r)"
  obtains
    (diffError) err where "ResourceDiff lib (Some currentWorkload) workload = Inl err"
      "c' = warned lib c workload" "\<not> okToUpdate" "r = Some err"
  | (noChange) d where "ResourceDiff lib (Some currentWorkload) workload = Inr (d, True)"
      "c' = print Infof ''Workload is unchanged, skipping update\<newline>'' (warned lib c workload)"
      "\<not> okToUpdate" "r = None"
  | (stdin) d where "ResourceDiff lib (Some currentWorkload) workload = Inr (d, False)"
      "\<not> Yes opts" "FilePath opts = ''-''"
      "c' = print Errorf (''Skipping workload, cannot confirm intent. Run command with '' @ YesFlagName
               @ '' flag to confirm intent when providing input from stdin\<newline>'')
              (previewed ''Update workload:\<newline>'' lib ctx c workload d)"
      "\<not> okToUpdate" "r = None"
  | (declined) d c1 failed where "ResourceDiff lib (Some currentWorkload) workload = Inr (d, False)"
      "\<not> Yes opts" "FilePath opts \<noteq> ''-''"
      "AskOne (''Really update the workload '' @ quote (Workload.Name workload) @ ''?'')
         (previewed ''Update workload:\<newline>'' lib ctx c workload d) = (c1, failed, okToUpdate)"
      "failed \<or> \<not> okToUpdate"
      "c' = print Infof (''Skipping workload '' @ quote (Workload.Name workload) @ ''\<newline>'') c1"
      "r = None"
  | (updated) d c1 c2 where "ResourceDiff lib (Some currentWorkload) workload = Inr (d, False)"
      "Yes opts \<and> c1 = previewed ''Update workload:\<newline>'' lib ctx c workload d
       \<or> \<not> Yes opts \<and> FilePath opts \<noteq> ''-''
         \<and> AskOne (''Really update the workload '' @ quote (Workload.Name workload) @ ''?'')
              (previewed ''Update workload:\<newline>'' lib ctx c workload d) = (c1, False, True)"
      "client_Update workload c1 = (c2, None)"
      "c' = print Successf (''Updated workload '' @ quote (Workload.Name workload) @ ''\<newline>'') c2"
      "okToUpdate" "r = None"
  | (updateFailed) d c1 c2 err where "ResourceDiff lib (Some currentWorkload) workload = Inr (d, False)"
      "Yes opts \<and> c1 = previewed ''Update workload:\<newline>'' lib ctx c workload d
       \<or> \<not> Yes opts \<and> FilePath opts \<noteq> ''-''
         \<and> AskOne (''Really update the workload '' @ quote (Workload.Name workload) @ ''?'')
              (previewed ''Update workload:\<newline>'' lib ctx c workload d) = (c1, False, True)"
      "client_Update workload c1 = (c2, Some err)"
      "c' = (if IsConflict err
             then print Printf (Serrorf ''Error:'' @ '' conflict updating workload, the object was modified by another user; please run the update command again\<newline>'') c2
             else c2)"
      "\<not> okToUpdate" "r = Some (if IsConflict err then SilenceError err else err)"
proof (cases "ResourceDiff lib (Some currentWorkload) workload")
  case (Inl err)
  with run diffError show ?thesis by (simp add: Update_def warned_def)
next
  case (Inr p)
  obtain d nc where p: "p = (d, nc)" by (cases p)
  show ?thesis
  proof (cases nc)
    case True
    with run Inr p noChange show ?thesis by (simp add: Update_def warned_def)
  next
    case False
    have diff: "ResourceDiff lib (Some currentWorkload) workload = Inr (d, False)"
      using Inr p False by simp
    let ?pv = "previewed ''Update workload:\<newline>'' lib ctx c workload d"
    let ?ask = "AskOne (''Really update the workload '' @ quote (Workload.Name workload) @ ''?'') ?pv"
    have submit: thesis
      if how: "Yes opts \<and> c1 = ?pv \<or> \<not> Yes opts \<and> FilePath opts \<noteq> ''-'' \<and> ?ask = (c1, False, True)"
      for c1
    proof -
      obtain c2 res where cu: "client_Update workload c1 = (c2, res)"
        by (cases "client_Update workload c1")
      show thesis
      proof (cases res)
        case None
        with run diff how cu have "c' = print Successf (''Updated workload '' @ quote (Workload.Name workload) @ ''\<newline>'') c2 \<and> okToUpdate \<and> r = None"
          by (auto simp add: Update_def Let_def previewed_def warned_def)
        with updated[OF diff how] cu None show thesis by simp
      next
        case (Some err)
        with run diff how cu have "c' = (if IsConflict err
             then print Printf (Serrorf ''Error:'' @ '' conflict updating workload, the object was modified by another user; please run the update command again\<newline>'') c2
             else c2) \<and> \<not> okToUpdate \<and> r = Some (if IsConflict err then SilenceError err else err)"
          by (auto simp add: Update_def Let_def previewed_def warned_def split: if_splits)
        with updateFailed[OF diff how] cu Some show thesis by simp
      qed
    qed
    show ?thesis
    proof (cases "Yes opts")
      case True
      then show ?thesis by (intro submit[of ?pv]) simp
    next
      case noYes: False
      show ?thesis
      proof (cases "FilePath opts = ''-''")
        case True
        with run diff noYes stdin show ?thesis
          by (simp add: Update_def Let_def previewed_def warned_def)
      next
        case notStdin: False
        obtain c1 failed ans where ask: "?ask = (c1, failed, ans)"
          by (cases ?ask) auto
        show ?thesis
        proof (cases "failed \<or> \<not> ans")
          case True
          with run diff noYes notStdin ask have "c' = print Infof (''Skipping workload '' @ quote (Workload.Name workload) @ ''\<newline>'') c1 \<and> okToUpdate = ans \<and> r = None"
            by (auto simp add: Update_def Let_def previewed_def warned_def)
          with declined[OF diff noYes notStdin _ _ _ _] ask True show ?thesis by auto
        next
          case False
          with noYes notStdin ask show ?thesis by (intro submit[of c1]) simp
        qed
      qed
    qed
  qed
qed

lemma Update_called_iff:
  assumes run: "Update lib opts ctx c currentWorkload workload = (c', okToUpdate, r)"
  shows "(Calls c' \<noteq> Calls c) =
           ((\<exists>d. ResourceDiff lib (Some currentWorkload) workload = Inr (d, False))
            \<and> (Yes opts \<or> FilePath opts \<noteq> ''-'' \<and> (\<exists>rest. Answers c = Some True # rest)))"
  using run
proof (cases rule: Update_cases)
  case (declined d c1 failed)
  from AskOne_yes[OF declined(4)] AskOne_fields(4)[OF declined(4)] declined show ?thesis
    by auto
next
  case (updated d c1 c2)
  from updated(2) have "Calls c1 = Calls c \<and> (Yes opts \<or> FilePath opts \<noteq> ''-'' \<and> (\<exists>rest. Answers c = Some True # rest))"
    by (auto dest: AskOne_fields(4) AskOne_yes)
  with client_Update_fields(2)[OF updated(3)] updated show ?thesis by auto
next
  case (updateFailed d c1 c2 err)
  from updateFailed(2) have "Calls c1 = Calls c \<and> (Yes opts \<or> FilePath opts \<noteq> ''-'' \<and> (\<exists>rest. Answers c = Some True # rest))"
    by (auto dest: AskOne_fields(4) AskOne_yes)
  with client_Update_fields(2)[OF updateFailed(3)] updateFailed show ?thesis by auto
qed auto


section \<open>Properties of Update\<close>

lemmas sample_defs = sampleOptions_def defaultOptions_def sampleLibrary_def sampleContext_def sampleConfig_def
  sampleWorkload_def emptyWorkload_def emptySpec_def

text \<open>
  C10. When the client's Update call fails with a conflict, \<open>Update\<close> prints
  "Error: conflict updating workload, the object was modified by another user; please
  run the update command again", reports \<open>okToUpdate\<close> false and returns the error
  silenced; any other failure of the call is returned as it is. Nothing in the cluster
  has changed.
\<close>

theorem Update_conflict:
  assumes run: "Update lib opts ctx c currentWorkload workload = (c', okToUpdate, r)"
      and called: "Calls c' \<noteq> Calls c"
      and failed: "snd (client_Update workload c) = Some err"
  shows "\<not> okToUpdate \<and> Calls c' = Calls c @ [CallUpdate workload] \<and> Workloads c' = Workloads c
         \<and> (if IsConflict err
            then r = Some (SilenceError err)
               \<and> last (Output c') = (Printf, ''Error: conflict updating workload, the object was modified by another user; please run the update command again\<newline>'')
            else r = Some err)"
  using run
proof (cases rule: Update_cases)
  case (updated d c1 c2)
  from updated(2) have c1: "Workloads c1 = Workloads c" "UpdateFailure c1 = UpdateFailure c"
    by (auto dest: AskOne_fields)
  from client_Update_result[OF c1, of workload] updated(3) failed show ?thesis by simp
next
  case (updateFailed d c1 c2 err')
  from updateFailed(2) have c1: "Workloads c1 = Workloads c" "UpdateFailure c1 = UpdateFailure c"
      "Calls c1 = Calls c"
    by (auto dest: AskOne_fields)
  from client_Update_result[OF c1(1,2), of workload] updateFailed(3) failed
  have err: "err' = err" by simp
  from client_Update_fields[OF updateFailed(3)] c1 updateFailed err
  show ?thesis by (auto simp: Serrorf_def)
qed (use called in \<open>auto dest: AskOne_fields(4)\<close>)

theorem Update_conflict_witness:
  "\<exists>c'. Update sampleLibrary sampleOptions sampleContext
          (sampleConfig\<lparr>Workloads := [sampleWorkload],
                        UpdateFailure := Some (StatusError Conflict ''the object has been modified'')\<rparr>)
          sampleWorkload (sampleWorkload\<lparr>Spec := emptySpec\<rparr>)
        = (c', False, Some (SilenceError (StatusError Conflict ''the object has been modified'')))
      \<and> last (Output c') = (Printf, ''Error: conflict updating workload, the object was modified by another user; please run the update command again\<newline>'')"
proof -
  let ?c = "sampleConfig\<lparr>Workloads := [sampleWorkload],
                        UpdateFailure := Some (StatusError Conflict ''the object has been modified'')\<rparr>"
  let ?w = "sampleWorkload\<lparr>Spec := emptySpec\<rparr>"
  obtain c' ok r where run: "Update sampleLibrary sampleOptions sampleContext ?c sampleWorkload ?w = (c', ok, r)"
    by (cases "Update sampleLibrary sampleOptions sampleContext ?c sampleWorkload ?w") auto
  have "ResourceDiff sampleLibrary (Some sampleWorkload) ?w = Inr (''+ my-workload'', False)"
    by (simp add: sample_defs)
  moreover have "Yes sampleOptions" by (simp add: sample_defs)
  ultimately have called: "Calls c' \<noteq> Calls ?c"
    using Update_called_iff[OF run] by blast
  have failed: "snd (client_Update ?w ?c) = Some (StatusError Conflict ''the object has been modified'')"
    by (simp add: client_Update_def sample_defs)
  from Update_conflict[OF run called failed] run show ?thesis by simp
qed

section \<open>Properties of Create\<close>

lemma Create_cases [consumes 1, case_names diffError stdin declined created createFailed]:
  assumes run: "Create lib opts ctx c workload = (c', okToCreate, r)"
  obtains
    (diffError) err where "ResourceDiff lib None workload = Inl err"
      "c' = warned lib c workload" "\<not> okToCreate" "r = Some err"
  | (stdin) d nc where "ResourceDiff lib None workload = Inr (d, nc)"
      "\<not> Yes opts" "FilePath opts = ''-''"
      "c' = print Errorf (''Skipping workload, cannot confirm intent. Run command with '' @ YesFlagName
               @ '' flag to confirm intent when providing input from stdin\<newline>'')
              (previewed ''Create workload:\<newline>'' lib ctx c workload d)"
      "\<not> okToCreate" "r = None"
  | (declined) d nc c1 failed where "ResourceDiff lib None workload = Inr (d, nc)"
      "\<not> Yes opts" "FilePath opts \<noteq> ''-''"
      "AskOne ''Do you want to create this workload?''
         (previewed ''Create workload:\<newline>'' lib ctx c workload d) = (c1, failed, okToCreate)"
      "failed \<or> \<not> okToCreate"
      "c' = print Infof (''Skipping workload '' @ quote (Workload.Name workload) @ ''\<newline>'') c1"
      "r = None"
  | (created) d nc c1 c2 where "ResourceDiff lib None workload = Inr (d, nc)"
      "Yes opts \<and> c1 = previewed ''Create workload:\<newline>'' lib ctx c workload d
       \<or> \<not> Yes opts \<and> FilePath opts \<noteq> ''-''
         \<and> AskOne ''Do you want to create this workload?''
              (previewed ''Create workload:\<newline>'' lib ctx c workload d) = (c1, False, True)"
      "client_Create workload c1 = (c2, None)"
      "c' = print Successf (''Created workload '' @ quote (Workload.Name workload) @ ''\<newline>'') c2"
      "okToCreate" "r = None"
  | (createFailed) d nc c1 err where "ResourceDiff lib None workload = Inr (d, nc)"
      "Yes opts \<and> c1 = previewed ''Create workload:\<newline>'' lib ctx c workload d
       \<or> \<not> Yes opts \<and> FilePath opts \<noteq> ''-''
         \<and> AskOne ''Do you want to create this workload?''
              (previewed ''Create workload:\<newline>'' lib ctx c workload d) = (c1, False, True)"
      "client_Create workload c1 = (c', Some err)"
      "okToCreate" "r = Some err"
proof (cases "ResourceDiff lib None workload")
  case (Inl err)
  with run diffError show ?thesis by (simp add: Create_def warned_def)
next
  case (Inr p)
  obtain d nc where p: "p = (d, nc)" by (cases p)
  have diff: "ResourceDiff lib None workload = Inr (d, nc)"
    using Inr p by simp
  let ?pv = "previewed ''Create workload:\<newline>'' lib ctx c workload d"
  let ?ask = "AskOne ''Do you want to create this workload?'' ?pv"
  have submit: thesis
    if how: "Yes opts \<and> c1 = ?pv \<or> \<not> Yes opts \<and> FilePath opts \<noteq> ''-'' \<and> ?ask = (c1, False, True)"
    for c1
  proof -
    obtain c2 res where cu: "client_Create workload c1 = (c2, res)"
      by (cases "client_Create workload c1")
    show thesis
    proof (cases res)
      case None
      with run diff how cu have "c' = print Successf (''Created workload '' @ quote (Workload.Name workload) @ ''\<newline>'') c2 \<and> okToCreate \<and> r = None"
        by (auto simp add: Create_def Let_def previewed_def warned_def)
      with created[OF diff how] cu None show thesis by simp
    next
      case (Some err)
      with run diff how cu have "c' = c2 \<and> okToCreate \<and> r = Some err"
        by (auto simp add: Create_def Let_def previewed_def warned_def)
      with createFailed[OF diff how] cu Some show thesis by simp
    qed
  qed
  show ?thesis
  proof (cases "Yes opts")
    case True
    then show ?thesis by (intro submit[of ?pv]) simp
  next
    case noYes: False
    show ?thesis
    proof (cases "FilePath opts = ''-''")
      case True
      with run diff noYes stdin show ?thesis
        by (simp add: Create_def Let_def previewed_def warned_def)
    next
      case notStdin: False
      obtain c1 failed ans where ask: "?ask = (c1, failed, ans)"
        by (cases ?ask) auto
      show ?thesis
      proof (cases "failed \<or> \<not> ans")
        case True
        with run diff noYes notStdin ask have "c' = print Infof (''Skipping workload '' @ quote (Workload.Name workload) @ ''\<newline>'') c1 \<and> okToCreate = ans \<and> r = None"
          by (auto simp add: Create_def Let_def previewed_def warned_def)
        with declined[OF diff noYes notStdin _ _ _ _] ask True show ?thesis by auto
      next
        case False
        with noYes notStdin ask show ?thesis by (intro submit[of c1]) simp
      qed
    qed
  qed
qed

lemma Create_called_iff:
  assumes run: "Create lib opts ctx c workload = (c', okToCreate, r)"
  shows "(Calls c' \<noteq> Calls c) =
           ((\<exists>d nc. ResourceDiff lib None workload = Inr (d, nc))
            \<and> (Yes opts \<or> FilePath opts \<noteq> ''-'' \<and> (\<exists>rest. Answers c = Some True # rest)))"
  using run
proof (cases rule: Create_cases)
  case (declined d nc c1 failed)
  from AskOne_yes[OF declined(4)] AskOne_fields(4)[OF declined(4)] declined show ?thesis
    by auto
next
  case (created d nc c1 c2)
  from created(2) have "Calls c1 = Calls c \<and> (Yes opts \<or> FilePath opts \<noteq> ''-'' \<and> (\<exists>rest. Answers c = Some True # rest))"
    by (auto dest: AskOne_fields(4) AskOne_yes)
  with client_Create_fields(2)[OF created(3)] created show ?thesis by auto
next
  case (createFailed d nc c1 err)
  from createFailed(2) have "Calls c1 = Calls c \<and> (Yes opts \<or> FilePath opts \<noteq> ''-'' \<and> (\<exists>rest. Answers c = Some True # rest))"
    by (auto dest: AskOne_fields(4) AskOne_yes)
  with client_Create_fields(2)[OF createFailed(3)] createFailed show ?thesis by auto
qed auto

text \<open>What Create leaves as it was, and what it adds.\<close>

lemma Create_frame:
  assumes run: "Create lib opts ctx c workload = (c', okToCreate, r)"
  shows "Races c' = Races c
     \<and> (Calls c' = Calls c \<or> Calls c' = Calls c @ [CallCreate workload])
     \<and> (r \<noteq> None \<or> \<not> okToCreate \<or> Calls c' = Calls c \<longrightarrow> Workloads c' = Workloads c)"
  using run
proof (cases rule: Create_cases)
  case (declined d nc c1 failed)
  with AskOne_fields[OF declined(4)] show ?thesis by simp
next
  case (created d nc c1 c2)
  from created(2) have c1: "Calls c1 = Calls c" "Races c1 = Races c" "Workloads c1 = Workloads c"
    by (auto dest: AskOne_fields)
  with created client_Create_fields[OF created(3)] show ?thesis by simp
next
  case (createFailed d nc c1 err)
  from createFailed(2) have c1: "Calls c1 = Calls c" "Races c1 = Races c" "Workloads c1 = Workloads c"
    by (auto dest: AskOne_fields)
  with createFailed client_Create_fields[OF createFailed(3)] show ?thesis by simp
qed simp_all

section \<open>Previews, unchanged workloads and input from stdin\<close>

lemma previewed_Output':
  "Output (previewed t lib ctx c w d) =
     Output c @ map (Pair Infof) (map (\<lambda>msg. ''WARNING: '' @ msg @ ''\<newline>'') (DeprecationWarnings lib w))
       @ [(Printf, t), (Printf, d @ ''\<newline>'')]
       @ map (Pair Infof) (map (\<lambda>msg. ''NOTICE: '' @ msg @ ''\<newline>\<newline>'') (GetNotices ctx))"
  by (simp add: previewed_Output warned_Output)

lemma Update_Output_Calls:
  assumes run: "Update lib opts ctx c currentWorkload workload = (c', okToUpdate, r)"
  shows "(Calls c' \<noteq> Calls c \<longrightarrow>
           (\<exists>d pre post. ResourceDiff lib (Some currentWorkload) workload = Inr (d, False)
              \<and> Calls c' = Calls c @ [CallUpdate workload]
              \<and> Output c' = Output c @ pre
                   @ [(Printf, ''Update workload:\<newline>''), (Printf, d @ ''\<newline>'')] @ post))
       \<and> (\<forall>d. ResourceDiff lib (Some currentWorkload) workload = Inr (d, True) \<longrightarrow>
             \<not> okToUpdate \<and> r = None
             \<and> last (Output c') = (Infof, ''Workload is unchanged, skipping update\<newline>'')
             \<and> Calls c' = Calls c \<and> Workloads c' = Workloads c)"
  using run
proof (cases rule: Update_cases)
  case (declined d c1 failed)
  with AskOne_fields[OF declined(4)] show ?thesis by simp
next
  case (updated d c1 c2)
  from updated(2) have c1: "Calls c1 = Calls c"
      "Output c1 = Output (previewed ''Update workload:\<newline>'' lib ctx c workload d)"
    by (auto dest: AskOne_fields)
  from updated c1 client_Update_fields[OF updated(3)]
  have "ResourceDiff lib (Some currentWorkload) workload = Inr (d, False)
       \<and> Calls c' = Calls c @ [CallUpdate workload]
       \<and> Output c' = Output c @ map (Pair Infof) (map (\<lambda>msg. ''WARNING: '' @ msg @ ''\<newline>'') (DeprecationWarnings lib workload))
       @ [(Printf, ''Update workload:\<newline>''), (Printf, d @ ''\<newline>'')]
       @ (map (Pair Infof) (map (\<lambda>msg. ''NOTICE: '' @ msg @ ''\<newline>\<newline>'') (GetNotices ctx))
          @ [(Successf, ''Updated workload '' @ quote (Workload.Name workload) @ ''\<newline>'')])"
    by (simp add: previewed_Output')
  then have "\<exists>d pre post. ResourceDiff lib (Some currentWorkload) workload = Inr (d, False)
              \<and> Calls c' = Calls c @ [CallUpdate workload]
              \<and> Output c' = Output c @ pre
                   @ [(Printf, ''Update workload:\<newline>''), (Printf, d @ ''\<newline>'')] @ post"
    by blast
  with updated(1) show ?thesis by simp
next
  case (updateFailed d c1 c2 err)
  from updateFailed(2) have c1: "Calls c1 = Calls c"
      "Output c1 = Output (previewed ''Update workload:\<newline>'' lib ctx c workload d)"
    by (auto dest: AskOne_fields)
  from updateFailed c1 client_Update_fields[OF updateFailed(3)]
  have "ResourceDiff lib (Some currentWorkload) workload = Inr (d, False)
       \<and> Calls c' = Calls c @ [CallUpdate workload]
       \<and> Output c' = Output c @ map (Pair Infof) (map (\<lambda>msg. ''WARNING: '' @ msg @ ''\<newline>'') (DeprecationWarnings lib workload))
       @ [(Printf, ''Update workload:\<newline>''), (Printf, d @ ''\<newline>'')]
       @ (map (Pair Infof) (map (\<lambda>msg. ''NOTICE: '' @ msg @ ''\<newline>\<newline>'') (GetNotices ctx))
          @ (if IsConflict err then [(Printf, Serrorf ''Error:'' @ '' conflict updating workload, the object was modified by another user; please run the update command again\<newline>'')] else []))"
    by (simp add: previewed_Output')
  then have "\<exists>d pre post. ResourceDiff lib (Some currentWorkload) workload = Inr (d, False)
              \<and> Calls c' = Calls c @ [CallUpdate workload]
              \<and> Output c' = Output c @ pre
                   @ [(Printf, ''Update workload:\<newline>''), (Printf, d @ ''\<newline>'')] @ post"
    by blast
  with updateFailed(1) show ?thesis by simp
qed simp_all

text \<open>
  The events of a run of \<open>Update\<close>, in their order: either nothing is submitted, or the
  title and the diff are printed, then the one submission follows.
\<close>

lemma no_submission_printed [simp]:
  "\<not> list_ex isSubmission (map (Printed p) ms)"
  "\<not> list_ex isSubmission (map (Printed p \<circ> f) ms)"
  by (induction ms) simp_all

lemma Update_History:
  assumes run: "Update lib opts ctx c currentWorkload workload = (c', okToUpdate, r)"
  shows "\<exists>evs. History c' = History c @ evs
           \<and> (if Calls c' = Calls c then \<not> list_ex isSubmission evs
              else \<exists>d shown rest after.
                     ResourceDiff lib (Some currentWorkload) workload = Inr (d, False)
                     \<and> evs = shown @ [Printed Printf ''Update workload:\<newline>'', Printed Printf (d @ ''\<newline>'')]
                               @ rest @ [SubmittedUpdate workload] @ after
                     \<and> \<not> list_ex isSubmission (shown @ rest @ after))"
  using run
proof (cases rule: Update_cases)
  case (diffError err)
  then show ?thesis by (simp add: warned_History)
next
  case (noChange d)
  then show ?thesis by (simp add: warned_History)
next
  case (stdin d)
  then show ?thesis by (simp add: previewed_History)
next
  case (declined d c1 failed)
  with AskOne_fields(4,8)[OF declined(4)] show ?thesis by (simp add: previewed_History)
next
  case (updated d c1 c2)
  let ?ws = "map (Printed Infof) (map (\<lambda>msg. ''WARNING: '' @ msg @ ''\<newline>'') (DeprecationWarnings lib workload))"
  let ?ns = "map (Printed Infof) (map (\<lambda>msg. ''NOTICE: '' @ msg @ ''\<newline>\<newline>'') (GetNotices ctx))"
  let ?asked = "if Yes opts then [] else [Prompted (''Really update the workload '' @ quote (Workload.Name workload) @ ''?'')]"
  from updated(2) have c1: "Calls c1 = Calls c"
      "History c1 = History (previewed ''Update workload:\<newline>'' lib ctx c workload d) @ ?asked"
    by (auto dest: AskOne_fields)
  from updated(4) c1 client_Update_fields(2,6)[OF updated(3)]
  have h: "Calls c' \<noteq> Calls c"
    "History c' = History c @ (?ws @ [Printed Printf ''Update workload:\<newline>'', Printed Printf (d @ ''\<newline>'')]
        @ (?ns @ ?asked) @ [SubmittedUpdate workload]
        @ [Printed Successf (''Updated workload '' @ quote (Workload.Name workload) @ ''\<newline>'')])"
    by (simp_all add: previewed_History)
  have "\<not> list_ex isSubmission (?ws @ (?ns @ ?asked)
          @ [Printed Successf (''Updated workload '' @ quote (Workload.Name workload) @ ''\<newline>'')])"
    by simp
  with h(2) updated(1) have "\<exists>d shown rest after.
                     ResourceDiff lib (Some currentWorkload) workload = Inr (d, False)
                     \<and> History c' = History c @ (shown @ [Printed Printf ''Update workload:\<newline>'', Printed Printf (d @ ''\<newline>'')]
                               @ rest @ [SubmittedUpdate workload] @ after)
                     \<and> \<not> list_ex isSubmission (shown @ rest @ after)"
    by blast
  then have "\<exists>evs. History c' = History c @ evs
           \<and> (\<exists>d shown rest after.
                     ResourceDiff lib (Some currentWorkload) workload = Inr (d, False)
                     \<and> evs = shown @ [Printed Printf ''Update workload:\<newline>'', Printed Printf (d @ ''\<newline>'')]
                               @ rest @ [SubmittedUpdate workload] @ after
                     \<and> \<not> list_ex isSubmission (shown @ rest @ after))"
    by blast
  with h(1) show ?thesis by (simp only: if_False)
next
  case (updateFailed d c1 c2 err)
  let ?ws = "map (Printed Infof) (map (\<lambda>msg. ''WARNING: '' @ msg @ ''\<newline>'') (DeprecationWarnings lib workload))"
  let ?ns = "map (Printed Infof) (map (\<lambda>msg. ''NOTICE: '' @ msg @ ''\<newline>\<newline>'') (GetNotices ctx))"
  let ?asked = "if Yes opts then [] else [Prompted (''Really update the workload '' @ quote (Workload.Name workload) @ ''?'')]"
  let ?after = "if IsConflict err then [Printed Printf (Serrorf ''Error:'' @ '' conflict updating workload, the object was modified by another user; please run the update command again\<newline>'')] else []"
  from updateFailed(2) have c1: "Calls c1 = Calls c"
      "History c1 = History (previewed ''Update workload:\<newline>'' lib ctx c workload d) @ ?asked"
    by (auto dest: AskOne_fields)
  from updateFailed(4) c1 client_Update_fields(2,6)[OF updateFailed(3)]
  have h: "Calls c' \<noteq> Calls c"
    "History c' = History c @ (?ws @ [Printed Printf ''Update workload:\<newline>'', Printed Printf (d @ ''\<newline>'')]
        @ (?ns @ ?asked) @ [SubmittedUpdate workload] @ ?after)"
    by (simp_all add: previewed_History)
  have "\<not> list_ex isSubmission (?ws @ (?ns @ ?asked) @ ?after)"
    by simp
  with h(2) updateFailed(1) have "\<exists>d shown rest after.
                     ResourceDiff lib (Some currentWorkload) workload = Inr (d, False)
                     \<and> History c' = History c @ (shown @ [Printed Printf ''Update workload:\<newline>'', Printed Printf (d @ ''\<newline>'')]
                               @ rest @ [SubmittedUpdate workload] @ after)
                     \<and> \<not> list_ex isSubmission (shown @ rest @ after)"
    by blast
  then have "\<exists>evs. History c' = History c @ evs
           \<and> (\<exists>d shown rest after.
                     ResourceDiff lib (Some currentWorkload) workload = Inr (d, False)
                     \<and> evs = shown @ [Printed Printf ''Update workload:\<newline>'', Printed Printf (d @ ''\<newline>'')]
                               @ rest @ [SubmittedUpdate workload] @ after
                     \<and> \<not> list_ex isSubmission (shown @ rest @ after))"
    by blast
  with h(1) show ?thesis by (simp only: if_False)
qed

text \<open>
  C2. \<open>Update\<close> diffs the desired workload against the current one before it submits
  anything: whenever it has called the client, the call was the Update of the desired
  workload, the diff reported a change, and the preview (the title and the diff) had been
  printed. In the sequence of what the run printed, asked and submitted, the preview
  stands before the submission of the Update, which is the only submission of the run; a
  run that has not called the client has submitted nothing. When the diff reports no
  change, \<open>Update\<close> prints "Workload is unchanged, skipping update", calls the client not
  at all and leaves the cluster as it was.
\<close>

theorem Update_previews_and_skips_unchanged:
  assumes run: "Update lib opts ctx c currentWorkload workload = (c', okToUpdate, r)"
  shows "(Calls c' \<noteq> Calls c \<longrightarrow>
           (\<exists>d pre post. ResourceDiff lib (Some currentWorkload) workload = Inr (d, False)
              \<and> Calls c' = Calls c @ [CallUpdate workload]
              \<and> Output c' = Output c @ pre
                   @ [(Printf, ''Update workload:\<newline>''), (Printf, d @ ''\<newline>'')] @ post))
       \<and> (\<forall>d. ResourceDiff lib (Some currentWorkload) workload = Inr (d, True) \<longrightarrow>
             \<not> okToUpdate \<and> r = None
             \<and> last (Output c') = (Infof, ''Workload is unchanged, skipping update\<newline>'')
             \<and> Calls c' = Calls c \<and> Workloads c' = Workloads c)
       \<and> (\<exists>evs. History c' = History c @ evs
             \<and> (if Calls c' = Calls c then \<not> list_ex isSubmission evs
                else \<exists>d shown rest after.
                       ResourceDiff lib (Some currentWorkload) workload = Inr (d, False)
                       \<and> evs = shown @ [Printed Printf ''Update workload:\<newline>'', Printed Printf (d @ ''\<newline>'')]
                                 @ rest @ [SubmittedUpdate workload] @ after
                       \<and> \<not> list_ex isSubmission (shown @ rest @ after)))"
  by (rule conjI[OF conjunct1[OF Update_Output_Calls[OF run]]
        conjI[OF conjunct2[OF Update_Output_Calls[OF run]] Update_History[OF run]]])

text \<open>
  The two runs of C2 on the sample cluster: the desired workload equal to the current
  one, and a desired workload with another spec under \<open>--yes\<close>.
\<close>

theorem Update_previews_and_skips_unchanged_witness:
  "(\<exists>c'. Update sampleLibrary sampleOptions sampleContext (sampleConfig\<lparr>Workloads := [sampleWorkload]\<rparr>)
            sampleWorkload sampleWorkload = (c', False, None)
         \<and> last (Output c') = (Infof, ''Workload is unchanged, skipping update\<newline>'')
         \<and> Calls c' = [] \<and> Workloads c' = [sampleWorkload]
         \<and> \<not> list_ex isSubmission (History c'))
   \<and> (\<exists>c' pre post. Update sampleLibrary sampleOptions sampleContext (sampleConfig\<lparr>Workloads := [sampleWorkload]\<rparr>)
            sampleWorkload (sampleWorkload\<lparr>Spec := emptySpec\<rparr>) = (c', True, None)
         \<and> Calls c' = [CallUpdate (sampleWorkload\<lparr>Spec := emptySpec\<rparr>)]
         \<and> Output c' = pre @ [(Printf, ''Update workload:\<newline>''), (Printf, ''+ my-workload\<newline>'')] @ post
         \<and> (\<exists>shown rest after.
               History c' = shown @ [Printed Printf ''Update workload:\<newline>'', Printed Printf ''+ my-workload\<newline>'']
                              @ rest @ [SubmittedUpdate (sampleWorkload\<lparr>Spec := emptySpec\<rparr>)] @ after
               \<and> \<not> list_ex isSubmission (shown @ rest @ after)))"
proof
  let ?c = "sampleConfig\<lparr>Workloads := [sampleWorkload]\<rparr>"
  obtain c' ok r where run: "Update sampleLibrary sampleOptions sampleContext ?c sampleWorkload sampleWorkload = (c', ok, r)"
    by (cases "Update sampleLibrary sampleOptions sampleContext ?c sampleWorkload sampleWorkload") auto
  have diff: "ResourceDiff sampleLibrary (Some sampleWorkload) sampleWorkload = Inr (''+ my-workload'', True)"
    by (simp add: sample_defs)
  note upd = Update_previews_and_skips_unchanged[OF run]
  from conjunct1[OF conjunct2[OF upd]] diff
  have unchanged: "\<not> ok \<and> r = None
         \<and> last (Output c') = (Infof, ''Workload is unchanged, skipping update\<newline>'')
         \<and> Calls c' = Calls ?c \<and> Workloads c' = Workloads ?c"
    by blast
  with conjunct2[OF conjunct2[OF upd]]
  have "\<exists>evs. History c' = History ?c @ evs \<and> \<not> list_ex isSubmission evs"
    by (simp only: simp_thms if_True)
  then have "\<not> list_ex isSubmission (History c')"
    by (auto simp add: sampleConfig_def)
  with unchanged run
  show "\<exists>c'. Update sampleLibrary sampleOptions sampleContext ?c sampleWorkload sampleWorkload = (c', False, None)
         \<and> last (Output c') = (Infof, ''Workload is unchanged, skipping update\<newline>'')
         \<and> Calls c' = [] \<and> Workloads c' = [sampleWorkload]
         \<and> \<not> list_ex isSubmission (History c')"
    by (simp add: sampleConfig_def)
next
  let ?c = "sampleConfig\<lparr>Workloads := [sampleWorkload]\<rparr>"
  let ?w = "sampleWorkload\<lparr>Spec := emptySpec\<rparr>"
  obtain c' ok r where run: "Update sampleLibrary sampleOptions sampleContext ?c sampleWorkload ?w = (c', ok, r)"
    by (cases "Update sampleLibrary sampleOptions sampleContext ?c sampleWorkload ?w") auto
  have diff: "ResourceDiff sampleLibrary (Some sampleWorkload) ?w = Inr (''+ my-workload'', False)"
    by (simp add: sample_defs)
  moreover have yes: "Yes sampleOptions" by (simp add: sample_defs)
  ultimately have called: "Calls c' \<noteq> Calls ?c"
    using Update_called_iff[OF run] by blast
  have ok: "snd (client_Update ?w ?c) = None"
    by (simp add: client_Update_def sample_defs sameKey_def)
  from run have res: "ok \<and> r = None"
  proof (cases rule: Update_cases)
    case (updateFailed d c1 c2 err)
    from updateFailed(2) yes have "Workloads c1 = Workloads ?c" "UpdateFailure c1 = UpdateFailure ?c" by auto
    from client_Update_result[OF this, of ?w] updateFailed(3) ok show ?thesis by simp
  qed (use diff yes in auto)
  note upd = Update_previews_and_skips_unchanged[OF run]
  from conjunct1[OF upd] called diff
  have out: "\<exists>pre post. Calls c' = [CallUpdate ?w]
         \<and> Output c' = pre @ [(Printf, ''Update workload:\<newline>''), (Printf, ''+ my-workload\<newline>'')] @ post"
    by (auto simp add: sampleConfig_def)
  from conjunct2[OF conjunct2[OF upd]] called
  have "\<exists>evs. History c' = History ?c @ evs
          \<and> (\<exists>d shown rest after.
                 ResourceDiff sampleLibrary (Some sampleWorkload) ?w = Inr (d, False)
                 \<and> evs = shown @ [Printed Printf ''Update workload:\<newline>'', Printed Printf (d @ ''\<newline>'')]
                           @ rest @ [SubmittedUpdate ?w] @ after
                 \<and> \<not> list_ex isSubmission (shown @ rest @ after))"
    by (simp only: if_False)
  then obtain d shown rest after where
      h: "History c' = History ?c @ shown @ [Printed Printf ''Update workload:\<newline>'', Printed Printf (d @ ''\<newline>'')]
                           @ rest @ [SubmittedUpdate ?w] @ after"
      and d: "ResourceDiff sampleLibrary (Some sampleWorkload) ?w = Inr (d, False)"
      and none: "\<not> list_ex isSubmission (shown @ rest @ after)"
    by blast
  from d diff have "d = ''+ my-workload''" by simp
  with h have "History c' = shown @ [Printed Printf ''Update workload:\<newline>'', Printed Printf ''+ my-workload\<newline>'']
                              @ rest @ [SubmittedUpdate ?w] @ after"
    by (simp add: sampleConfig_def)
  with none have hist: "\<exists>shown rest after.
               History c' = shown @ [Printed Printf ''Update workload:\<newline>'', Printed Printf ''+ my-workload\<newline>'']
                              @ rest @ [SubmittedUpdate ?w] @ after
               \<and> \<not> list_ex isSubmission (shown @ rest @ after)"
    by blast
  from out obtain pre post where "Calls c' = [CallUpdate ?w]"
      "Output c' = pre @ [(Printf, ''Update workload:\<newline>''), (Printf, ''+ my-workload\<newline>'')] @ post"
    by blast
  with res run hist
  show "\<exists>c' pre post. Update sampleLibrary sampleOptions sampleContext ?c sampleWorkload ?w = (c', True, None)
         \<and> Calls c' = [CallUpdate ?w]
         \<and> Output c' = pre @ [(Printf, ''Update workload:\<newline>''), (Printf, ''+ my-workload\<newline>'')] @ post
         \<and> (\<exists>shown rest after.
               History c' = shown @ [Printed Printf ''Update workload:\<newline>'', Printed Printf ''+ my-workload\<newline>'']
                              @ rest @ [SubmittedUpdate ?w] @ after
               \<and> \<not> list_ex isSubmission (shown @ rest @ after))"
    by (intro exI[of _ c'] exI[of _ pre] exI[of _ post]) simp
qed

lemma Create_prompted_iff:
  assumes run: "Create lib opts ctx c workload = (c', okToCreate, r)"
  shows "(Prompts c' \<noteq> Prompts c) =
           ((\<exists>d nc. ResourceDiff lib None workload = Inr (d, nc)) \<and> \<not> Yes opts \<and> FilePath opts \<noteq> ''-'')"
  using run
proof (cases rule: Create_cases)
  case (declined d nc c1 failed)
  with AskOne_fields(6)[OF declined(4)] show ?thesis by auto
next
  case (created d nc c1 c2)
  with client_Create_fields(3)[OF created(3)] show ?thesis by (auto dest: AskOne_fields(6))
next
  case (createFailed d nc c1 err)
  with client_Create_fields(3)[OF createFailed(3)] show ?thesis by (auto dest: AskOne_fields(6))
qed auto

lemma Update_prompted_iff:
  assumes run: "Update lib opts ctx c currentWorkload workload = (c', okToUpdate, r)"
  shows "(Prompts c' \<noteq> Prompts c) =
           ((\<exists>d. ResourceDiff lib (Some currentWorkload) workload = Inr (d, False)) \<and> \<not> Yes opts
            \<and> FilePath opts \<noteq> ''-'')"
  using run
proof (cases rule: Update_cases)
  case (declined d c1 failed)
  with AskOne_fields(6)[OF declined(4)] show ?thesis by auto
next
  case (updated d c1 c2)
  with client_Update_fields(3)[OF updated(3)] show ?thesis by (auto dest: AskOne_fields(6))
next
  case (updateFailed d c1 c2 err)
  with client_Update_fields(3)[OF updateFailed(3)] show ?thesis by (auto dest: AskOne_fields(6))
qed auto

text \<open>
  C9 as stated fails: with the workload read from standard input and without \<open>--yes\<close>,
  an update whose diff reports no change prints "Workload is unchanged, skipping update"
  and nothing about the intent that cannot be confirmed.
\<close>

theorem stdin_unchanged_counterexample:
  "FilePath (sampleOptions\<lparr>FilePath := ''-'', Yes := False\<rparr>) = ''-''
   \<and> \<not> Yes (sampleOptions\<lparr>FilePath := ''-'', Yes := False\<rparr>)
   \<and> (\<exists>c'. Update sampleLibrary (sampleOptions\<lparr>FilePath := ''-'', Yes := False\<rparr>) sampleContext
              (sampleConfig\<lparr>Workloads := [sampleWorkload]\<rparr>) sampleWorkload sampleWorkload
            = (c', False, None)
          \<and> Output c' = [(Infof, ''Workload is unchanged, skipping update\<newline>'')])"
proof -
  let ?o = "sampleOptions\<lparr>FilePath := ''-'', Yes := False\<rparr>"
  let ?c = "sampleConfig\<lparr>Workloads := [sampleWorkload]\<rparr>"
  obtain c' ok r where run: "Update sampleLibrary ?o sampleContext ?c sampleWorkload sampleWorkload = (c', ok, r)"
    by (cases "Update sampleLibrary ?o sampleContext ?c sampleWorkload sampleWorkload") auto
  have diff: "ResourceDiff sampleLibrary (Some sampleWorkload) sampleWorkload = Inr (''+ my-workload'', True)"
    by (simp add: sample_defs)
  have nowarn: "DeprecationWarnings sampleLibrary sampleWorkload = []"
    by (simp add: sampleLibrary_def)
  from run have "\<not> ok \<and> r = None \<and> Output c' = [(Infof, ''Workload is unchanged, skipping update\<newline>'')]"
    by (cases rule: Update_cases) (use diff nowarn in \<open>auto simp: warned_Output sampleConfig_def\<close>)
  with run show ?thesis by (simp add: sample_defs)
qed

text \<open>
  C9, amended. When \<open>Create\<close> or \<open>Update\<close> reaches its confirmation (the diff
  succeeded and, for \<open>Update\<close>, reported a change) with the file path \<open>-\<close> and without
  \<open>--yes\<close>, it prints "Skipping workload, cannot confirm intent. ...", calls the client
  not at all, leaves the cluster as it was, asks nothing and returns false and nil. The
  confirmation of \<open>Create\<close> and of \<open>Update\<close> is only asked when the file path is not
  \<open>-\<close>.
\<close>

theorem stdin_without_yes_skips:
  "(\<forall>d nc. ResourceDiff lib None workload = Inr (d, nc) \<and> \<not> Yes opts \<and> FilePath opts = ''-'' \<longrightarrow>
      (\<exists>c'. Create lib opts ctx c workload = (c', False, None)
         \<and> last (Output c') = (Errorf, ''Skipping workload, cannot confirm intent. Run command with --yes flag to confirm intent when providing input from stdin\<newline>'')
         \<and> Calls c' = Calls c \<and> Workloads c' = Workloads c \<and> Prompts c' = Prompts c))
   \<and> (\<forall>d. ResourceDiff lib (Some currentWorkload) workload = Inr (d, False) \<and> \<not> Yes opts
          \<and> FilePath opts = ''-'' \<longrightarrow>
      (\<exists>c'. Update lib opts ctx c currentWorkload workload = (c', False, None)
         \<and> last (Output c') = (Errorf, ''Skipping workload, cannot confirm intent. Run command with --yes flag to confirm intent when providing input from stdin\<newline>'')
         \<and> Calls c' = Calls c \<and> Workloads c' = Workloads c \<and> Prompts c' = Prompts c))
   \<and> (\<forall>c' ok r. Create lib opts ctx c workload = (c', ok, r) \<and> Prompts c' \<noteq> Prompts c \<longrightarrow>
          FilePath opts \<noteq> ''-'')
   \<and> (\<forall>c' ok r. Update lib opts ctx c currentWorkload workload = (c', ok, r) \<and> Prompts c' \<noteq> Prompts c \<longrightarrow>
          FilePath opts \<noteq> ''-'')"
proof (intro conjI allI impI)
  fix d nc
  assume a: "ResourceDiff lib None workload = Inr (d, nc) \<and> \<not> Yes opts \<and> FilePath opts = ''-''"
  obtain c' ok r where run: "Create lib opts ctx c workload = (c', ok, r)"
    by (cases "Create lib opts ctx c workload") auto
  from run have "\<not> ok \<and> r = None
         \<and> last (Output c') = (Errorf, ''Skipping workload, cannot confirm intent. Run command with --yes flag to confirm intent when providing input from stdin\<newline>'')
         \<and> Calls c' = Calls c \<and> Workloads c' = Workloads c \<and> Prompts c' = Prompts c"
    by (cases rule: Create_cases) (use a in \<open>auto simp: YesFlagName_def\<close>)
  with run show "\<exists>c'. Create lib opts ctx c workload = (c', False, None)
         \<and> last (Output c') = (Errorf, ''Skipping workload, cannot confirm intent. Run command with --yes flag to confirm intent when providing input from stdin\<newline>'')
         \<and> Calls c' = Calls c \<and> Workloads c' = Workloads c \<and> Prompts c' = Prompts c"
    by simp
next
  fix d
  assume a: "ResourceDiff lib (Some currentWorkload) workload = Inr (d, False) \<and> \<not> Yes opts \<and> FilePath opts = ''-''"
  obtain c' ok r where run: "Update lib opts ctx c currentWorkload workload = (c', ok, r)"
    by (cases "Update lib opts ctx c currentWorkload workload") auto
  from run have "\<not> ok \<and> r = None
         \<and> last (Output c') = (Errorf, ''Skipping workload, cannot confirm intent. Run command with --yes flag to confirm intent when providing input from stdin\<newline>'')
         \<and> Calls c' = Calls c \<and> Workloads c' = Workloads c \<and> Prompts c' = Prompts c"
    by (cases rule: Update_cases) (use a in \<open>auto simp: YesFlagName_def\<close>)
  with run show "\<exists>c'. Update lib opts ctx c currentWorkload workload = (c', False, None)
         \<and> last (Output c') = (Errorf, ''Skipping workload, cannot confirm intent. Run command with --yes flag to confirm intent when providing input from stdin\<newline>'')
         \<and> Calls c' = Calls c \<and> Workloads c' = Workloads c \<and> Prompts c' = Prompts c"
    by simp
next
  fix c' ok r
  assume "Create lib opts ctx c workload = (c', ok, r) \<and> Prompts c' \<noteq> Prompts c"
  then show "FilePath opts \<noteq> ''-''" using Create_prompted_iff by blast
next
  fix c' ok r
  assume "Update lib opts ctx c currentWorkload workload = (c', ok, r) \<and> Prompts c' \<noteq> Prompts c"
  then show "FilePath opts \<noteq> ''-''" using Update_prompted_iff by blast
qed

text \<open>
  C9 amended, on the sample inputs: the two skipped runs from standard input, and two
  runs from the command line that do ask.
\<close>

theorem stdin_without_yes_skips_witness:
  "(\<exists>c'. Create sampleLibrary (sampleOptions\<lparr>FilePath := ''-'', Yes := False\<rparr>) sampleContext
            sampleConfig sampleWorkload = (c', False, None)
         \<and> last (Output c') = (Errorf, ''Skipping workload, cannot confirm intent. Run command with --yes flag to confirm intent when providing input from stdin\<newline>'')
         \<and> Calls c' = [] \<and> Workloads c' = [] \<and> Prompts c' = [])
   \<and> (\<exists>c'. Update sampleLibrary (sampleOptions\<lparr>FilePath := ''-'', Yes := False\<rparr>) sampleContext
            (sampleConfig\<lparr>Workloads := [sampleWorkload]\<rparr>) sampleWorkload
            (sampleWorkload\<lparr>Spec := emptySpec\<rparr>) = (c', False, None)
         \<and> last (Output c') = (Errorf, ''Skipping workload, cannot confirm intent. Run command with --yes flag to confirm intent when providing input from stdin\<newline>'')
         \<and> Calls c' = [] \<and> Workloads c' = [sampleWorkload] \<and> Prompts c' = [])
   \<and> (\<exists>c' ok r. Create sampleLibrary (sampleOptions\<lparr>Yes := False\<rparr>) sampleContext
            (sampleConfig\<lparr>Answers := [Some False]\<rparr>) sampleWorkload = (c', ok, r)
         \<and> Prompts c' \<noteq> [] \<and> FilePath (sampleOptions\<lparr>Yes := False\<rparr>) \<noteq> ''-'')
   \<and> (\<exists>c' ok r. Update sampleLibrary (sampleOptions\<lparr>Yes := False\<rparr>) sampleContext
            (sampleConfig\<lparr>Workloads := [sampleWorkload], Answers := [Some False]\<rparr>) sampleWorkload
            (sampleWorkload\<lparr>Spec := emptySpec\<rparr>) = (c', ok, r)
         \<and> Prompts c' \<noteq> [] \<and> FilePath (sampleOptions\<lparr>Yes := False\<rparr>) \<noteq> ''-'')"
proof -
  let ?o = "sampleOptions\<lparr>FilePath := ''-'', Yes := False\<rparr>"
  let ?p = "sampleOptions\<lparr>Yes := False\<rparr>"
  let ?w = "sampleWorkload\<lparr>Spec := emptySpec\<rparr>"
  let ?c = "sampleConfig\<lparr>Workloads := [sampleWorkload]\<rparr>"
  have d1: "ResourceDiff sampleLibrary None sampleWorkload = Inr (''+ my-workload'', False)"
    and d2: "ResourceDiff sampleLibrary (Some sampleWorkload) ?w = Inr (''+ my-workload'', False)"
    and o: "\<not> Yes ?o" "FilePath ?o = ''-''" "\<not> Yes ?p" "FilePath ?p \<noteq> ''-''"
    by (simp_all add: sample_defs)
  have c: "Calls sampleConfig = []" "Workloads sampleConfig = []" "Prompts sampleConfig = []"
    by (simp_all add: sampleConfig_def)
  obtain c3 ok3 r3 where run3: "Create sampleLibrary ?p sampleContext
            (sampleConfig\<lparr>Answers := [Some False]\<rparr>) sampleWorkload = (c3, ok3, r3)"
    using prod_cases3 by blast
  obtain c4 ok4 r4 where run4: "Update sampleLibrary ?p sampleContext
            (sampleConfig\<lparr>Workloads := [sampleWorkload], Answers := [Some False]\<rparr>) sampleWorkload ?w = (c4, ok4, r4)"
    using prod_cases3 by blast
  have p3: "Prompts c3 \<noteq> []" using Create_prompted_iff[OF run3] d1 o c by auto
  have p4: "Prompts c4 \<noteq> []" using Update_prompted_iff[OF run4] d2 o c by auto
  from stdin_without_yes_skips[of sampleLibrary sampleWorkload ?o sampleContext sampleConfig sampleWorkload]
    d1 o
  have "\<exists>c'. Create sampleLibrary ?o sampleContext sampleConfig sampleWorkload = (c', False, None)
         \<and> last (Output c') = (Errorf, ''Skipping workload, cannot confirm intent. Run command with --yes flag to confirm intent when providing input from stdin\<newline>'')
         \<and> Calls c' = Calls sampleConfig \<and> Workloads c' = Workloads sampleConfig
         \<and> Prompts c' = Prompts sampleConfig"
    by blast
  then have 1: "\<exists>c'. Create sampleLibrary ?o sampleContext sampleConfig sampleWorkload = (c', False, None)
         \<and> last (Output c') = (Errorf, ''Skipping workload, cannot confirm intent. Run command with --yes flag to confirm intent when providing input from stdin\<newline>'')
         \<and> Calls c' = [] \<and> Workloads c' = [] \<and> Prompts c' = []"
    by (simp only: c)
  from stdin_without_yes_skips[of sampleLibrary ?w ?o sampleContext ?c sampleWorkload]
    d2 o
  have "\<exists>c'. Update sampleLibrary ?o sampleContext ?c sampleWorkload ?w = (c', False, None)
         \<and> last (Output c') = (Errorf, ''Skipping workload, cannot confirm intent. Run command with --yes flag to confirm intent when providing input from stdin\<newline>'')
         \<and> Calls c' = Calls ?c \<and> Workloads c' = Workloads ?c \<and> Prompts c' = Prompts ?c"
    by blast
  moreover have "Calls ?c = []" "Workloads ?c = [sampleWorkload]" "Prompts ?c = []"
    by (simp_all add: sampleConfig_def)
  ultimately have 2: "\<exists>c'. Update sampleLibrary ?o sampleContext ?c sampleWorkload ?w = (c', False, None)
         \<and> last (Output c') = (Errorf, ''Skipping workload, cannot confirm intent. Run command with --yes flag to confirm intent when providing input from stdin\<newline>'')
         \<and> Calls c' = [] \<and> Workloads c' = [sampleWorkload] \<and> Prompts c' = []"
    by (simp only:)
  from 1 2 run3 run4 p3 p4 o show ?thesis by blast
qed

section \<open>Properties of the create command\<close>

lemma client_Get_fields:
  assumes "client_Get ns n c = (c', got)"
  shows "c' = c\<lparr>Calls := Calls c @ [CallGet ns n]\<rparr>"
  using assms by (auto simp: client_Get_def Let_def split: option.splits)

lemma client_GetNamespace_fields:
  assumes "client_GetNamespace n c = (c', r)"
  shows "c' = c\<lparr>Calls := Calls c @ [CallGetNamespace n]\<rparr>"
  using assms by (auto simp: client_GetNamespace_def Let_def split: option.splits if_splits)

lemma validateNamespace_fields:
  assumes "validateNamespace c n = (c', r)"
  shows "Workloads c' = Workloads c" "CreateFailure c' = CreateFailure c" "Races c' = Races c"
    "Prompts c' = Prompts c" "Answers c' = Answers c"
    "Calls c' = Calls c @ [CallGetNamespace n]"
  using assms
  by (auto simp: validateNamespace_def loadNamespace_def split: prod.splits option.splits if_splits
           dest!: client_GetNamespace_fields)

lemma checkExisting_frame:
  assumes "checkExisting opts c w = (c', r)"
  shows "Workloads c' = Workloads c \<and> CreateFailure c' = CreateFailure c \<and> Races c' = Races c
     \<and> Prompts c' = Prompts c \<and> Answers c' = Answers c
     \<and> (Calls c' = Calls c @ [CallGet (Workload.Namespace w) (Workload.Name w)]
        \<or> Calls c' = Calls c @ [CallGet (Workload.Namespace w) (Workload.Name w),
                                 CallGetNamespace (WorkloadOptions.Namespace opts)])"
  using assms
  by (auto simp: checkExisting_def split: prod.splits sum.splits option.splits if_splits
           dest!: client_Get_fields dest: validateNamespace_fields)

lemma checkExisting_found:
  assumes "GetFailure c = None"
      and "find (sameKey (Workload.Namespace w) (Workload.Name w)) (Workloads c) = Some found"
  shows "checkExisting opts c w =
           (print Printf (''Error: workload '' @ quote (Workload.Namespace w @ ''/'' @ Workload.Name w)
                            @ '' already exists\<newline>'')
              (c\<lparr>Calls := Calls c @ [CallGet (Workload.Namespace w) (Workload.Name w)]\<rparr>),
            Some (SilenceError (ErrorString [])))"
proof -
  from assms(2) have "sameKey (Workload.Namespace w) (Workload.Name w) found"
    by (auto simp: find_Some_iff)
  with assms show ?thesis
    by (simp add: checkExisting_def client_Get_def Let_def sameKey_def Serrorf_def)
qed

lemma checkExisting_getError:
  assumes "GetFailure c = Some err" and "\<not> IsNotFound err"
  shows "checkExisting opts c w =
           (c\<lparr>Calls := Calls c @ [CallGet (Workload.Namespace w) (Workload.Name w)]\<rparr>, Some err)"
  using assms by (simp add: checkExisting_def client_Get_def Let_def)

lemma mergeAndValidate_frame:
  assumes "mergeAndValidate lib opts ctx c w = Returns (c', x)"
  shows "c' = c \<or> c' = c\<lparr>SilenceUsage := False\<rparr>"
  using assms
  by (auto simp: mergeAndValidate_def Let_def split: outcome.splits prod.splits if_splits)

lemma mergeAndValidate_merged:
  assumes "mergeAndValidate lib opts ctx c w = Returns (c', Inr (ctx', wm))"
  shows "ApplyOptionsToWorkload lib opts ctx w = Returns (ctx', wm) \<and> c' = c"
  using assms
  by (auto simp: mergeAndValidate_def Let_def split: outcome.splits prod.splits if_splits)

lemma checkToPublishLocalSource_frame:
  assumes "checkToPublishLocalSource opts img c w = (c', ok)"
  shows "Workloads c' = Workloads c \<and> CreateFailure c' = CreateFailure c \<and> Races c' = Races c
     \<and> Calls c' = Calls c \<and> Files c' = Files c"
  using assms
  by (auto simp: checkToPublishLocalSource_def AskOne_def Let_def
           split: prod.splits if_splits list.splits option.splits)

lemma loadExcludedPaths_frame:
  assumes "loadExcludedPaths lib p f c = (c', xs)"
  shows "Workloads c' = Workloads c \<and> CreateFailure c' = CreateFailure c \<and> Races c' = Races c
     \<and> Calls c' = Calls c"
  using assms
  by (auto simp: loadExcludedPaths_def split: sum.splits if_splits)

lemma PublishLocalSource_frame:
  assumes "PublishLocalSource lib opts c cur w = Returns (c', w', ok, err)"
  shows "Workloads c' = Workloads c \<and> CreateFailure c' = CreateFailure c \<and> Races c' = Races c
     \<and> Calls c' = Calls c"
proof (cases "LocalPath opts = []")
  case True
  with assms show ?thesis by (simp add: PublishLocalSource_def)
next
  case False
  with assms show ?thesis
    unfolding PublishLocalSource_def Let_def
    by (auto split: option.splits prod.splits if_splits sum.splits
             dest!: checkToPublishLocalSource_frame loadExcludedPaths_frame)
qed

lemma DisplayCommandNextSteps_fields [simp]:
  "Workloads (DisplayCommandNextSteps c w) = Workloads c"
  "Calls (DisplayCommandNextSteps c w) = Calls c"
  "Races (DisplayCommandNextSteps c w) = Races c"
  "Prompts (DisplayCommandNextSteps c w) = Prompts c"
  by (simp_all add: DisplayCommandNextSteps_def)

lemma waiting_fields [simp]:
  "Workloads (waiting lib opts c w) = Workloads c"
  "Calls (waiting lib opts c w) = Calls c"
  "Prompts (waiting lib opts c w) = Prompts c"
  "Races (waiting lib opts c w) = Races c @ [(WaitTimeout opts, waitWorkers lib opts w)]"
  by (simp_all add: waiting_def)

lemma afterCreate_wait:
  assumes "okToCreate" and "Wait opts \<or> Tail opts \<or> TailTimestamps opts"
  shows "afterCreate lib opts c workload okToCreate =
     (case Race lib (WaitTimeout opts) (waitWorkers lib opts workload) of
        Panics \<Rightarrow> Panics
      | Returns None \<Rightarrow>
          Returns (print Infof (''Workload '' @ quote (WorkloadOptions.Name opts) @ '' is ready\<newline>'')
                     (waiting lib opts c workload), None)
      | Returns (Some err) \<Rightarrow>
          if err = DeadlineExceeded
          then Returns (print Printf (''Error: timeout after '' @ DurationString lib (WaitTimeout opts)
                          @ '' waiting for '' @ quote (WorkloadOptions.Name opts)
                          @ '' to become ready\<newline>'') (waiting lib opts c workload),
                        Some (SilenceError err))
          else Returns (print Eprintf (''Error: '' @ Error err @ ''\<newline>'') (waiting lib opts c workload),
                        Some (SilenceError err)))"
  using assms
  by (simp add: afterCreate_def wait_Race_def waiting_def print_def Serrorf_def Let_def
           split: outcome.splits option.splits)

lemma afterCreate_nowait:
  assumes "\<not> (okToCreate \<and> (Wait opts \<or> Tail opts \<or> TailTimestamps opts))"
  shows "afterCreate lib opts c workload okToCreate =
     Returns (if okToCreate
              then print Printf ''\<newline>'' (DisplayCommandNextSteps (print Printf ''\<newline>'' c) workload)
              else c, None)"
  using assms by (auto simp add: afterCreate_def Let_def)

lemma afterCreate_frame:
  assumes "afterCreate lib opts c workload okToCreate = Returns (c', r)"
  shows "Calls c' = Calls c \<and> Workloads c' = Workloads c
     \<and> (if okToCreate \<and> (Wait opts \<or> Tail opts \<or> TailTimestamps opts)
        then Races c' = Races c @ [(WaitTimeout opts, waitWorkers lib opts workload)]
        else Races c' = Races c)"
proof (cases "okToCreate \<and> (Wait opts \<or> Tail opts \<or> TailTimestamps opts)")
  case True
  with assms afterCreate_wait[of okToCreate opts lib c workload] show ?thesis
    by (auto split: outcome.splits option.splits if_splits)
next
  case False
  with assms afterCreate_nowait[OF False, of lib c workload] show ?thesis
    by (auto split: if_splits)
qed

lemma Create_Workloads:
  assumes run: "Create lib opts ctx c workload = (c', okToCreate, r)"
  shows "Workloads c' = Workloads c \<or> Workloads c' = Workloads c @ [workload] \<and> okToCreate \<and> r = None"
  using run
proof (cases rule: Create_cases)
  case (declined d nc c1 failed)
  with AskOne_fields(1)[OF declined(4)] show ?thesis by simp
next
  case (created d nc c1 c2)
  from created(2) have "Workloads c1 = Workloads c" by (auto dest: AskOne_fields(1))
  with created show ?thesis
    by (auto simp: client_Create_def Let_def split: option.splits if_splits)
next
  case (createFailed d nc c1 err)
  from createFailed(2) have "Workloads c1 = Workloads c" by (auto dest: AskOne_fields(1))
  with createFailed client_Create_fields(5)[OF createFailed(3)] show ?thesis by simp
qed simp_all

lemma Exec_cases [consumes 1, case_names loadError stopped invalid dryRun publishFailed notPushed createError proceeded]:
  assumes run: "Exec lib opts ctx c = Returns (c', r)"
  obtains
    (loadError) err where "inputWorkload lib opts ctx c = Inl err" "c' = c" "r = Some err"
  | (stopped) w0 err where "inputWorkload lib opts ctx c = Inr w0"
      "checkExisting opts c w0 = (c', Some err)" "r = Some err"
  | (invalid) w0 c1 err where "inputWorkload lib opts ctx c = Inr w0"
      "checkExisting opts c w0 = (c1, None)"
      "mergeAndValidate lib opts ctx c1 w0 = Returns (c', Inl err)" "r = Some err"
  | (dryRun) w0 c1 ctx' wm where "inputWorkload lib opts ctx c = Inr w0"
      "checkExisting opts c w0 = (c1, None)"
      "mergeAndValidate lib opts ctx c1 w0 = Returns (c1, Inr (ctx', wm))"
      "DryRun opts" "c' = print Stdout (DryRunResource lib wm) c1" "r = None"
  | (publishFailed) w0 c1 ctx' wm w ok err where "inputWorkload lib opts ctx c = Inr w0"
      "checkExisting opts c w0 = (c1, None)"
      "mergeAndValidate lib opts ctx c1 w0 = Returns (c1, Inr (ctx', wm))"
      "\<not> DryRun opts" "PublishLocalSource lib opts c1 None wm = Returns (c', w, ok, Some err)"
      "r = Some err"
  | (notPushed) w0 c1 ctx' wm w where "inputWorkload lib opts ctx c = Inr w0"
      "checkExisting opts c w0 = (c1, None)"
      "mergeAndValidate lib opts ctx c1 w0 = Returns (c1, Inr (ctx', wm))"
      "\<not> DryRun opts" "PublishLocalSource lib opts c1 None wm = Returns (c', w, False, None)"
      "r = None"
  | (createError) w0 c1 ctx' wm c2 w ok err where "inputWorkload lib opts ctx c = Inr w0"
      "checkExisting opts c w0 = (c1, None)"
      "mergeAndValidate lib opts ctx c1 w0 = Returns (c1, Inr (ctx', wm))"
      "\<not> DryRun opts" "PublishLocalSource lib opts c1 None wm = Returns (c2, w, True, None)"
      "Create lib opts ctx' c2 w = (c', ok, Some err)" "r = Some err"
  | (proceeded) w0 c1 ctx' wm c2 w c3 ok where "inputWorkload lib opts ctx c = Inr w0"
      "checkExisting opts c w0 = (c1, None)"
      "mergeAndValidate lib opts ctx c1 w0 = Returns (c1, Inr (ctx', wm))"
      "\<not> DryRun opts" "PublishLocalSource lib opts c1 None wm = Returns (c2, w, True, None)"
      "Create lib opts ctx' c2 w = (c3, ok, None)"
      "afterCreate lib opts c3 w ok = Returns (c', r)"
proof (cases "inputWorkload lib opts ctx c")
  case (Inl err)
  with run have "c' = c \<and> r = Some err" by (auto simp add: Exec_def)
  with Inl show ?thesis by (intro loadError[of err]) simp_all
next
  case iw: (Inr w0)
  obtain c1 res where ce: "checkExisting opts c w0 = (c1, res)" by (cases "checkExisting opts c w0")
  show ?thesis
  proof (cases res)
    case (Some err)
    with run iw ce have "c' = c1 \<and> r = Some err" by (auto simp add: Exec_def)
    with iw ce Some show ?thesis by (intro stopped[of w0 err]) simp_all
  next
    case None
    note ce = ce[unfolded None]
    show ?thesis
    proof (cases "mergeAndValidate lib opts ctx c1 w0")
      case Panics
      with run iw ce show ?thesis by (simp add: Exec_def)
    next
      case (Returns mv)
      obtain cm x where mv: "mv = (cm, x)" by (cases mv)
      show ?thesis
      proof (cases x)
        case (Inl err)
        with run iw ce Returns mv have "c' = cm \<and> r = Some err" by (auto simp add: Exec_def)
        with iw ce Returns mv Inl show ?thesis by (intro invalid[of w0 c1 err]) simp_all
      next
        case (Inr cw)
        obtain ctx' wm where cw: "cw = (ctx', wm)" by (cases cw)
        have m: "mergeAndValidate lib opts ctx c1 w0 = Returns (cm, Inr (ctx', wm))"
          using Returns mv Inr cw by simp
        from mergeAndValidate_merged[OF m] have cm: "cm = c1" by simp
        note m = m[unfolded cm]
        show ?thesis
        proof (cases "DryRun opts")
          case True
          with run iw ce m have "c' = print Stdout (DryRunResource lib wm) c1 \<and> r = None"
            by (auto simp add: Exec_def)
          with iw ce m True show ?thesis by (intro dryRun[of w0 c1 ctx' wm]) simp_all
        next
          case nodry: False
          show ?thesis
          proof (cases "PublishLocalSource lib opts c1 None wm")
            case Panics
            with run iw ce m nodry show ?thesis by (simp add: Exec_def)
          next
            case (Returns pr)
            obtain c2 w okToPush perr where pr: "pr = (c2, w, okToPush, perr)" by (cases pr)
            note p = Returns[unfolded pr]
            show ?thesis
            proof (cases perr)
              case (Some err)
              with run iw ce m nodry p have "c' = c2 \<and> r = Some err" by (auto simp add: Exec_def)
              with iw ce m nodry p Some show ?thesis
                by (intro publishFailed[of w0 c1 ctx' wm w okToPush err]) simp_all
            next
              case None
              note p = p[unfolded None]
              show ?thesis
              proof (cases okToPush)
                case False
                with run iw ce m nodry p have "c' = c2 \<and> r = None" by (auto simp add: Exec_def)
                with iw ce m nodry p False show ?thesis
                  by (intro notPushed[of w0 c1 ctx' wm w]) simp_all
              next
                case True
                note p = p[unfolded eqTrueI[OF True]]
                obtain c3 ok cerr where cr: "Create lib opts ctx' c2 w = (c3, ok, cerr)"
                  using prod_cases3 by blast
                show ?thesis
                proof (cases cerr)
                  case (Some err)
                  with run iw ce m nodry p cr have "c' = c3 \<and> r = Some err"
                    by (auto simp add: Exec_def)
                  with iw ce m nodry p cr Some show ?thesis
                    by (intro createError[of w0 c1 ctx' wm c2 w ok err]) simp_all
                next
                  case None
                  with run iw ce m nodry p cr have "afterCreate lib opts c3 w ok = Returns (c', r)"
                    by (simp add: Exec_def)
                  with iw ce m nodry p cr None show ?thesis
                    by (intro proceeded[of w0 c1 ctx' wm c2 w c3 ok]) simp_all
                qed
              qed
            qed
          qed
        qed
      qed
    qed
  qed
qed

lemma Exec_proceeds:
  assumes "inputWorkload lib opts ctx c = Inr w0"
      "checkExisting opts c w0 = (c1, None)"
      "mergeAndValidate lib opts ctx c1 w0 = Returns (c1, Inr (ctx', wm))"
      "\<not> DryRun opts" "PublishLocalSource lib opts c1 None wm = Returns (c2, w, True, None)"
      "Create lib opts ctx' c2 w = (c3, ok, None)"
  shows "Exec lib opts ctx c = afterCreate lib opts c3 w ok"
  using assms by (simp add: Exec_def)

lemma ApplyOptionsToWorkload_noMergeFlags:
  assumes "noMergeFlags opts ctx"
  shows "ApplyOptionsToWorkload lib opts ctx workload = Returns (ctx, workload)"
  using assms
  by (simp add: noMergeFlags_def ApplyOptionsToWorkload_def applyMaven_def applyModes_def
        applySources_def applyResources_def applyQuantity_def applyServiceAccount_def
        Flags_Changed_def)

lemma checkExisting_absent:
  assumes "GetFailure c = None"
      and "find (sameKey (Workload.Namespace w) (Workload.Name w)) (Workloads c) = None"
      and "GetNamespaceFailure c = None" and "WorkloadOptions.Namespace opts \<in> set (Namespaces c)"
      and "Workload.Name w \<noteq> []"
  shows "checkExisting opts c w =
           (c\<lparr>Calls := Calls c @ [CallGet (Workload.Namespace w) (Workload.Name w),
                                  CallGetNamespace (WorkloadOptions.Namespace opts)]\<rparr>, None)"
  using assms
  by (simp add: checkExisting_def client_Get_def validateNamespace_def loadNamespace_def
        client_GetNamespace_def Let_def emptyWorkload_def)

lemma Create_yes:
  assumes "ResourceDiff lib None workload = Inr (d, nc)" and "Yes opts"
      and "CreateFailure c = None"
      and "find (sameKey (Workload.Namespace workload) (Workload.Name workload)) (Workloads c) = None"
  shows "\<exists>c'. Create lib opts ctx c workload = (c', True, None)
           \<and> Workloads c' = Workloads c @ [workload] \<and> Calls c' = Calls c @ [CallCreate workload]
           \<and> Races c' = Races c \<and> Prompts c' = Prompts c"
proof -
  obtain c' ok r where run: "Create lib opts ctx c workload = (c', ok, r)"
    using prod_cases3 by blast
  let ?pv = "previewed ''Create workload:\<newline>'' lib ctx c workload d"
  have cc: "client_Create workload ?pv =
              (?pv\<lparr>Calls := Calls c @ [CallCreate workload],
                    History := History ?pv @ [SubmittedCreate workload],
                    Workloads := Workloads c @ [workload]\<rparr>, None)"
    using assms(3,4) by (simp add: client_Create_def Let_def)
  from run have "ok \<and> r = None \<and> Workloads c' = Workloads c @ [workload]
       \<and> Calls c' = Calls c @ [CallCreate workload] \<and> Races c' = Races c \<and> Prompts c' = Prompts c"
  proof (cases rule: Create_cases)
    case (created d' nc' c1 c2)
    with assms(1,2) cc show ?thesis by auto
  next
    case (createFailed d' nc' c1 err)
    with assms(1,2) cc show ?thesis by auto
  qed (use assms in auto)
  with run show ?thesis by simp
qed

text \<open>The run of \<open>Exec\<close> that creates the workload: up to the last block, it returns.\<close>

lemma Exec_creates:
  assumes input: "inputWorkload lib opts ctx c = Inr w0"
      and absent: "GetFailure c = None"
        "find (sameKey (Workload.Namespace w0) (Workload.Name w0)) (Workloads c) = None"
        "GetNamespaceFailure c = None" "WorkloadOptions.Namespace opts \<in> set (Namespaces c)"
        "Workload.Name w0 \<noteq> []"
      and merged: "ApplyOptionsToWorkload lib opts ctx w0 = Returns (ctx', wm)"
        "Workload.Name wm = Workload.Name w0" "Workload.Namespace wm = Workload.Namespace w0"
      and valid: "Validate lib wm = []"
      and plain: "LocalPath opts = []" "\<not> DryRun opts"
      and diff: "ResourceDiff lib None wm = Inr (d, nc)"
      and yes: "Yes opts" and noFailure: "CreateFailure c = None"
  shows "\<exists>c3. Exec lib opts ctx c = afterCreate lib opts c3 wm True
           \<and> Workloads c3 = Workloads c @ [wm] \<and> Races c3 = Races c
           \<and> Calls c3 = Calls c @ [CallGet (Workload.Namespace w0) (Workload.Name w0),
                                    CallGetNamespace (WorkloadOptions.Namespace opts), CallCreate wm]"
proof -
  let ?c1 = "c\<lparr>Calls := Calls c @ [CallGet (Workload.Namespace w0) (Workload.Name w0),
                                  CallGetNamespace (WorkloadOptions.Namespace opts)]\<rparr>"
  have ce: "checkExisting opts c w0 = (?c1, None)"
    using checkExisting_absent[OF absent] .
  have mv: "mergeAndValidate lib opts ctx ?c1 w0 = Returns (?c1, Inr (ctx', wm))"
    using merged(1) valid plain(1) by (simp add: mergeAndValidate_def)
  have pl: "PublishLocalSource lib opts ?c1 None wm = Returns (?c1, wm, True, None)"
    using plain(1) by (simp add: PublishLocalSource_def)
  have "CreateFailure ?c1 = None"
    "find (sameKey (Workload.Namespace wm) (Workload.Name wm)) (Workloads ?c1) = None"
    using noFailure absent(2) merged(2,3) by simp_all
  from Create_yes[OF diff yes this, of ctx']
  obtain c3 where cr: "Create lib opts ctx' ?c1 wm = (c3, True, None)"
    and c3: "Workloads c3 = Workloads ?c1 @ [wm]" "Calls c3 = Calls ?c1 @ [CallCreate wm]"
      "Races c3 = Races ?c1"
    by blast
  from Exec_proceeds[OF input ce mv plain(2) pl cr] c3 show ?thesis
    by (intro exI[of _ c3]) simp
qed

lemma sample_inputWorkload:
  assumes "FilePath opts = []" "WorkloadOptions.Name opts = ''my-workload''"
    "WorkloadOptions.Namespace opts = ''default''"
  shows "inputWorkload lib opts ctx c = Inr sampleInput"
  using assms by (simp add: inputWorkload_def sampleInput_def emptyWorkload_def)

lemma sampleOptions_fields:
  "FilePath sampleOptions = []" "WorkloadOptions.Name sampleOptions = ''my-workload''"
  "WorkloadOptions.Namespace sampleOptions = ''default''" "Yes sampleOptions"
  "LocalPath sampleOptions = []" "\<not> DryRun sampleOptions" "noMergeFlags sampleOptions sampleContext"
  "\<not> Wait sampleOptions" "\<not> Tail sampleOptions" "\<not> TailTimestamps sampleOptions"
  "WaitTimeout sampleOptions = 600000000000"
  by (simp_all add: sampleOptions_def defaultOptions_def noMergeFlags_def sampleContext_def Minute_def)

text \<open>The sample run: \<open>create my-workload --yes\<close>, with the flags of the wait set as wished.\<close>

lemma sample_Exec:
  assumes opts: "opts = sampleOptions\<lparr>Wait := wait, WaitTimeout := timeout, Tail := tail,
                                      TailTimestamps := timestamps\<rparr>"
      and lib: "lib = sampleLibrary\<lparr>Race := race\<rparr>"
  shows "\<exists>c3. Exec lib opts sampleContext sampleConfig = afterCreate lib opts c3 sampleInput True
           \<and> Workloads c3 = [sampleInput] \<and> Races c3 = []
           \<and> Calls c3 = [CallGet ''default'' ''my-workload'', CallGetNamespace ''default'',
                         CallCreate sampleInput]"
proof -
  have o: "FilePath opts = []" "WorkloadOptions.Name opts = ''my-workload''"
    "WorkloadOptions.Namespace opts = ''default''" "Yes opts" "LocalPath opts = []" "\<not> DryRun opts"
    "noMergeFlags opts sampleContext"
    using sampleOptions_fields by (simp_all add: opts noMergeFlags_def)
  have l: "Validate lib sampleInput = []"
    "ResourceDiff lib None sampleInput = Inr (''+ my-workload'', False)"
    by (simp_all add: lib sampleLibrary_def sampleInput_def)
  have c: "GetFailure sampleConfig = None" "GetNamespaceFailure sampleConfig = None"
    "CreateFailure sampleConfig = None" "Workloads sampleConfig = []" "Races sampleConfig = []"
    "Calls sampleConfig = []" "Namespaces sampleConfig = [''default'']"
    by (simp_all add: sampleConfig_def)
  have w: "Workload.Name sampleInput = ''my-workload''" "Workload.Namespace sampleInput = ''default''"
    by (simp_all add: sampleInput_def)
  from Exec_creates[of lib opts sampleContext sampleConfig sampleInput sampleContext sampleInput
      "''+ my-workload''" False,
      OF sample_inputWorkload[OF o(1-3)] _ _ _ _ _ ApplyOptionsToWorkload_noMergeFlags[OF o(7)]]
    o l c w
  show ?thesis by simp
qed

text \<open>
  C8. When the workload to create is determined (the input was loaded) and the cluster
  holds a workload of its name and namespace, \<open>Exec\<close> prints "Error: workload
  "<namespace>/<name>" already exists" and returns a silenced error; all it has done by
  then is the Get and the print: no flag was merged, nothing was written. When the Get
  fails with an error that is not a not-found, \<open>Exec\<close> returns that error as it is,
  again with nothing done but the Get.
\<close>

theorem Exec_existing_workload:
  "(\<forall>workload found.
       inputWorkload lib opts ctx c = Inr workload \<and> GetFailure c = None
       \<and> find (sameKey (Workload.Namespace workload) (Workload.Name workload)) (Workloads c) = Some found
     \<longrightarrow> Exec lib opts ctx c =
           Returns (print Printf (''Error: workload ''
                      @ quote (Workload.Namespace workload @ ''/'' @ Workload.Name workload)
                      @ '' already exists\<newline>'')
                     (c\<lparr>Calls := Calls c @ [CallGet (Workload.Namespace workload) (Workload.Name workload)]\<rparr>),
                    Some (SilenceError (ErrorString []))))
   \<and> (\<forall>workload err.
       inputWorkload lib opts ctx c = Inr workload \<and> GetFailure c = Some err \<and> \<not> IsNotFound err
     \<longrightarrow> Exec lib opts ctx c =
           Returns (c\<lparr>Calls := Calls c @ [CallGet (Workload.Namespace workload) (Workload.Name workload)]\<rparr>,
                    Some err))"
  by (auto simp add: Exec_def checkExisting_found checkExisting_getError)

theorem Exec_existing_workload_witness:
  "Exec sampleLibrary sampleOptions sampleContext (sampleConfig\<lparr>Workloads := [sampleWorkload]\<rparr>) =
     Returns (print Printf (''Error: workload '' @ quote (''default'' @ ''/'' @ ''my-workload'')
                @ '' already exists\<newline>'')
               (sampleConfig\<lparr>Workloads := [sampleWorkload]\<rparr>\<lparr>Calls := [CallGet ''default'' ''my-workload'']\<rparr>),
              Some (SilenceError (ErrorString [])))
   \<and> Exec sampleLibrary sampleOptions sampleContext
        (sampleConfig\<lparr>GetFailure := Some (StatusError (OtherReason ''InternalError'') ''etcd is down'')\<rparr>) =
     Returns (sampleConfig\<lparr>GetFailure := Some (StatusError (OtherReason ''InternalError'') ''etcd is down'')\<rparr>
                \<lparr>Calls := [CallGet ''default'' ''my-workload'']\<rparr>,
              Some (StatusError (OtherReason ''InternalError'') ''etcd is down''))"
proof -
  let ?c = "sampleConfig\<lparr>Workloads := [sampleWorkload]\<rparr>"
  let ?e = "StatusError (OtherReason ''InternalError'') ''etcd is down''"
  let ?d = "sampleConfig\<lparr>GetFailure := Some ?e\<rparr>"
  have i: "inputWorkload sampleLibrary sampleOptions sampleContext ?c = Inr sampleInput"
    "inputWorkload sampleLibrary sampleOptions sampleContext ?d = Inr sampleInput"
    by (rule sample_inputWorkload[OF sampleOptions_fields(1-3)])+
  have w: "Workload.Name sampleInput = ''my-workload''" "Workload.Namespace sampleInput = ''default''"
    by (simp_all add: sampleInput_def)
  have f: "GetFailure ?c = None"
    "find (sameKey (Workload.Namespace sampleInput) (Workload.Name sampleInput)) (Workloads ?c) = Some sampleWorkload"
    "Calls ?c = []"
    by (simp_all add: sampleConfig_def sampleWorkload_def sameKey_def w)
  have g: "GetFailure ?d = Some ?e" "\<not> IsNotFound ?e" "Calls ?d = []"
    by (simp_all add: sampleConfig_def)
  from Exec_existing_workload[of sampleLibrary sampleOptions sampleContext ?c] i(1) f
  have 1: "Exec sampleLibrary sampleOptions sampleContext ?c =
     Returns (print Printf (''Error: workload '' @ quote (Workload.Namespace sampleInput @ ''/'' @ Workload.Name sampleInput)
                @ '' already exists\<newline>'')
               (?c\<lparr>Calls := Calls ?c @ [CallGet (Workload.Namespace sampleInput) (Workload.Name sampleInput)]\<rparr>),
              Some (SilenceError (ErrorString [])))"
    by blast
  from Exec_existing_workload[of sampleLibrary sampleOptions sampleContext ?d] i(2) g
  have 2: "Exec sampleLibrary sampleOptions sampleContext ?d =
     Returns (?d\<lparr>Calls := Calls ?d @ [CallGet (Workload.Namespace sampleInput) (Workload.Name sampleInput)]\<rparr>, Some ?e)"
    by blast
  from 1 2 show ?thesis unfolding w f(3) g(3) by simp
qed

lemma Exec_Races:
  assumes run: "Exec lib opts ctx c = Returns (c', r)"
  shows "Races c' = Races c \<or> (\<exists>w. Races c' = Races c @ [(WaitTimeout opts, waitWorkers lib opts w)])"
  using run
proof (cases rule: Exec_cases)
  case (stopped w0 err)
  with checkExisting_frame[OF stopped(2)] show ?thesis by simp
next
  case (invalid w0 c1 err)
  with checkExisting_frame[OF invalid(2)] mergeAndValidate_frame[OF invalid(3)] show ?thesis by auto
next
  case (dryRun w0 c1 ctx' wm)
  with checkExisting_frame[OF dryRun(2)] show ?thesis by simp
next
  case (publishFailed w0 c1 ctx' wm w ok err)
  with checkExisting_frame[OF publishFailed(2)] PublishLocalSource_frame[OF publishFailed(5)]
  show ?thesis by simp
next
  case (notPushed w0 c1 ctx' wm w)
  with checkExisting_frame[OF notPushed(2)] PublishLocalSource_frame[OF notPushed(5)]
  show ?thesis by simp
next
  case (createError w0 c1 ctx' wm c2 w ok err)
  with checkExisting_frame[OF createError(2)] PublishLocalSource_frame[OF createError(5)]
    Create_frame[OF createError(6)]
  show ?thesis by simp
next
  case (proceeded w0 c1 ctx' wm c2 w c3 ok)
  with checkExisting_frame[OF proceeded(2)] PublishLocalSource_frame[OF proceeded(5)]
    Create_frame[OF proceeded(6)] afterCreate_frame[OF proceeded(7)]
  show ?thesis by (auto split: if_splits)
qed simp

text \<open>
  C4. The workers of the wait are the watcher of the Ready condition alone when neither
  \<open>--tail\<close> nor \<open>--tail-timestamp\<close> is set, and the watcher and the log tailer when one of
  them is. A run of \<open>Exec\<close> calls \<open>wait.Race\<close> at most once, with these workers and the
  timeout of \<open>--wait-timeout\<close>, and starts no other worker; the block after the creation
  calls it whenever the workload was created and the wait or the tail was asked for.
\<close>

theorem Exec_races_one_or_two_workers:
  "(\<forall>w. waitWorkers lib opts w =
          (if Tail opts \<or> TailTimestamps opts
           then [ReadyConditionWorker (Workload.Name w) (Workload.Namespace w),
                 TailWorker (WorkloadOptions.Namespace opts)
                   (WorkloadLabelName lib @ ''='' @ Workload.Name w) (TailTimestamps opts)]
           else [ReadyConditionWorker (Workload.Name w) (Workload.Namespace w)]))
   \<and> (\<forall>c' r. Exec lib opts ctx c = Returns (c', r) \<longrightarrow>
          Races c' = Races c
          \<or> (\<exists>w. Races c' = Races c @ [(WaitTimeout opts, waitWorkers lib opts w)]))
   \<and> (\<forall>c3 w c' r. afterCreate lib opts c3 w True = Returns (c', r)
          \<and> (Wait opts \<or> Tail opts \<or> TailTimestamps opts) \<longrightarrow>
          Races c' = Races c3 @ [(WaitTimeout opts, waitWorkers lib opts w)])"
proof (intro conjI allI impI)
  fix w
  show "waitWorkers lib opts w =
          (if Tail opts \<or> TailTimestamps opts
           then [ReadyConditionWorker (Workload.Name w) (Workload.Namespace w),
                 TailWorker (WorkloadOptions.Namespace opts)
                   (WorkloadLabelName lib @ ''='' @ Workload.Name w) (TailTimestamps opts)]
           else [ReadyConditionWorker (Workload.Name w) (Workload.Namespace w)])"
    by (simp add: waitWorkers_def Let_def)
next
  fix c' r
  assume "Exec lib opts ctx c = Returns (c', r)"
  then show "Races c' = Races c
          \<or> (\<exists>w. Races c' = Races c @ [(WaitTimeout opts, waitWorkers lib opts w)])"
    by (rule Exec_Races)
next
  fix c3 w c' r
  assume "afterCreate lib opts c3 w True = Returns (c', r) \<and> (Wait opts \<or> Tail opts \<or> TailTimestamps opts)"
  with afterCreate_frame[of lib opts c3 w True c' r]
  show "Races c' = Races c3 @ [(WaitTimeout opts, waitWorkers lib opts w)]"
    by simp
qed

theorem Exec_races_one_or_two_workers_witness:
  "(\<exists>c'. Exec sampleLibrary (sampleOptions\<lparr>Wait := True, WaitTimeout := 1, Tail := False, TailTimestamps := False\<rparr>)
            sampleContext sampleConfig = Returns (c', None)
         \<and> Races c' = [(1, [ReadyConditionWorker ''my-workload'' ''default''])])
   \<and> (\<exists>c'. Exec sampleLibrary (sampleOptions\<lparr>Wait := False, WaitTimeout := 1, Tail := True, TailTimestamps := False\<rparr>)
            sampleContext sampleConfig = Returns (c', None)
         \<and> Races c' = [(1, [ReadyConditionWorker ''my-workload'' ''default'',
                             TailWorker ''default'' ''carto.run/workload-name=my-workload'' False])])"
proof -
  let ?o1 = "sampleOptions\<lparr>Wait := True, WaitTimeout := 1, Tail := False, TailTimestamps := False\<rparr>"
  let ?o2 = "sampleOptions\<lparr>Wait := False, WaitTimeout := 1, Tail := True, TailTimestamps := False\<rparr>"
  have lib: "sampleLibrary = sampleLibrary\<lparr>Race := \<lambda>timeout workers. Returns None\<rparr>"
    by (simp add: sampleLibrary_def)
  have race: "Race sampleLibrary = (\<lambda>timeout workers. Returns None)"
    and label: "WorkloadLabelName sampleLibrary = ''carto.run/workload-name''"
    by (simp_all add: sampleLibrary_def)
  have w: "Workload.Name sampleInput = ''my-workload''" "Workload.Namespace sampleInput = ''default''"
    by (simp_all add: sampleInput_def)
  have o1: "Wait ?o1" "\<not> Tail ?o1" "\<not> TailTimestamps ?o1" "WaitTimeout ?o1 = 1"
    and o2: "\<not> Wait ?o2" "Tail ?o2" "\<not> TailTimestamps ?o2" "WaitTimeout ?o2 = 1"
      "WorkloadOptions.Namespace ?o2 = ''default''"
    by (simp_all add: sampleOptions_fields)
  note T1 = Exec_races_one_or_two_workers[of sampleLibrary ?o1 sampleContext sampleConfig]
  note T2 = Exec_races_one_or_two_workers[of sampleLibrary ?o2 sampleContext sampleConfig]
  from sample_Exec[where wait=True and timeout=1 and tail=False and timestamps=False, OF refl lib]
  obtain c3 where e1: "Exec sampleLibrary ?o1 sampleContext sampleConfig = afterCreate sampleLibrary ?o1 c3 sampleInput True"
    and c3: "Races c3 = []" by blast
  from afterCreate_wait[of True ?o1 sampleLibrary c3 sampleInput] o1 race
  obtain c1' where a1: "afterCreate sampleLibrary ?o1 c3 sampleInput True = Returns (c1', None)"
    by simp
  from T1 a1 o1 c3 have r1: "Races c1' = [(1, waitWorkers sampleLibrary ?o1 sampleInput)]"
    by (metis append_Nil)
  from T1 o1 w have w1: "waitWorkers sampleLibrary ?o1 sampleInput = [ReadyConditionWorker ''my-workload'' ''default'']"
    by simp
  from sample_Exec[where wait=False and timeout=1 and tail=True and timestamps=False, OF refl lib]
  obtain c4 where e2: "Exec sampleLibrary ?o2 sampleContext sampleConfig = afterCreate sampleLibrary ?o2 c4 sampleInput True"
    and c4: "Races c4 = []" by blast
  from afterCreate_wait[of True ?o2 sampleLibrary c4 sampleInput] o2 race
  obtain c2' where a2: "afterCreate sampleLibrary ?o2 c4 sampleInput True = Returns (c2', None)"
    by simp
  from T2 a2 o2 c4 have r2: "Races c2' = [(1, waitWorkers sampleLibrary ?o2 sampleInput)]"
    by (metis append_Nil)
  from T2 o2 w label have w2: "waitWorkers sampleLibrary ?o2 sampleInput =
      [ReadyConditionWorker ''my-workload'' ''default'',
       TailWorker ''default'' ''carto.run/workload-name=my-workload'' False]"
    by simp
  from e1 a1 r1 w1 e2 a2 r2 w2 show ?thesis by simp
qed

section \<open>The object that is created\<close>

lemma checkExisting_continues:
  assumes "checkExisting opts c w = (c', None)"
  shows "Output c' = Output c"
  using assms
  by (auto simp: checkExisting_def validateNamespace_def loadNamespace_def
           split: prod.splits sum.splits option.splits if_splits
           dest!: client_Get_fields client_GetNamespace_fields)

lemma checkToPublishLocalSource_extends:
  assumes "checkToPublishLocalSource opts img c w = (c', ok)"
  shows "(\<exists>xs. Output c' = Output c @ xs) \<and> (\<exists>ps. Prompts c' = Prompts c @ ps)"
  using assms
  by (auto simp: checkToPublishLocalSource_def AskOne_def Let_def
           split: prod.splits if_splits list.splits option.splits)

lemma loadExcludedPaths_extends:
  assumes "loadExcludedPaths lib p f c = (c', xs)"
  shows "(\<exists>xs. Output c' = Output c @ xs) \<and> Prompts c' = Prompts c"
  using assms
  by (auto simp: loadExcludedPaths_def split: sum.splits if_splits)

lemma PublishLocalSource_extends:
  assumes "PublishLocalSource lib opts c cur w = Returns (c', w', ok, err)"
  shows "(\<exists>xs. Output c' = Output c @ xs) \<and> (\<exists>ps. Prompts c' = Prompts c @ ps)"
proof (cases "LocalPath opts = []")
  case True
  with assms show ?thesis by (simp add: PublishLocalSource_def)
next
  case False
  with assms show ?thesis
    unfolding PublishLocalSource_def Let_def
    by (auto split: option.splits prod.splits if_splits sum.splits
             dest!: checkToPublishLocalSource_extends loadExcludedPaths_extends)
qed

lemma afterCreate_extends:
  assumes "afterCreate lib opts c w ok = Returns (c', r)"
  shows "(\<exists>xs. Output c' = Output c @ xs) \<and> Prompts c' = Prompts c"
proof (cases "ok \<and> (Wait opts \<or> Tail opts \<or> TailTimestamps opts)")
  case True
  with assms afterCreate_wait[of ok opts lib c w] show ?thesis
    by (auto simp: waiting_def DisplayCommandNextSteps_def split: outcome.splits option.splits if_splits)
next
  case False
  with assms afterCreate_nowait[OF False, of lib c w] show ?thesis
    by (auto simp: DisplayCommandNextSteps_def split: if_splits)
qed

lemma Create_called:
  assumes run: "Create lib opts ctx c workload = (c', okToCreate, r)"
      and called: "Calls c' \<noteq> Calls c"
  shows "Calls c' = Calls c @ [CallCreate workload]
     \<and> (\<exists>d nc pre post. ResourceDiff lib None workload = Inr (d, nc)
          \<and> Output c' = Output c @ pre
               @ [(Printf, ''Create workload:\<newline>''), (Printf, d @ ''\<newline>'')] @ post)
     \<and> (Yes opts \<or> FilePath opts \<noteq> ''-''
          \<and> Prompts c' = Prompts c @ [''Do you want to create this workload?''])
     \<and> (\<forall>err. snd (client_Create workload c) = Some err \<longrightarrow> r = Some err \<and> Workloads c' = Workloads c)"
  using run
proof (cases rule: Create_cases)
  case (declined d nc c1 failed)
  with AskOne_fields(4)[OF declined(4)] called show ?thesis by simp
next
  case (created d nc c1 c2)
  let ?pv = "previewed ''Create workload:\<newline>'' lib ctx c workload d"
  from created(2) have c1: "Calls c1 = Calls c" "Output c1 = Output ?pv" "Workloads c1 = Workloads c"
      "CreateFailure c1 = CreateFailure c"
      "Yes opts \<or> FilePath opts \<noteq> ''-'' \<and> Prompts c1 = Prompts c @ [''Do you want to create this workload?'']"
    by (auto dest: AskOne_fields)
  from created c1 client_Create_fields[OF created(3)]
  have "ResourceDiff lib None workload = Inr (d, nc)
       \<and> Output c' = Output c @ map (Pair Infof) (map (\<lambda>msg. ''WARNING: '' @ msg @ ''\<newline>'') (DeprecationWarnings lib workload))
       @ [(Printf, ''Create workload:\<newline>''), (Printf, d @ ''\<newline>'')]
       @ (map (Pair Infof) (map (\<lambda>msg. ''NOTICE: '' @ msg @ ''\<newline>\<newline>'') (GetNotices ctx))
          @ [(Successf, ''Created workload '' @ quote (Workload.Name workload) @ ''\<newline>'')])"
    by (simp add: previewed_Output')
  then have out: "\<exists>d nc pre post. ResourceDiff lib None workload = Inr (d, nc)
          \<and> Output c' = Output c @ pre
               @ [(Printf, ''Create workload:\<newline>''), (Printf, d @ ''\<newline>'')] @ post"
    by blast
  from client_Create_result[OF c1(3,4), of workload] created(3)
  have "snd (client_Create workload c) = None" by simp
  with out created c1 client_Create_fields[OF created(3)] show ?thesis by auto
next
  case (createFailed d nc c1 err)
  let ?pv = "previewed ''Create workload:\<newline>'' lib ctx c workload d"
  from createFailed(2) have c1: "Calls c1 = Calls c" "Output c1 = Output ?pv" "Workloads c1 = Workloads c"
      "CreateFailure c1 = CreateFailure c"
      "Yes opts \<or> FilePath opts \<noteq> ''-'' \<and> Prompts c1 = Prompts c @ [''Do you want to create this workload?'']"
    by (auto dest: AskOne_fields)
  from createFailed c1 client_Create_fields[OF createFailed(3)]
  have "ResourceDiff lib None workload = Inr (d, nc)
       \<and> Output c' = Output c @ map (Pair Infof) (map (\<lambda>msg. ''WARNING: '' @ msg @ ''\<newline>'') (DeprecationWarnings lib workload))
       @ [(Printf, ''Create workload:\<newline>''), (Printf, d @ ''\<newline>'')]
       @ (map (Pair Infof) (map (\<lambda>msg. ''NOTICE: '' @ msg @ ''\<newline>\<newline>'') (GetNotices ctx)))"
    by (simp add: previewed_Output')
  then have out: "\<exists>d nc pre post. ResourceDiff lib None workload = Inr (d, nc)
          \<and> Output c' = Output c @ pre
               @ [(Printf, ''Create workload:\<newline>''), (Printf, d @ ''\<newline>'')] @ post"
    by blast
  from client_Create_result[OF c1(3,4), of workload] createFailed(3)
  have "snd (client_Create workload c) = Some err" by simp
  with out createFailed c1 client_Create_fields[OF createFailed(3)] show ?thesis by auto
qed (use called in auto)

text \<open>
  C6. Whenever a run of \<open>Exec\<close> has sent a Create to the client, the object sent is the
  workload loaded from the input, merged with the flags and passed through the
  publication of the source; the preview printed before (the title and the diff against
  nothing) is the diff of this very object; the creation was confirmed, by \<open>--yes\<close> or at
  the prompt; the Create is the only write and the last call of the run. If the Create
  fails, \<open>Exec\<close> returns its error and the cluster is as it was.
\<close>

theorem Exec_submits_previewed_workload:
  assumes run: "Exec lib opts ctx c = Returns (c', r)"
      and submitted: "Calls c' = Calls c @ calls" "CallCreate w \<in> set calls"
  shows "(\<exists>w0 ctx' wm c1 c2. inputWorkload lib opts ctx c = Inr w0
            \<and> ApplyOptionsToWorkload lib opts ctx w0 = Returns (ctx', wm)
            \<and> PublishLocalSource lib opts c1 None wm = Returns (c2, w, True, None))
       \<and> (\<exists>d nc pre post. ResourceDiff lib None w = Inr (d, nc)
            \<and> Output c' = Output c @ pre
                 @ [(Printf, ''Create workload:\<newline>''), (Printf, d @ ''\<newline>'')] @ post)
       \<and> (Yes opts \<or> FilePath opts \<noteq> ''-''
            \<and> ''Do you want to create this workload?'' \<in> set (Prompts c'))
       \<and> (\<exists>reads. calls = reads @ [CallCreate w] \<and> list_all isRead reads)
       \<and> (\<forall>err. snd (client_Create w c) = Some err \<longrightarrow> r = Some err \<and> Workloads c' = Workloads c)"
proof -
  have main: ?thesis
    if iw: "inputWorkload lib opts ctx c = Inr w0"
      and ce: "checkExisting opts c w0 = (c1, None)"
      and mv: "mergeAndValidate lib opts ctx c1 w0 = Returns (c1, Inr (ctx', wm))"
      and pl: "PublishLocalSource lib opts c1 None wm = Returns (c2, wx, True, None)"
      and cr: "Create lib opts ctx' c2 wx = (c3, ok, res)"
      and rest: "Calls c' = Calls c3" "Workloads c' = Workloads c3"
        "\<exists>xs. Output c' = Output c3 @ xs" "Prompts c' = Prompts c3" "res \<noteq> None \<longrightarrow> r = res"
    for w0 c1 ctx' wm c2 wx c3 ok res
  proof -
    from checkExisting_frame[OF ce] checkExisting_continues[OF ce]
    have c1: "Workloads c1 = Workloads c" "CreateFailure c1 = CreateFailure c" "Output c1 = Output c"
      and calls1: "\<exists>reads. Calls c1 = Calls c @ reads \<and> list_all isRead reads"
      by auto
    from PublishLocalSource_frame[OF pl] PublishLocalSource_extends[OF pl] c1
    have c2: "Workloads c2 = Workloads c" "CreateFailure c2 = CreateFailure c" "Calls c2 = Calls c1"
      and out2: "\<exists>xs. Output c2 = Output c @ xs" and pr2: "\<exists>ps. Prompts c2 = Prompts c1 @ ps"
      by auto
    from calls1 c2 obtain reads where reads: "Calls c2 = Calls c @ reads" "list_all isRead reads"
      by auto
    have called: "Calls c3 \<noteq> Calls c2"
    proof
      assume "Calls c3 = Calls c2"
      with rest(1) reads submitted have "CallCreate w \<in> set reads" by simp
      with reads(2) show False by (auto simp: list_all_iff)
    qed
    note cc = Create_called[OF cr called]
    from cc rest(1) reads submitted have calls: "calls = reads @ [CallCreate wx]" by simp
    with submitted(2) reads(2) have wx: "wx = w" by (auto simp: list_all_iff)
    from cc out2 rest(3) obtain d nc pre post xs ys where
      d: "ResourceDiff lib None wx = Inr (d, nc)"
      and "Output c' = Output c @ xs @ pre @ [(Printf, ''Create workload:\<newline>''), (Printf, d @ ''\<newline>'')] @ post @ ys"
      by auto
    then have out: "\<exists>d nc pre post. ResourceDiff lib None wx = Inr (d, nc)
            \<and> Output c' = Output c @ pre
                 @ [(Printf, ''Create workload:\<newline>''), (Printf, d @ ''\<newline>'')] @ post"
      by (metis append.assoc)
    from cc rest(4) have asked: "Yes opts \<or> FilePath opts \<noteq> ''-''
            \<and> ''Do you want to create this workload?'' \<in> set (Prompts c')"
      by auto
    have failure: "\<forall>err. snd (client_Create wx c) = Some err \<longrightarrow> r = Some err \<and> Workloads c' = Workloads c"
    proof (intro allI impI)
      fix err assume "snd (client_Create wx c) = Some err"
      with client_Create_result[OF c2(1,2), of wx] have "snd (client_Create wx c2) = Some err" by simp
      with cc rest c2 show "r = Some err \<and> Workloads c' = Workloads c" by simp
    qed
    from mergeAndValidate_merged[OF mv] iw pl
    have src: "\<exists>w0 ctx' wm c1 c2. inputWorkload lib opts ctx c = Inr w0
            \<and> ApplyOptionsToWorkload lib opts ctx w0 = Returns (ctx', wm)
            \<and> PublishLocalSource lib opts c1 None wm = Returns (c2, wx, True, None)"
      by blast
    from src out asked calls reads(2) failure show ?thesis unfolding wx by blast
  qed
  have noCreate: False if "Calls c' = Calls c @ reads" "list_all isRead reads" for reads
    using that submitted by (auto simp: list_all_iff)
  from run show ?thesis
  proof (cases rule: Exec_cases)
    case (loadError err)
    with noCreate[of "[]"] show ?thesis by simp
  next
    case (stopped w0 err)
    from checkExisting_frame[OF stopped(2)] noCreate show ?thesis by auto
  next
    case (invalid w0 c1 err)
    from checkExisting_frame[OF invalid(2)] mergeAndValidate_frame[OF invalid(3)] noCreate
    show ?thesis by auto
  next
    case (dryRun w0 c1 ctx' wm)
    from checkExisting_frame[OF dryRun(2)] dryRun(5) noCreate show ?thesis by auto
  next
    case (publishFailed w0 c1 ctx' wm w ok err)
    from checkExisting_frame[OF publishFailed(2)] PublishLocalSource_frame[OF publishFailed(5)] noCreate
    show ?thesis by auto
  next
    case (notPushed w0 c1 ctx' wm w)
    from checkExisting_frame[OF notPushed(2)] PublishLocalSource_frame[OF notPushed(5)] noCreate
    show ?thesis by auto
  next
    case (createError w0 c1 ctx' wm c2 wx ok err)
    show ?thesis
      by (rule main[OF createError(1,2,3,5,6)]) (simp_all add: createError)
  next
    case (proceeded w0 c1 ctx' wm c2 wx c3 ok)
    from afterCreate_frame[OF proceeded(7)] afterCreate_extends[OF proceeded(7)]
    show ?thesis
      by (intro main[OF proceeded(1,2,3,5,6)]) simp_all
  qed
qed

lemma Exec_reaches_Create:
  assumes input: "inputWorkload lib opts ctx c = Inr w0"
      and absent: "GetFailure c = None"
        "find (sameKey (Workload.Namespace w0) (Workload.Name w0)) (Workloads c) = None"
        "GetNamespaceFailure c = None" "WorkloadOptions.Namespace opts \<in> set (Namespaces c)"
        "Workload.Name w0 \<noteq> []"
      and merged: "ApplyOptionsToWorkload lib opts ctx w0 = Returns (ctx', wm)"
      and valid: "Validate lib wm = []"
      and plain: "LocalPath opts = []" "\<not> DryRun opts"
  shows "Exec lib opts ctx c =
           (case Create lib opts ctx'
                   (c\<lparr>Calls := Calls c @ [CallGet (Workload.Namespace w0) (Workload.Name w0),
                                          CallGetNamespace (WorkloadOptions.Namespace opts)]\<rparr>) wm of
              (c3, ok, Some err) \<Rightarrow> Returns (c3, Some err)
            | (c3, ok, None) \<Rightarrow> afterCreate lib opts c3 wm ok)"
proof -
  let ?c1 = "c\<lparr>Calls := Calls c @ [CallGet (Workload.Namespace w0) (Workload.Name w0),
                                  CallGetNamespace (WorkloadOptions.Namespace opts)]\<rparr>"
  have ce: "checkExisting opts c w0 = (?c1, None)"
    using checkExisting_absent[OF absent] .
  have mv: "mergeAndValidate lib opts ctx ?c1 w0 = Returns (?c1, Inr (ctx', wm))"
    using merged(1) valid plain(1) by (simp add: mergeAndValidate_def)
  have pl: "PublishLocalSource lib opts ?c1 None wm = Returns (?c1, wm, True, None)"
    using plain(1) by (simp add: PublishLocalSource_def)
  from input ce mv pl plain(2) show ?thesis by (simp add: Exec_def)
qed

theorem Exec_submits_previewed_workload_witness:
  "(\<exists>c'. Exec sampleLibrary sampleOptions sampleContext sampleConfig = Returns (c', None)
        \<and> Calls c' = [CallGet ''default'' ''my-workload'', CallGetNamespace ''default'',
                       CallCreate sampleInput]
        \<and> (\<exists>pre post. Output c' = pre @ [(Printf, ''Create workload:\<newline>''),
                                          (Printf, ''+ my-workload\<newline>'')] @ post))
   \<and> (\<exists>c'. Exec sampleLibrary sampleOptions sampleContext
              (sampleConfig\<lparr>CreateFailure := Some (ErrorString ''connection refused'')\<rparr>)
            = Returns (c', Some (ErrorString ''connection refused''))
        \<and> Calls c' = [CallGet ''default'' ''my-workload'', CallGetNamespace ''default'',
                       CallCreate sampleInput]
        \<and> Workloads c' = [])"
proof
  have lib: "sampleLibrary = sampleLibrary\<lparr>Race := \<lambda>timeout workers. Returns None\<rparr>"
    by (simp add: sampleLibrary_def)
  have opts: "sampleOptions = sampleOptions\<lparr>Wait := False, WaitTimeout := 600000000000, Tail := False,
      TailTimestamps := False\<rparr>"
    by (simp add: sampleOptions_def defaultOptions_def Minute_def)
  from sample_Exec[OF opts lib]
  obtain c3 where e: "Exec sampleLibrary sampleOptions sampleContext sampleConfig
        = afterCreate sampleLibrary sampleOptions c3 sampleInput True"
    and c3: "Calls c3 = [CallGet ''default'' ''my-workload'', CallGetNamespace ''default'',
                         CallCreate sampleInput]"
    by (metis (no_types))
  from afterCreate_nowait[of True sampleOptions sampleLibrary c3 sampleInput] sampleOptions_fields
  obtain c' where a: "afterCreate sampleLibrary sampleOptions c3 sampleInput True = Returns (c', None)"
    by simp
  from afterCreate_frame[OF a] c3 have calls: "Calls c' = Calls sampleConfig @
      [CallGet ''default'' ''my-workload'', CallGetNamespace ''default'', CallCreate sampleInput]"
    by (simp add: sampleConfig_def)
  have d: "ResourceDiff sampleLibrary None sampleInput = Inr (''+ my-workload'', False)"
    by (simp add: sampleLibrary_def sampleInput_def)
  from Exec_submits_previewed_workload[OF e[unfolded a] calls, of sampleInput] d
  have "\<exists>pre post. Output c' = Output sampleConfig @ pre @ [(Printf, ''Create workload:\<newline>''),
                                          (Printf, ''+ my-workload\<newline>'')] @ post"
    by auto
  then have "\<exists>pre post. Output c' = pre @ [(Printf, ''Create workload:\<newline>''),
                                          (Printf, ''+ my-workload\<newline>'')] @ post"
    by (simp add: sampleConfig_def)
  with e a calls
  show "\<exists>c'. Exec sampleLibrary sampleOptions sampleContext sampleConfig = Returns (c', None)
        \<and> Calls c' = [CallGet ''default'' ''my-workload'', CallGetNamespace ''default'',
                       CallCreate sampleInput]
        \<and> (\<exists>pre post. Output c' = pre @ [(Printf, ''Create workload:\<newline>''),
                                          (Printf, ''+ my-workload\<newline>'')] @ post)"
    by (simp add: sampleConfig_def)
next
  let ?e = "ErrorString ''connection refused''"
  let ?c = "sampleConfig\<lparr>CreateFailure := Some ?e\<rparr>"
  let ?c1 = "?c\<lparr>Calls := Calls ?c @ [CallGet (Workload.Namespace sampleInput) (Workload.Name sampleInput),
                                     CallGetNamespace (WorkloadOptions.Namespace sampleOptions)]\<rparr>"
  have w: "Workload.Name sampleInput = ''my-workload''" "Workload.Namespace sampleInput = ''default''"
    by (simp_all add: sampleInput_def)
  have c: "GetFailure ?c = None" "GetNamespaceFailure ?c = None" "Workloads ?c = []"
    "Calls ?c = []" "Namespaces ?c = [''default'']" "Answers ?c = []"
    by (simp_all add: sampleConfig_def)
  have l: "Validate sampleLibrary sampleInput = []"
    "ResourceDiff sampleLibrary None sampleInput = Inr (''+ my-workload'', False)"
    by (simp_all add: sampleLibrary_def sampleInput_def)
  have reach: "Exec sampleLibrary sampleOptions sampleContext ?c =
           (case Create sampleLibrary sampleOptions sampleContext ?c1 sampleInput of
              (c3, ok, Some err) \<Rightarrow> Returns (c3, Some err)
            | (c3, ok, None) \<Rightarrow> afterCreate sampleLibrary sampleOptions c3 sampleInput ok)"
    by (rule Exec_reaches_Create[OF sample_inputWorkload[OF sampleOptions_fields(1-3)] _ _ _ _ _
          ApplyOptionsToWorkload_noMergeFlags[OF sampleOptions_fields(7)]])
       (simp_all add: c l w sampleOptions_fields)
  obtain c3 ok res where cr: "Create sampleLibrary sampleOptions sampleContext ?c1 sampleInput = (c3, ok, res)"
    using prod_cases3 by blast
  from Create_called_iff[OF cr] l sampleOptions_fields(4) have called: "Calls c3 \<noteq> Calls ?c1" by blast
  have failed: "snd (client_Create sampleInput ?c1) = Some ?e"
    by (simp add: client_Create_def sampleConfig_def)
  from Create_called[OF cr called] failed
  have res: "res = Some ?e" "Calls c3 = Calls ?c1 @ [CallCreate sampleInput]" "Workloads c3 = Workloads ?c1"
    by simp_all
  from reach cr res have e: "Exec sampleLibrary sampleOptions sampleContext ?c = Returns (c3, Some ?e)"
    by simp
  from res(2) have calls: "Calls c3 = Calls ?c @ [CallGet ''default'' ''my-workload'',
      CallGetNamespace ''default'', CallCreate sampleInput]"
    by (simp add: w sampleOptions_fields)
  have failed': "snd (client_Create sampleInput ?c) = Some ?e"
    by (simp add: client_Create_def sampleConfig_def)
  from Exec_submits_previewed_workload[OF e calls, of sampleInput] failed'
  have "Workloads c3 = Workloads ?c" by simp
  with e calls c
  show "\<exists>c'. Exec sampleLibrary sampleOptions sampleContext ?c = Returns (c', Some ?e)
        \<and> Calls c' = [CallGet ''default'' ''my-workload'', CallGetNamespace ''default'',
                       CallCreate sampleInput]
        \<and> Workloads c' = []"
    by simp
qed

section \<open>Waiting for the workload to become ready\<close>

lemma UntilCondition_decides:
  assumes "list_all (undecided name ns) pre"
      and "Workload.Name obj = name" "Workload.Namespace obj = ns"
      and "WorkloadReadyConditionFunc obj = (ok, err)" "ok \<or> err \<noteq> None"
  shows "UntilCondition name ns WorkloadReadyConditionFunc (pre @ (t, obj) # post)
           = Some (t, if ok then None else err)"
  using assms(1)
proof (induction pre)
  case Nil
  with assms(2-) show ?case by (cases ok; cases err) auto
next
  case (Cons e pre)
  obtain t' obj' where e: "e = (t', obj')" by (cases e)
  from Cons show ?case by (auto simp: e undecided_def)
qed

lemma WorkloadReadyConditionFunc_status:
  assumes "readyCondition obj = Some cond"
  shows "Status cond = ConditionTrue \<Longrightarrow> WorkloadReadyConditionFunc obj = (True, None)"
    and "Status cond = ConditionFalse \<Longrightarrow> WorkloadReadyConditionFunc obj
           = (False, Some (ErrorString (''Failed to become ready: '' @ Message cond)))"
  using assms by (simp_all add: WorkloadReadyConditionFunc_def readyCondition_def)

lemma raceEnd_watcher:
  assumes "\<not> GetWatcherFails timeline" "WatchError timeline = None"
      and "UntilCondition (Workload.Name w) (Workload.Namespace w) WorkloadReadyConditionFunc
             (Events timeline) = Some (t, res)"
      and "t < WaitTimeout opts" and "tailerNotBefore timeline opts t"
  shows "raceEnd timeline (WaitTimeout opts) (waitWorkers lib opts w) = Returns (t, res)"
  using assms
  by (auto simp: raceEnd_def waitWorkers_def tailerNotBefore_def Let_def split: option.splits)

lemma raceEnd_deadline:
  assumes "watcherNotBefore timeline (Workload.Name w) (Workload.Namespace w) (WaitTimeout opts)"
      and "tailerNotBefore timeline opts (WaitTimeout opts)"
  shows "raceEnd timeline (WaitTimeout opts) (waitWorkers lib opts w)
           = Returns (WaitTimeout opts, Some DeadlineExceeded)"
  using assms
  by (auto simp: raceEnd_def waitWorkers_def tailerNotBefore_def watcherNotBefore_def Let_def
           split: option.splits)

lemma afterCreate_raceEnd:
  assumes flag: "Wait opts \<or> Tail opts \<or> TailTimestamps opts"
      and lib: "Race lib = Race_Timeline timeline"
      and race: "raceEnd timeline (WaitTimeout opts) (waitWorkers lib opts w) = Returns (t, res)"
  shows "afterCreate lib opts c w True =
     (case res of
        None \<Rightarrow> Returns (print Infof (''Workload '' @ quote (WorkloadOptions.Name opts) @ '' is ready\<newline>'')
                     (waiting lib opts c w), None)
      | Some err \<Rightarrow>
          if err = DeadlineExceeded
          then Returns (print Printf (''Error: timeout after '' @ DurationString lib (WaitTimeout opts)
                          @ '' waiting for '' @ quote (WorkloadOptions.Name opts)
                          @ '' to become ready\<newline>'') (waiting lib opts c w),
                        Some (SilenceError err))
          else Returns (print Eprintf (''Error: '' @ Error err @ ''\<newline>'') (waiting lib opts c w),
                        Some (SilenceError err)))"
  using flag race by (simp add: afterCreate_wait lib Race_Timeline_def split: option.splits)

text \<open>
  C3. \<open>afterCreate\<close> is the end of \<open>Exec\<close>, reached when \<open>Create\<close> has returned without an
  error; its last argument is \<open>okToCreate\<close>, true when the workload was created. With
  \<open>--wait\<close>, \<open>--tail\<close> or \<open>--tail-timestamp\<close> set, and the race of the wait package run
  against a timeline of the cluster: if the watch delivers the workload with its Ready
  condition true at a time \<open>t\<close> before the deadline, after events that decide nothing,
  and the log tailer has not returned before, the race ends at \<open>t\<close> without an error,
  and \<open>Exec\<close> prints that the workload is ready and returns nil. If neither the watcher
  nor the tailer is done before the deadline, the race ends at the deadline, and
  \<open>Exec\<close> prints "Error: timeout after <timeout> waiting for "<name>" to become ready"
  and returns the silenced error of the deadline. The name printed is the name given on
  the command line. The default of \<open>--wait-timeout\<close> is ten minutes.
\<close>

theorem afterCreate_waits_until_ready_or_deadline:
  assumes lib: "Race lib = Race_Timeline timeline"
      and flag: "Wait opts \<or> Tail opts \<or> TailTimestamps opts"
  shows "(\<not> GetWatcherFails timeline \<and> WatchError timeline = None
          \<and> Events timeline = pre @ (t, obj) # post
          \<and> list_all (undecided (Workload.Name w) (Workload.Namespace w)) pre
          \<and> Workload.Name obj = Workload.Name w \<and> Workload.Namespace obj = Workload.Namespace w
          \<and> readyCondition obj = Some cond \<and> Status cond = ConditionTrue
          \<and> t < WaitTimeout opts \<and> tailerNotBefore timeline opts t
          \<longrightarrow> raceEnd timeline (WaitTimeout opts) (waitWorkers lib opts w) = Returns (t, None)
            \<and> afterCreate lib opts c w True =
                Returns (print Infof (''Workload '' @ quote (WorkloadOptions.Name opts) @ '' is ready\<newline>'')
                           (waiting lib opts c w), None))
       \<and> (watcherNotBefore timeline (Workload.Name w) (Workload.Namespace w) (WaitTimeout opts)
          \<and> tailerNotBefore timeline opts (WaitTimeout opts)
          \<longrightarrow> raceEnd timeline (WaitTimeout opts) (waitWorkers lib opts w)
                = Returns (WaitTimeout opts, Some DeadlineExceeded)
            \<and> afterCreate lib opts c w True =
                Returns (print Printf (''Error: timeout after '' @ DurationString lib (WaitTimeout opts)
                           @ '' waiting for '' @ quote (WorkloadOptions.Name opts)
                           @ '' to become ready\<newline>'') (waiting lib opts c w),
                         Some (SilenceError DeadlineExceeded)))
       \<and> WaitTimeout defaultOptions = 10 * Minute"
proof (intro conjI impI)
  assume a: "\<not> GetWatcherFails timeline \<and> WatchError timeline = None
          \<and> Events timeline = pre @ (t, obj) # post
          \<and> list_all (undecided (Workload.Name w) (Workload.Namespace w)) pre
          \<and> Workload.Name obj = Workload.Name w \<and> Workload.Namespace obj = Workload.Namespace w
          \<and> readyCondition obj = Some cond \<and> Status cond = ConditionTrue
          \<and> t < WaitTimeout opts \<and> tailerNotBefore timeline opts t"
  then have "WorkloadReadyConditionFunc obj = (True, None)"
    using WorkloadReadyConditionFunc_status(1) by blast
  with a have "UntilCondition (Workload.Name w) (Workload.Namespace w) WorkloadReadyConditionFunc
                 (Events timeline) = Some (t, None)"
    using UntilCondition_decides[of "Workload.Name w" "Workload.Namespace w" pre obj True None t post]
    by simp
  with a show race: "raceEnd timeline (WaitTimeout opts) (waitWorkers lib opts w) = Returns (t, None)"
    by (intro raceEnd_watcher) simp_all
  from afterCreate_raceEnd[OF flag lib race]
  show "afterCreate lib opts c w True =
          Returns (print Infof (''Workload '' @ quote (WorkloadOptions.Name opts) @ '' is ready\<newline>'')
                     (waiting lib opts c w), None)"
    by simp
next
  assume a: "watcherNotBefore timeline (Workload.Name w) (Workload.Namespace w) (WaitTimeout opts)
          \<and> tailerNotBefore timeline opts (WaitTimeout opts)"
  then show race: "raceEnd timeline (WaitTimeout opts) (waitWorkers lib opts w)
                = Returns (WaitTimeout opts, Some DeadlineExceeded)"
    by (intro raceEnd_deadline) simp_all
  from afterCreate_raceEnd[OF flag lib race]
  show "afterCreate lib opts c w True =
                Returns (print Printf (''Error: timeout after '' @ DurationString lib (WaitTimeout opts)
                           @ '' waiting for '' @ quote (WorkloadOptions.Name opts)
                           @ '' to become ready\<newline>'') (waiting lib opts c w),
                         Some (SilenceError DeadlineExceeded))"
    by simp
next
  show "WaitTimeout defaultOptions = 10 * Minute" by (simp add: defaultOptions_def)
qed

text \<open>
  C5. With \<open>--wait\<close>, \<open>--tail\<close> or \<open>--tail-timestamp\<close> set and the workload created: if
  the watch delivers the workload with its Ready condition false at a time \<open>t\<close> before
  the deadline, after events that decide nothing, and the log tailer has not returned
  before, the race ends at \<open>t\<close>, before the deadline, with the error "Failed to become
  ready: <message of the condition>"; \<open>Exec\<close> prints "Error: Failed to become ready:
  <message>" on the error stream and returns that error, silenced.
\<close>

theorem afterCreate_fails_when_not_ready:
  assumes lib: "Race lib = Race_Timeline timeline"
      and flag: "Wait opts \<or> Tail opts \<or> TailTimestamps opts"
      and watcher: "\<not> GetWatcherFails timeline" "WatchError timeline = None"
      and event: "Events timeline = pre @ (t, obj) # post"
        "list_all (undecided (Workload.Name w) (Workload.Namespace w)) pre"
        "Workload.Name obj = Workload.Name w" "Workload.Namespace obj = Workload.Namespace w"
        "readyCondition obj = Some cond" "Status cond = ConditionFalse"
      and early: "t < WaitTimeout opts" "tailerNotBefore timeline opts t"
  shows "raceEnd timeline (WaitTimeout opts) (waitWorkers lib opts w)
           = Returns (t, Some (ErrorString (''Failed to become ready: '' @ Message cond)))
         \<and> afterCreate lib opts c w True =
             Returns (print Eprintf (''Error: Failed to become ready: '' @ Message cond @ ''\<newline>'')
                        (waiting lib opts c w),
                      Some (SilenceError (ErrorString (''Failed to become ready: '' @ Message cond))))"
proof -
  let ?err = "ErrorString (''Failed to become ready: '' @ Message cond)"
  from event have "WorkloadReadyConditionFunc obj = (False, Some ?err)"
    using WorkloadReadyConditionFunc_status(2) by blast
  with event have "UntilCondition (Workload.Name w) (Workload.Namespace w) WorkloadReadyConditionFunc
                 (Events timeline) = Some (t, Some ?err)"
    using UntilCondition_decides[of "Workload.Name w" "Workload.Namespace w" pre obj False "Some ?err" t post]
    by simp
  with watcher early
  have race: "raceEnd timeline (WaitTimeout opts) (waitWorkers lib opts w) = Returns (t, Some ?err)"
    by (intro raceEnd_watcher) simp_all
  from afterCreate_raceEnd[OF flag lib race] race show ?thesis by simp
qed


lemmas timeline_defs = sampleTimeline_def readyWorkload_def sampleWorkload_def sampleInput_def
  emptyWorkload_def undecided_def WorkloadReadyConditionFunc_def readyCondition_def
  WorkloadConditionReady_def tailerNotBefore_def watcherNotBefore_def

text \<open>
  Two runs of \<open>create my-workload --yes --wait\<close>: the workload becomes ready after 5 ns
  with a timeout of 7 ns, and it is not ready within a timeout of 1 ns.
\<close>

theorem afterCreate_waits_until_ready_or_deadline_witness:
  "(\<exists>c'. Exec (sampleLibrary\<lparr>Race := Race_Timeline (sampleTimeline
                    [(3, readyWorkload ConditionUnknown []), (5, readyWorkload ConditionTrue [])])\<rparr>)
            (sampleOptions\<lparr>Wait := True, WaitTimeout := 7, Tail := False, TailTimestamps := False\<rparr>)
            sampleContext sampleConfig = Returns (c', None)
         \<and> last (Output c') = (Infof, ''Workload '' @ quote ''my-workload'' @ '' is ready\<newline>''))
   \<and> raceEnd (sampleTimeline [(3, readyWorkload ConditionUnknown []), (5, readyWorkload ConditionTrue [])])
        7 [ReadyConditionWorker ''my-workload'' ''default''] = Returns (5, None)
   \<and> (\<exists>c'. Exec (sampleLibrary\<lparr>Race := Race_Timeline (sampleTimeline
                    [(3, readyWorkload ConditionUnknown [])])\<rparr>)
            (sampleOptions\<lparr>Wait := True, WaitTimeout := 1, Tail := False, TailTimestamps := False\<rparr>)
            sampleContext sampleConfig = Returns (c', Some (SilenceError DeadlineExceeded))
         \<and> last (Output c') = (Printf, ''Error: timeout after 1ns waiting for '' @ quote ''my-workload''
                                  @ '' to become ready\<newline>''))
   \<and> raceEnd (sampleTimeline [(3, readyWorkload ConditionUnknown [])])
        1 [ReadyConditionWorker ''my-workload'' ''default''] = Returns (1, Some DeadlineExceeded)"
proof -
  let ?t1 = "sampleTimeline [(3, readyWorkload ConditionUnknown []), (5, readyWorkload ConditionTrue [])]"
  let ?t2 = "sampleTimeline [(3, readyWorkload ConditionUnknown [])]"
  let ?l1 = "sampleLibrary\<lparr>Race := Race_Timeline ?t1\<rparr>"
  let ?l2 = "sampleLibrary\<lparr>Race := Race_Timeline ?t2\<rparr>"
  let ?o1 = "sampleOptions\<lparr>Wait := True, WaitTimeout := 7, Tail := False, TailTimestamps := False\<rparr>"
  let ?o2 = "sampleOptions\<lparr>Wait := True, WaitTimeout := 1, Tail := False, TailTimestamps := False\<rparr>"
  let ?cond = "\<lparr>Condition.Type = WorkloadConditionReady, Status = ConditionTrue, Reason = [], Message = []\<rparr>"
  have o1: "Wait ?o1" "\<not> Tail ?o1" "\<not> TailTimestamps ?o1" "WaitTimeout ?o1 = 7"
      "WorkloadOptions.Name ?o1 = ''my-workload''"
    and o2: "Wait ?o2" "\<not> Tail ?o2" "\<not> TailTimestamps ?o2" "WaitTimeout ?o2 = 1"
      "WorkloadOptions.Name ?o2 = ''my-workload''"
    by (simp_all add: sampleOptions_fields)
  have w: "Workload.Name sampleInput = ''my-workload''" "Workload.Namespace sampleInput = ''default''"
    by (simp_all add: sampleInput_def)
  have ww1: "waitWorkers ?l1 ?o1 sampleInput = [ReadyConditionWorker ''my-workload'' ''default'']"
    and ww2: "waitWorkers ?l2 ?o2 sampleInput = [ReadyConditionWorker ''my-workload'' ''default'']"
    using o1 o2 w by (simp_all add: waitWorkers_def Let_def)
  have d: "DurationString ?l2 1 = ''1ns''" by (simp add: sampleLibrary_def)
  from sample_Exec[where wait=True and timeout=7 and tail=False and timestamps=False
      and race="Race_Timeline ?t1", OF refl refl]
  obtain c3 where e1: "Exec ?l1 ?o1 sampleContext sampleConfig = afterCreate ?l1 ?o1 c3 sampleInput True"
    by blast
  from sample_Exec[where wait=True and timeout=1 and tail=False and timestamps=False
      and race="Race_Timeline ?t2", OF refl refl]
  obtain c4 where e2: "Exec ?l2 ?o2 sampleContext sampleConfig = afterCreate ?l2 ?o2 c4 sampleInput True"
    by blast
  have h1: "\<not> GetWatcherFails ?t1 \<and> WatchError ?t1 = None
          \<and> Events ?t1 = [(3, readyWorkload ConditionUnknown [])] @ (5, readyWorkload ConditionTrue []) # []
          \<and> list_all (undecided (Workload.Name sampleInput) (Workload.Namespace sampleInput))
               [(3, readyWorkload ConditionUnknown [])]
          \<and> Workload.Name (readyWorkload ConditionTrue []) = Workload.Name sampleInput
          \<and> Workload.Namespace (readyWorkload ConditionTrue []) = Workload.Namespace sampleInput
          \<and> readyCondition (readyWorkload ConditionTrue []) = Some ?cond \<and> Status ?cond = ConditionTrue
          \<and> 5 < WaitTimeout ?o1 \<and> tailerNotBefore ?t1 ?o1 5"
    using o1 by (simp add: timeline_defs)
  have h2: "watcherNotBefore ?t2 (Workload.Name sampleInput) (Workload.Namespace sampleInput) (WaitTimeout ?o2)
          \<and> tailerNotBefore ?t2 ?o2 (WaitTimeout ?o2)"
    using o2 by (simp add: timeline_defs)
  note T1 = afterCreate_waits_until_ready_or_deadline[where lib="?l1" and timeline="?t1" and opts="?o1"
      and pre="[(3, readyWorkload ConditionUnknown [])]" and t=5 and obj="readyWorkload ConditionTrue []"
      and post="[]" and w=sampleInput and cond="?cond" and c=c3]
  note T2 = afterCreate_waits_until_ready_or_deadline[where lib="?l2" and timeline="?t2" and opts="?o2"
      and w=sampleInput and c=c4]
  have "Race ?l1 = Race_Timeline ?t1" "Race ?l2 = Race_Timeline ?t2" by simp_all
  from conjunct1[OF T1[OF this(1)]] conjunct1[OF conjunct2[OF T2[OF this(2)]]] o1(1) o2(1) h1 h2
  have r: "raceEnd ?t1 (WaitTimeout ?o1) (waitWorkers ?l1 ?o1 sampleInput) = Returns (5, None)"
      "afterCreate ?l1 ?o1 c3 sampleInput True =
         Returns (print Infof (''Workload '' @ quote (WorkloadOptions.Name ?o1) @ '' is ready\<newline>'')
                    (waiting ?l1 ?o1 c3 sampleInput), None)"
      "raceEnd ?t2 (WaitTimeout ?o2) (waitWorkers ?l2 ?o2 sampleInput)
         = Returns (WaitTimeout ?o2, Some DeadlineExceeded)"
      "afterCreate ?l2 ?o2 c4 sampleInput True =
         Returns (print Printf (''Error: timeout after '' @ DurationString ?l2 (WaitTimeout ?o2)
                    @ '' waiting for '' @ quote (WorkloadOptions.Name ?o2)
                    @ '' to become ready\<newline>'') (waiting ?l2 ?o2 c4 sampleInput),
                  Some (SilenceError DeadlineExceeded))"
    by blast+
  from r(1) ww1 o1(4) have "raceEnd ?t1 7 [ReadyConditionWorker ''my-workload'' ''default''] = Returns (5, None)"
    by simp
  moreover from r(3) ww2 o2(4) have "raceEnd ?t2 1 [ReadyConditionWorker ''my-workload'' ''default'']
      = Returns (1, Some DeadlineExceeded)"
    by simp
  moreover from e1 r(2) o1(5) have "\<exists>c'. Exec ?l1 ?o1 sampleContext sampleConfig = Returns (c', None)
         \<and> last (Output c') = (Infof, ''Workload '' @ quote ''my-workload'' @ '' is ready\<newline>'')"
    by simp
  moreover from e2 r(4) o2(4,5) d have "\<exists>c'. Exec ?l2 ?o2 sampleContext sampleConfig
           = Returns (c', Some (SilenceError DeadlineExceeded))
         \<and> last (Output c') = (Printf, ''Error: timeout after 1ns waiting for '' @ quote ''my-workload''
                                  @ '' to become ready\<newline>'')"
    by simp
  ultimately show ?thesis by blast
qed

text \<open>
  The run of \<open>create my-workload --yes --wait\<close> in which the workload fails after 5 ns,
  with a timeout of 7 ns.
\<close>

theorem afterCreate_fails_when_not_ready_witness:
  "(\<exists>c'. Exec (sampleLibrary\<lparr>Race := Race_Timeline (sampleTimeline
                    [(3, readyWorkload ConditionUnknown []),
                     (5, readyWorkload ConditionFalse ''a hopefully informative message about what went wrong'')])\<rparr>)
            (sampleOptions\<lparr>Wait := True, WaitTimeout := 7, Tail := False, TailTimestamps := False\<rparr>)
            sampleContext sampleConfig
          = Returns (c', Some (SilenceError (ErrorString
               ''Failed to become ready: a hopefully informative message about what went wrong'')))
         \<and> last (Output c') = (Eprintf,
               ''Error: Failed to become ready: a hopefully informative message about what went wrong\<newline>''))
   \<and> raceEnd (sampleTimeline [(3, readyWorkload ConditionUnknown []),
                 (5, readyWorkload ConditionFalse ''a hopefully informative message about what went wrong'')])
        7 [ReadyConditionWorker ''my-workload'' ''default'']
      = Returns (5, Some (ErrorString
               ''Failed to become ready: a hopefully informative message about what went wrong''))"
proof -
  let ?msg = "''a hopefully informative message about what went wrong''"
  let ?t1 = "sampleTimeline [(3, readyWorkload ConditionUnknown []), (5, readyWorkload ConditionFalse ?msg)]"
  let ?l1 = "sampleLibrary\<lparr>Race := Race_Timeline ?t1\<rparr>"
  let ?o1 = "sampleOptions\<lparr>Wait := True, WaitTimeout := 7, Tail := False, TailTimestamps := False\<rparr>"
  let ?cond = "\<lparr>Condition.Type = WorkloadConditionReady, Status = ConditionFalse, Reason = [], Message = ?msg\<rparr>"
  have o1: "Wait ?o1" "\<not> Tail ?o1" "\<not> TailTimestamps ?o1" "WaitTimeout ?o1 = 7"
      "WorkloadOptions.Name ?o1 = ''my-workload''"
    by (simp_all add: sampleOptions_fields)
  have w: "Workload.Name sampleInput = ''my-workload''" "Workload.Namespace sampleInput = ''default''"
    by (simp_all add: sampleInput_def)
  have ww1: "waitWorkers ?l1 ?o1 sampleInput = [ReadyConditionWorker ''my-workload'' ''default'']"
    using o1 w by (simp_all add: waitWorkers_def Let_def)
  from sample_Exec[where wait=True and timeout=7 and tail=False and timestamps=False
      and race="Race_Timeline ?t1", OF refl refl]
  obtain c3 where e1: "Exec ?l1 ?o1 sampleContext sampleConfig = afterCreate ?l1 ?o1 c3 sampleInput True"
    by blast
  have h: "\<not> GetWatcherFails ?t1" "WatchError ?t1 = None"
      "Events ?t1 = [(3, readyWorkload ConditionUnknown [])] @ (5, readyWorkload ConditionFalse ?msg) # []"
      "list_all (undecided (Workload.Name sampleInput) (Workload.Namespace sampleInput))
               [(3, readyWorkload ConditionUnknown [])]"
      "Workload.Name (readyWorkload ConditionFalse ?msg) = Workload.Name sampleInput"
      "Workload.Namespace (readyWorkload ConditionFalse ?msg) = Workload.Namespace sampleInput"
      "readyCondition (readyWorkload ConditionFalse ?msg) = Some ?cond" "Status ?cond = ConditionFalse"
      "5 < WaitTimeout ?o1" "tailerNotBefore ?t1 ?o1 5"
    using o1 by (simp_all add: timeline_defs)
  have "Race ?l1 = Race_Timeline ?t1" "Wait ?o1 \<or> Tail ?o1 \<or> TailTimestamps ?o1"
    using o1 by simp_all
  from afterCreate_fails_when_not_ready[where c=c3, OF this h]
  have r: "raceEnd ?t1 (WaitTimeout ?o1) (waitWorkers ?l1 ?o1 sampleInput)
           = Returns (5, Some (ErrorString (''Failed to become ready: '' @ Message ?cond)))"
      "afterCreate ?l1 ?o1 c3 sampleInput True =
             Returns (print Eprintf (''Error: Failed to become ready: '' @ Message ?cond @ ''\<newline>'')
                        (waiting ?l1 ?o1 c3 sampleInput),
                      Some (SilenceError (ErrorString (''Failed to become ready: '' @ Message ?cond))))"
    by blast+
  from r(1) ww1 o1(4) have "raceEnd ?t1 7 [ReadyConditionWorker ''my-workload'' ''default'']
      = Returns (5, Some (ErrorString
               ''Failed to become ready: a hopefully informative message about what went wrong''))"
    by simp
  moreover from e1 r(2) have "\<exists>c'. Exec ?l1 ?o1 sampleContext sampleConfig
          = Returns (c', Some (SilenceError (ErrorString
               ''Failed to become ready: a hopefully informative message about what went wrong'')))
         \<and> last (Output c') = (Eprintf,
               ''Error: Failed to become ready: a hopefully informative message about what went wrong\<newline>'')"
    by simp
  ultimately show ?thesis by blast
qed

section \<open>The subcommands\<close>

text \<open>
  C7. The command built by \<open>NewWorkloadCommand\<close> is named \<open>workload\<close>, with the aliases
  \<open>workloads\<close> and \<open>wld\<close>, and has seven subcommands: list, get, tail, create, update,
  apply and delete, each once, and no other.
\<close>

theorem NewWorkloadCommand_subcommands:
  "Use NewWorkloadCommand = ''workload''
   \<and> Aliases NewWorkloadCommand = [''workloads'', ''wld'']
   \<and> Commands NewWorkloadCommand
       = [''list'', ''get'', ''tail'', ''create'', ''update'', ''apply'', ''delete'']
   \<and> set (Commands NewWorkloadCommand)
       = {''create'', ''update'', ''apply'', ''get'', ''list'', ''tail'', ''delete''}
   \<and> distinct (Commands NewWorkloadCommand) \<and> length (Commands NewWorkloadCommand) = 7"
proof -
  have "Commands NewWorkloadCommand
       = [''list'', ''get'', ''tail'', ''create'', ''update'', ''apply'', ''delete'']"
    by (simp add: NewWorkloadCommand_def AddCommand_def NewWorkloadListCommand_def
          NewWorkloadGetCommand_def NewWorkloadTailCommand_def NewWorkloadCreateCommand_def
          NewWorkloadUpdateCommand_def NewWorkloadApplyCommand_def NewWorkloadDeleteCommand_def)
  moreover have "Use NewWorkloadCommand = ''workload''"
      "Aliases NewWorkloadCommand = [''workloads'', ''wld'']"
    by (simp_all add: NewWorkloadCommand_def AddCommand_def)
  ultimately show ?thesis by auto
qed

end
